theory Spec2Isabelle
  imports Complex_Main "HOL-Library.Word"
begin

section \<open>Python exceptions as values\<close>

text \<open>
  Every \<^verbatim>\<open>raise\<close> of the sources is a value of this type, returned on the left of a
  sum.  \<open>AbstractClassError\<close> is the \<^verbatim>\<open>TypeError\<close> that Python raises when a class
  that still has abstract methods is instantiated; it carries the names of these methods.
  \<open>OpenDatasetError\<close> stands for whatever \<^verbatim>\<open>xarray.open_dataset\<close> raises on a file
  that it cannot read.
\<close>

datatype error =
    ValueError
  | TypeError
  | KeyError
  | IndexError
  | AbstractClassError "string list"
  | OpenDatasetError
  | MissingUnitsError
  | IncompatibleUnitsError
  | TemplateMismatchError
  | KernelComputationError

section \<open>Machine numbers\<close>

text \<open>
  numpy computes on \<^verbatim>\<open>int64\<close>, whose arithmetic wraps around silently, and on
  \<^verbatim>\<open>float64\<close>; Python's own floats are \<^verbatim>\<open>float64\<close> as well.  An \<^verbatim>\<open>int64\<close> is a
  word of 64 bits, read as a signed number by \<open>sint\<close>.

  A finite \<^verbatim>\<open>float64\<close> is written \<open>Finite m e\<close> and stands for the number
  \<open>m * 2 ^ e\<close>; the two infinities and NaN are the other values.  The sign of zero is not
  modelled.  A value may have several representations; they are compared by their
  numbers, never by their representations.
\<close>

type_synonym int64 = "64 word"

datatype float64 = Finite int int | PosInf | NegInf | NaN

fun float64_real :: "float64 \<Rightarrow> real option" where
  "float64_real (Finite m e) = Some (real_of_int m * 2 powi e)"
| "float64_real PosInf = None"
| "float64_real NegInf = None"
| "float64_real NaN = None"

text \<open>
  Rounding to the nearest \<^verbatim>\<open>float64\<close>, ties to the even mantissa, as IEEE 754 prescribes
  for every arithmetic operation and as Python does when it reads a decimal literal.
  \<open>bitlen n\<close> is the number of binary digits of \<open>n\<close>; \<open>floor_log2 n d\<close> is the
  integer part of the binary logarithm of the fraction \<open>n / d\<close>, for positive \<open>n\<close> and
  \<open>d\<close>; \<open>round_half_even n d\<close> is the integer nearest to the fraction \<open>n / d\<close>.
  \<open>round_float64 n d\<close> rounds the fraction \<open>n / d\<close>, for positive \<open>d\<close>: the mantissa
  keeps 53 binary digits, fewer when the exponent would fall below \<open>-1074\<close> (the
  subnormal numbers), and a result of \<open>2 ^ 1024\<close> or more overflows to an infinity.
\<close>

fun bitlen :: "nat \<Rightarrow> nat" where
  "bitlen n = (if n = 0 then 0 else Suc (bitlen (n div 2)))"

declare bitlen.simps [simp del]

definition round_half_even :: "int \<Rightarrow> int \<Rightarrow> int" where
  "round_half_even n d =
     (let q = n div d; r = n mod d
      in if 2 * r < d then q
         else if d < 2 * r then q + 1
         else if even q then q else q + 1)"

definition floor_log2 :: "int \<Rightarrow> int \<Rightarrow> int" where
  "floor_log2 n d =
     (let k = int (bitlen (nat n)) - int (bitlen (nat d))
      in if (if 0 \<le> k then d * 2 ^ nat k \<le> n else d \<le> n * 2 ^ nat (- k)) then k else k - 1)"

definition round_float64 :: "int \<Rightarrow> int \<Rightarrow> float64" where
  "round_float64 n d =
     (if n = 0 then Finite 0 0
      else let e = max (floor_log2 \<bar>n\<bar> d - 52) (- 1074);
               m = (if 0 \<le> e then round_half_even n (d * 2 ^ nat e)
                    else round_half_even (n * 2 ^ nat (- e)) d)
           in if 0 \<le> e \<and> 2 ^ 1024 \<le> \<bar>m\<bar> * 2 ^ nat e
              then (if 0 < n then PosInf else NegInf)
              else Finite m e)"

text \<open>
  The conversion of an integer, the decimal literal \<open>m * 10 ^ (- k)\<close>, and the rounding
  of \<open>m * 2 ^ e\<close>.
\<close>

definition float64_of_int :: "int \<Rightarrow> float64" where
  "float64_of_int x = round_float64 x 1"

definition float64_of_decimal :: "int \<Rightarrow> nat \<Rightarrow> float64" where
  "float64_of_decimal m k = round_float64 m (10 ^ k)"

definition round_dyadic :: "int \<Rightarrow> int \<Rightarrow> float64" where
  "round_dyadic m e =
     (if 0 \<le> e then round_float64 (m * 2 ^ nat e) 1 else round_float64 m (2 ^ nat (- e)))"

text \<open>
  Addition, negation, subtraction, absolute value and division: the exact result,
  rounded.  A division by zero gives an infinity or NaN, as numpy does.
\<close>

fun float64_add :: "float64 \<Rightarrow> float64 \<Rightarrow> float64" where
  "float64_add (Finite m1 e1) (Finite m2 e2) =
     round_dyadic (m1 * 2 ^ nat (e1 - min e1 e2) + m2 * 2 ^ nat (e2 - min e1 e2)) (min e1 e2)"
| "float64_add NaN y = NaN"
| "float64_add x NaN = NaN"
| "float64_add PosInf NegInf = NaN"
| "float64_add NegInf PosInf = NaN"
| "float64_add PosInf y = PosInf"
| "float64_add NegInf y = NegInf"
| "float64_add x PosInf = PosInf"
| "float64_add x NegInf = NegInf"

fun float64_neg :: "float64 \<Rightarrow> float64" where
  "float64_neg (Finite m e) = Finite (- m) e"
| "float64_neg PosInf = NegInf"
| "float64_neg NegInf = PosInf"
| "float64_neg NaN = NaN"

definition float64_sub :: "float64 \<Rightarrow> float64 \<Rightarrow> float64" where
  "float64_sub x y = float64_add x (float64_neg y)"

fun float64_abs :: "float64 \<Rightarrow> float64" where
  "float64_abs (Finite m e) = Finite \<bar>m\<bar> e"
| "float64_abs PosInf = PosInf"
| "float64_abs NegInf = PosInf"
| "float64_abs NaN = NaN"

fun float64_div :: "float64 \<Rightarrow> float64 \<Rightarrow> float64" where
  "float64_div (Finite m1 e1) (Finite m2 e2) =
     (if m2 = 0 then (if m1 = 0 then NaN else if 0 < m1 then PosInf else NegInf)
      else let s = (if m2 < 0 then - 1 else 1)
           in if e2 \<le> e1 then round_float64 (s * m1 * 2 ^ nat (e1 - e2)) (s * m2)
              else round_float64 (s * m1) (s * m2 * 2 ^ nat (e2 - e1)))"
| "float64_div (Finite m e) PosInf = Finite 0 0"
| "float64_div (Finite m e) NegInf = Finite 0 0"
| "float64_div PosInf (Finite m e) = (if 0 \<le> m then PosInf else NegInf)"
| "float64_div NegInf (Finite m e) = (if 0 \<le> m then NegInf else PosInf)"
| "float64_div _ _ = NaN"

text \<open>
  Comparisons: between two floats, and between a float and a Python integer, which
  Python compares exactly.  Every comparison with NaN is false.
\<close>

fun float64_le :: "float64 \<Rightarrow> float64 \<Rightarrow> bool" where
  "float64_le (Finite m1 e1) (Finite m2 e2) =
     (m1 * 2 ^ nat (e1 - min e1 e2) \<le> m2 * 2 ^ nat (e2 - min e1 e2))"
| "float64_le NaN y = False"
| "float64_le x NaN = False"
| "float64_le NegInf y = True"
| "float64_le x PosInf = True"
| "float64_le PosInf y = False"
| "float64_le x NegInf = False"

fun float64_less_int :: "float64 \<Rightarrow> int \<Rightarrow> bool" where
  "float64_less_int (Finite m e) k =
     (if 0 \<le> e then m * 2 ^ nat e < k else m < k * 2 ^ nat (- e))"
| "float64_less_int NegInf k = True"
| "float64_less_int PosInf k = False"
| "float64_less_int NaN k = False"

fun int_less_float64 :: "int \<Rightarrow> float64 \<Rightarrow> bool" where
  "int_less_float64 k (Finite m e) =
     (if 0 \<le> e then k < m * 2 ^ nat e else k * 2 ^ nat (- e) < m)"
| "int_less_float64 k PosInf = True"
| "int_less_float64 k NegInf = False"
| "int_less_float64 k NaN = False"

fun is_nan :: "float64 \<Rightarrow> bool" where
  "is_nan NaN = True"
| "is_nan _ = False"

fun is_finite_nonzero :: "float64 \<Rightarrow> bool" where
  "is_finite_nonzero (Finite m e) = (m \<noteq> 0)"
| "is_finite_nonzero _ = False"

text \<open>
  Python's built-in \<^verbatim>\<open>sum\<close> on a list of floats.  It starts from the integer 0, so
  the first float is added to 0.  Up to CPython 3.11 every further float is added to the
  running total, one rounded addition after the other.  From CPython 3.12 the loop also
  accumulates the rounding errors of these additions in a compensation term (the
  summation of Neumaier) and adds the term to the total at the end, unless it is zero or
  not finite.  The sources do not fix the interpreter, so the algorithm is a parameter.
  The sum of the empty list is the integer 0.
\<close>

datatype float_summation = Plain_summation | Neumaier_summation

fun sum_plain :: "float64 \<Rightarrow> float64 list \<Rightarrow> float64" where
  "sum_plain f_result [] = f_result"
| "sum_plain f_result (x # xs) = sum_plain (float64_add f_result x) xs"

fun sum_neumaier :: "float64 \<Rightarrow> float64 \<Rightarrow> float64 list \<Rightarrow> float64" where
  "sum_neumaier f_result c [] = (if is_finite_nonzero c then float64_add f_result c else f_result)"
| "sum_neumaier f_result c (x # xs) =
     (let t = float64_add f_result x
      in sum_neumaier t
           (float64_add c
              (if float64_le (float64_abs x) (float64_abs f_result)
               then float64_add (float64_sub f_result t) x
               else float64_add (float64_sub x t) f_result))
           xs)"

definition py_sum :: "float_summation \<Rightarrow> float64 list \<Rightarrow> float64" where
  "py_sum alg xs =
     (case xs of
        [] \<Rightarrow> Finite 0 0
      | x # rest \<Rightarrow>
          (case alg of
             Plain_summation \<Rightarrow> sum_plain (float64_add (Finite 0 0) x) rest
           | Neumaier_summation \<Rightarrow> sum_neumaier (float64_add (Finite 0 0) x) (Finite 0 0) rest))"

section \<open>Cohort axis of a functional group (\<^verbatim>\<open>configuration_to_dataset.py\<close>)\<close>

text \<open>
  \<^verbatim>\<open>numpy.cumsum\<close> over a one-dimensional array is a running sum from the left, in
  the arithmetic of the array.  numpy reads the list \<^verbatim>\<open>timesteps_number\<close> as an array
  of \<^verbatim>\<open>int64\<close>; a list that holds an integer outside the range of \<^verbatim>\<open>int64\<close> is read
  with another element type and is not covered by this model.
\<close>

fun cumsum_from :: "int64 \<Rightarrow> int64 list \<Rightarrow> int64 list" where
  "cumsum_from acc [] = []"
| "cumsum_from acc (x # xs) = (acc + x) # cumsum_from (acc + x) xs"

definition cumsum :: "int64 list \<Rightarrow> int64 list" where
  "cumsum xs = cumsum_from 0 xs"

text \<open>
  The argument \<^verbatim>\<open>fgroup\<close> becomes the coordinate of the functional-group dimension.
  It is a scalar, as the annotation of the parameter says, or a one-dimensional array, as
  the caller \<^verbatim>\<open>_as_dataset__build_cohort_dataset\<close> passes.
\<close>

datatype 'g coordinate = Scalar_coordinate 'g | Array_coordinate "'g list"

text \<open>
  The dataset returned by \<^verbatim>\<open>_as_dataset__build_cohort_dataset___cohort_by_fgroup\<close>:
  the two coordinates and the four data variables, each of them one row along the
  functional group and one column per cohort.
\<close>

record 'g cohort_dataset =
  fgroup :: "'g list"
  cohort :: "nat list"
  timesteps_number :: "int64 list"
  min_timestep :: "int64 list"
  max_timestep :: "int64 list"
  mean_timestep :: "float64 list"

text \<open>
  The three arrays are computed first: the sum and the differences on \<^verbatim>\<open>int64\<close>, and
  the division by 2 on \<^verbatim>\<open>float64\<close>, to which numpy converts both operands.  Every data
  variable has one row along the functional group, so \<^verbatim>\<open>xarray.Dataset\<close> raises
  \<^verbatim>\<open>ValueError\<close> unless the coordinate of the functional group is an array of one
  element.
\<close>

definition cohort_by_fgroup :: "'g coordinate \<Rightarrow> int64 list \<Rightarrow> error + 'g cohort_dataset" where
  "cohort_by_fgroup fg ts =
     (let cohort_index = [0 ..< length ts];
          max_ts = cumsum ts;
          min_ts = map2 (\<lambda>m n. m - (n - 1)) max_ts ts;
          mean_ts = map2 (\<lambda>mx mn. float64_div (float64_of_int (sint (mx + mn))) (float64_of_int 2))
                      max_ts min_ts
      in case fg of
           Scalar_coordinate g \<Rightarrow> Inl ValueError
         | Array_coordinate gs \<Rightarrow>
             if length gs = 1
             then Inr \<lparr> fgroup = gs, cohort = cohort_index, timesteps_number = ts,
                        min_timestep = min_ts, max_timestep = max_ts, mean_timestep = mean_ts \<rparr>
             else Inl ValueError)"

section \<open>Functional-group parameters (\<^verbatim>\<open>parameters.py\<close>)\<close>

text \<open>
  The energy coefficients are Python floats, as the field is annotated.
\<close>

record FunctionalGroupUnit =
  fgroup_name :: string
  fgroup_day_layer :: int
  fgroup_night_layer :: int
  energy_coefficient :: float64

text \<open>
  The field validators of one functional group, in the order of the fields.  The
  validator \<^verbatim>\<open>ge(0)\<close> raises unless \<^verbatim>\<open>value >= 0\<close> holds and \<^verbatim>\<open>le(1)\<close> unless
  \<^verbatim>\<open>value <= 1\<close> holds; neither holds for NaN.
\<close>

definition new_FunctionalGroupUnit ::
  "string \<Rightarrow> int \<Rightarrow> int \<Rightarrow> float64 \<Rightarrow> error + FunctionalGroupUnit" where
  "new_FunctionalGroupUnit nm day night coef =
     (if \<not> 0 < day then Inl ValueError
      else if \<not> 0 < night then Inl ValueError
      else if is_nan coef \<or> float64_less_int coef 0 then Inl ValueError
      else if is_nan coef \<or> int_less_float64 1 coef then Inl ValueError
      else Inr \<lparr> fgroup_name = nm, fgroup_day_layer = day, fgroup_night_layer = night,
                 energy_coefficient = coef \<rparr>)"

record FunctionalGroups =
  functional_groups :: "FunctionalGroupUnit list"

text \<open>
  The validator of the list: \<^verbatim>\<open>sum\<close> of the coefficients, compared with the integer 1.
\<close>

definition no_more_than_global_coef ::
  "float_summation \<Rightarrow> FunctionalGroupUnit list \<Rightarrow> error + unit" where
  "no_more_than_global_coef alg val =
     (let total_energy = py_sum alg (map energy_coefficient val)
      in if int_less_float64 1 total_energy then Inl ValueError else Inr ())"

text \<open>Construction stores the list and then runs the validator of the field.\<close>

definition new_FunctionalGroups ::
  "float_summation \<Rightarrow> FunctionalGroupUnit list \<Rightarrow> error + FunctionalGroups" where
  "new_FunctionalGroups alg fgs =
     (case no_more_than_global_coef alg fgs of
        Inl e \<Rightarrow> Inl e
      | Inr _ \<Rightarrow> Inr \<lparr> functional_groups = fgs \<rparr>)"

section \<open>Forcing paths (\<^verbatim>\<open>parameters.py\<close>)\<close>

text \<open>
  The file system is a parameter: a path either does not exist, or holds something that
  \<^verbatim>\<open>xarray.open_dataset\<close> opens as a dataset with the listed variable and coordinate
  names, or holds something that it cannot open.
\<close>

datatype forcing_file = Dataset "string list" | NotADataset

type_synonym filesystem = "string \<Rightarrow> forcing_file option"

record PathParametersUnit =
  forcing_path :: string
  name :: string

definition open_dataset :: "filesystem \<Rightarrow> string \<Rightarrow> error + string list" where
  "open_dataset fs path =
     (case fs path of
        Some (Dataset vars) \<Rightarrow> Inr vars
      | _ \<Rightarrow> Inl OpenDatasetError)"

definition path_exists :: "filesystem \<Rightarrow> string \<Rightarrow> error + unit" where
  "path_exists fs val = (if fs val = None then Inl ValueError else Inr ())"

definition name_isin_forcing :: "filesystem \<Rightarrow> PathParametersUnit \<Rightarrow> string \<Rightarrow> error + unit" where
  "name_isin_forcing fs self val =
     (case open_dataset fs (forcing_path self) of
        Inl e \<Rightarrow> Inl e
      | Inr vars \<Rightarrow> if val \<notin> set vars then Inl ValueError else Inr ())"

text \<open>
  The generated constructor sets both fields and then runs the validators in the order
  in which the fields are declared.
\<close>

definition new_PathParametersUnit ::
  "filesystem \<Rightarrow> string \<Rightarrow> string \<Rightarrow> error + PathParametersUnit" where
  "new_PathParametersUnit fs path nm =
     (let self = \<lparr> forcing_path = path, name = nm \<rparr>
      in case path_exists fs (forcing_path self) of
           Inl e \<Rightarrow> Inl e
         | Inr _ \<Rightarrow>
             (case name_isin_forcing fs self (name self) of
                Inl e \<Rightarrow> Inl e
              | Inr _ \<Rightarrow> Inr self))"

section \<open>Construction of the model (\<^verbatim>\<open>base_model.py\<close>, \<^verbatim>\<open>no_transport_model.py\<close>)\<close>

text \<open>
  The names that \<^verbatim>\<open>BaseModel\<close> declares abstract (\<^verbatim>\<open>abc.abstractmethod\<close>,
  \<^verbatim>\<open>abc.abstractclassmethod\<close>), in the order of the class body, and the names that the
  class body of \<^verbatim>\<open>NoTransportModel\<close> binds.  A name stays abstract in the subclass
  unless the subclass binds it; Python refuses to instantiate a class while its set of
  abstract names is not empty.
\<close>

definition BaseModel_abstractmethods :: "string list" where
  "BaseModel_abstractmethods =
     [''configuration'', ''parse'', ''initialize_client'', ''generate_configuration'',
      ''save_state'', ''pre_production'', ''production'', ''post_production'',
      ''save_output'', ''close'']"

definition NoTransportModel_namespace :: "string list" where
  "NoTransportModel_namespace =
     [''__init__'', ''configuration'', ''client'', ''parse'', ''initialize'',
      ''generate_configuration'', ''save_configuration'', ''pre_production'',
      ''production'', ''post_production'', ''save_output'', ''close'']"

definition NoTransportModel_abstractmethods :: "string list" where
  "NoTransportModel_abstractmethods =
     filter (\<lambda>m. m \<notin> set NoTransportModel_namespace) BaseModel_abstractmethods"

text \<open>
  The argument of the constructor by its dynamic type: \<^verbatim>\<open>None\<close>, an instance of
  \<^verbatim>\<open>NoTransportParameters\<close>, an instance of \<^verbatim>\<open>NoTransportConfiguration\<close>, or any
  other object.  The two classes are not among the sources; their instances are values of
  the type parameters \<open>'p\<close> and \<open>'c\<close>, and the constructor of the configuration class is the
  parameter \<open>NoTransportConfiguration\<close> below.
\<close>

datatype ('p, 'c) py_object =
    PyNone
  | Parameters_instance 'p
  | Configuration_instance 'c
  | Other_instance

record ('c, 'd) NoTransportModel =
  configuration :: 'c
  state :: "'d option"

text \<open>The body of \<^verbatim>\<open>__init__\<close>.\<close>

definition NoTransportModel_init ::
  "('p \<Rightarrow> 'c) \<Rightarrow> ('p, 'c) py_object \<Rightarrow> error + ('c, 'd) NoTransportModel" where
  "NoTransportModel_init NoTransportConfiguration arg =
     (case arg of
        Parameters_instance p \<Rightarrow>
          Inr \<lparr> configuration = NoTransportConfiguration p, state = None \<rparr>
      | Configuration_instance c \<Rightarrow> Inr \<lparr> configuration = c, state = None \<rparr>
      | _ \<Rightarrow> Inl TypeError)"

text \<open>
  The call \<^verbatim>\<open>NoTransportModel(configuration)\<close>: the object is allocated first, which
  fails for a class with abstract methods, and \<^verbatim>\<open>__init__\<close> runs on the new object.
\<close>

definition NoTransportModel_call ::
  "('p \<Rightarrow> 'c) \<Rightarrow> ('p, 'c) py_object \<Rightarrow> error + ('c, 'd) NoTransportModel" where
  "NoTransportModel_call NoTransportConfiguration arg =
     (if NoTransportModel_abstractmethods \<noteq> []
      then Inl (AbstractClassError NoTransportModel_abstractmethods)
      else NoTransportModel_init NoTransportConfiguration arg)"

definition generate_configuration ::
  "('c \<Rightarrow> 'd) \<Rightarrow> ('c, 'd) NoTransportModel \<Rightarrow> ('c, 'd) NoTransportModel" where
  "generate_configuration model_parameters self =
     self \<lparr> state := Some (model_parameters (configuration self)) \<rparr>"

section \<open>The pre-production phase (\<^verbatim>\<open>no_transport_model.py\<close>)\<close>

text \<open>
  The keys of the state container are members of two enumerations.  The members of
  \<^verbatim>\<open>PreproductionLabels\<close> are those of the dictionary in \<^verbatim>\<open>pre_production\<close>; of
  \<^verbatim>\<open>ConfigurationLabels\<close> only the members that the sources refer to are listed.
\<close>

datatype PreproductionLabels =
    PreproductionLabels_global_mask
  | PreproductionLabels_mask_by_fgroup
  | PreproductionLabels_day_length
  | PreproductionLabels_avg_temperature_by_fgroup
  | PreproductionLabels_primary_production_by_fgroup
  | PreproductionLabels_min_temperature
  | PreproductionLabels_mask_temperature
  | PreproductionLabels_cell_area
  | PreproductionLabels_mortality_field

datatype ConfigurationLabels =
    ConfigurationLabels_temperature
  | ConfigurationLabels_day_layer
  | ConfigurationLabels_night_layer

datatype label = Conf ConfigurationLabels | Pre PreproductionLabels

text \<open>The functions of the module \<^verbatim>\<open>generator\<close> that the dictionary names.\<close>

datatype generator =
    generator_global_mask
  | generator_mask_by_fgroup
  | generator_day_length
  | generator_average_temperature
  | generator_apply_coefficient_to_primary_production
  | generator_min_temperature
  | generator_mask_temperature
  | generator_cell_area
  | generator_mortality_field

text \<open>
  The state container maps a key to a value or to nothing.  The values (labelled arrays)
  are left abstract here.  A kernel reads the container by key, \<^verbatim>\<open>state[key]\<close>, which
  raises \<^verbatim>\<open>KeyError\<close> on a key that the container does not hold; so a kernel is the list
  of the keys that its body looks up and a function of the container that runs once all
  of them have been found.  The bodies of most kernels are not among the sources: the
  table \<open>impl\<close> from the function names to kernels is a parameter of the phase.
\<close>

type_synonym 'v state_container = "label \<Rightarrow> 'v option"

record 'v kernel_function =
  reads :: "label list"
  compute :: "'v state_container \<Rightarrow> error + 'v"

definition call_kernel :: "'v kernel_function \<Rightarrow> 'v state_container \<Rightarrow> error + 'v" where
  "call_kernel k st =
     (if list_all (\<lambda>l. st l \<noteq> None) (reads k) then compute k st else Inl KeyError)"

text \<open>
  The dictionary \<^verbatim>\<open>kernel\<close> of \<^verbatim>\<open>pre_production\<close>, as the list of its items in
  insertion order, which is the order in which a Python dictionary is iterated.
\<close>

definition kernel :: "(PreproductionLabels \<times> generator) list" where
  "kernel =
     [(PreproductionLabels_global_mask, generator_global_mask),
      (PreproductionLabels_mask_by_fgroup, generator_mask_by_fgroup),
      (PreproductionLabels_day_length, generator_day_length),
      (PreproductionLabels_avg_temperature_by_fgroup, generator_average_temperature),
      (PreproductionLabels_primary_production_by_fgroup,
         generator_apply_coefficient_to_primary_production),
      (PreproductionLabels_min_temperature, generator_min_temperature),
      (PreproductionLabels_mask_temperature, generator_mask_temperature),
      (PreproductionLabels_cell_area, generator_cell_area),
      (PreproductionLabels_mortality_field, generator_mortality_field)]"

text \<open>
  The loop \<^verbatim>\<open>for name, func in kernel.items(): self.state[name] = func(self.state)\<close>.
  An exception of a kernel ends the loop.
\<close>

fun run_kernels ::
  "(generator \<Rightarrow> 'v kernel_function) \<Rightarrow> (PreproductionLabels \<times> generator) list \<Rightarrow>
   'v state_container \<Rightarrow> error + 'v state_container" where
  "run_kernels impl [] st = Inr st"
| "run_kernels impl ((nm, func) # rest) st =
     (case call_kernel (impl func) st of
        Inl e \<Rightarrow> Inl e
      | Inr v \<Rightarrow> run_kernels impl rest (st (Pre nm \<mapsto> v)))"

text \<open>
  The phase first re-chunks every field, which changes no key, and then runs the loop.
  The chunk specification that every kernel also receives is part of \<open>impl\<close>.
\<close>

definition pre_production ::
  "('v \<Rightarrow> 'v) \<Rightarrow> (generator \<Rightarrow> 'v kernel_function) \<Rightarrow> 'v state_container \<Rightarrow>
   error + 'v state_container" where
  "pre_production chunk impl st = run_kernels impl kernel (map_option chunk \<circ> st)"

text \<open>
  The same loop, recording every call: the key, the function and the container that the
  function receives.
\<close>

fun kernel_calls ::
  "(generator \<Rightarrow> 'v kernel_function) \<Rightarrow> (PreproductionLabels \<times> generator) list \<Rightarrow>
   'v state_container \<Rightarrow> (PreproductionLabels \<times> generator \<times> 'v state_container) list" where
  "kernel_calls impl [] st = []"
| "kernel_calls impl ((nm, func) # rest) st =
     (nm, func, st) #
     (case call_kernel (impl func) st of
        Inl e \<Rightarrow> []
      | Inr v \<Rightarrow> kernel_calls impl rest (st (Pre nm \<mapsto> v)))"




definition average_temperature_reads :: "label list" where
  "average_temperature_reads =
     [Conf ConfigurationLabels_temperature, Pre PreproductionLabels_day_length,
      Pre PreproductionLabels_mask_by_fgroup, Conf ConfigurationLabels_day_layer,
      Conf ConfigurationLabels_night_layer]"



section \<open>Selection of the exported timestamps (\<^verbatim>\<open>no_transport_model.py\<close>)\<close>

text \<open>
  The configured selection is \<^verbatim>\<open>None\<close>, the string \<^verbatim>\<open>"all"\<close> or a list.  An element
  of a list is an integer, a boolean, a string or something else.
\<close>

datatype timestamp =
    Int_timestamp int
  | Bool_timestamp bool
  | Str_timestamp string
  | Other_timestamp

datatype timestamps_parameter =
    Timestamps_None
  | Timestamps_all
  | Timestamps_list "timestamp list"

text \<open>
  \<^verbatim>\<open>isinstance(x, int)\<close> holds for integers and for booleans, which are integers in
  Python; \<^verbatim>\<open>isinstance(x, str)\<close> holds for strings only.  \<open>int_of\<close>, \<open>bool_of\<close> and
  \<open>str_of\<close> read an element of the kind that the name says.
\<close>

fun isinstance_int :: "timestamp \<Rightarrow> bool" where
  "isinstance_int (Int_timestamp i) = True"
| "isinstance_int (Bool_timestamp b) = True"
| "isinstance_int _ = False"

fun isinstance_str :: "timestamp \<Rightarrow> bool" where
  "isinstance_str (Str_timestamp s) = True"
| "isinstance_str _ = False"

fun isinstance_bool :: "timestamp \<Rightarrow> bool" where
  "isinstance_bool (Bool_timestamp b) = True"
| "isinstance_bool _ = False"

fun int_of :: "timestamp \<Rightarrow> int" where
  "int_of (Int_timestamp i) = i"
| "int_of (Bool_timestamp b) = (if b then 1 else 0)"
| "int_of _ = 0"

fun bool_of :: "timestamp \<Rightarrow> bool" where
  "bool_of (Bool_timestamp b) = b"
| "bool_of _ = False"

fun str_of :: "timestamp \<Rightarrow> string" where
  "str_of (Str_timestamp s) = s"
| "str_of _ = []"

text \<open>
  \<^verbatim>\<open>data.isel(time=timestamps)\<close> turns the list into an array.  A non-empty list of
  booleans becomes a boolean array, which selects by mask; any other list of integers and
  booleans becomes an array of integers, in which \<^verbatim>\<open>True\<close> is 1 and \<^verbatim>\<open>False\<close> is 0,
  and selects by position.
\<close>

datatype indexer = Positions "int list" | Mask "bool list"

definition as_indexer :: "timestamp list \<Rightarrow> indexer" where
  "as_indexer xs =
     (if xs \<noteq> [] \<and> list_all isinstance_bool xs then Mask (map bool_of xs)
      else Positions (map int_of xs))"

text \<open>
  The time coordinate \<^verbatim>\<open>data\<close> is the list of its values.  Selection by position
  counts a negative position from the end and raises \<^verbatim>\<open>IndexError\<close> for a position
  outside the axis; selection by mask raises \<^verbatim>\<open>IndexError\<close> unless the mask is as long
  as the axis.
\<close>

definition position :: "nat \<Rightarrow> int \<Rightarrow> nat" where
  "position n i = nat (if i < 0 then i + int n else i)"

fun isel_positions :: "'t list \<Rightarrow> int list \<Rightarrow> error + 't list" where
  "isel_positions data [] = Inr []"
| "isel_positions data (i # idx) =
     (if - int (length data) \<le> i \<and> i < int (length data)
      then (case isel_positions data idx of
              Inl e \<Rightarrow> Inl e
            | Inr ds \<Rightarrow> Inr (data ! position (length data) i # ds))
      else Inl IndexError)"

fun isel :: "'t list \<Rightarrow> indexer \<Rightarrow> error + 't list" where
  "isel data (Positions idx) = isel_positions data idx"
| "isel data (Mask bs) =
     (if length bs = length data then Inr (map fst (filter snd (zip data bs)))
      else Inl IndexError)"

text \<open>
  \<^verbatim>\<open>data.sel(time=ss, method="nearest")\<close> looks each date string up in the index of the
  axis.  The lookup of one string belongs to xarray and pandas and is the parameter
  \<open>nearest\<close>: it returns the value of the axis that it selects, or the exception that
  it raises.
\<close>

fun sel_nearest :: "('t list \<Rightarrow> string \<Rightarrow> error + 't) \<Rightarrow> 't list \<Rightarrow> string list \<Rightarrow> error + 't list" where
  "sel_nearest nearest data [] = Inr []"
| "sel_nearest nearest data (s # ss) =
     (case nearest data s of
        Inl e \<Rightarrow> Inl e
      | Inr d \<Rightarrow>
          (case sel_nearest nearest data ss of
             Inl e \<Rightarrow> Inl e
           | Inr ds \<Rightarrow> Inr (d # ds)))"

text \<open>
  \<^verbatim>\<open>data.isin(selected_dates)\<close> and the indexing of \<^verbatim>\<open>np.arange(data.size)\<close> by the
  resulting boolean array.
\<close>

definition isin :: "'t list \<Rightarrow> 't list \<Rightarrow> bool list" where
  "isin data selected_dates = map (\<lambda>d. d \<in> set selected_dates) data"

definition mask_index :: "nat list \<Rightarrow> bool list \<Rightarrow> nat list" where
  "mask_index xs cond = map fst (filter snd (zip xs cond))"

text \<open>The helper \<^verbatim>\<open>_preproduction_converter\<close> of \<^verbatim>\<open>production\<close>.\<close>

definition preproduction_converter ::
  "('t list \<Rightarrow> string \<Rightarrow> error + 't) \<Rightarrow> 't list \<Rightarrow> timestamps_parameter \<Rightarrow>
   error + nat list option" where
  "preproduction_converter nearest data timestamps =
     (case timestamps of
        Timestamps_None \<Rightarrow> Inr None
      | Timestamps_all \<Rightarrow> Inr (Some [0 ..< length data])
      | Timestamps_list xs \<Rightarrow>
          (case (if list_all isinstance_int xs then isel data (as_indexer xs)
                 else if list_all isinstance_str xs then sel_nearest nearest data (map str_of xs)
                 else Inl TypeError) of
             Inl e \<Rightarrow> Inl e
           | Inr selected_dates \<Rightarrow>
               Inr (Some (mask_index [0 ..< length data] (isin data selected_dates)))))"

text \<open>
  A lookup for a time axis of integers, used in the examples: it knows one date and raises
  \<^verbatim>\<open>TypeError\<close> for every other string.
\<close>

definition one_date_lookup :: "int list \<Rightarrow> string \<Rightarrow> error + int" where
  "one_date_lookup data s = (if s = ''2020-01-02'' then Inr 20 else Inl TypeError)"


section \<open>Labelled arrays and the average temperature (\<^verbatim>\<open>average_temperature.py\<close>)\<close>

text \<open>
  A labelled array has an ordered list of dimensions, a unit attribute and one value for
  every position along its dimensions.  A position is an assignment of a number to every
  axis; an array only looks at the axes among its dimensions.  The shape is not part of
  the model: the values at positions beyond the size of an axis are never looked at.
\<close>

datatype CoordinatesLabels =
    CoordinatesLabels_functional_group
  | CoordinatesLabels_time
  | CoordinatesLabels_Y
  | CoordinatesLabels_X
  | CoordinatesLabels_Z

type_synonym index = "CoordinatesLabels \<Rightarrow> nat"

text \<open>
  A float is a real number or NaN (the value \<open>None\<close>); arithmetic on NaN gives NaN.
  Rounding and infinities are not modelled.
\<close>

type_synonym float = "real option"

record 'a DataArray =
  dims :: "CoordinatesLabels list"
  units :: "string option"
  cell :: "index \<Rightarrow> 'a"

text \<open>
  The state is an \<^verbatim>\<open>xarray.Dataset\<close>: its variables by key, and one coordinate per
  axis that all variables share, so that arithmetic between two variables never has to
  align them.  Of the coordinates the model keeps the labels of the layer axis and the
  size of every axis.  A variable holds floats, booleans or integers; a variable
  of another element type than the helper expects is outside the model and is answered
  with \<^verbatim>\<open>TypeError\<close>.
\<close>

datatype array =
    Float_array "float DataArray"
  | Bool_array "bool DataArray"
  | Int_array "int DataArray"

record state =
  coords_Z :: "int list"
  sizes :: "CoordinatesLabels \<Rightarrow> nat"
  variables :: "array state_container"

definition get_float :: "state \<Rightarrow> label \<Rightarrow> error + float DataArray" where
  "get_float st l =
     (case variables st l of
        None \<Rightarrow> Inl KeyError
      | Some (Float_array a) \<Rightarrow> Inr a
      | Some _ \<Rightarrow> Inl TypeError)"

definition get_bool :: "state \<Rightarrow> label \<Rightarrow> error + bool DataArray" where
  "get_bool st l =
     (case variables st l of
        None \<Rightarrow> Inl KeyError
      | Some (Bool_array a) \<Rightarrow> Inr a
      | Some _ \<Rightarrow> Inl TypeError)"

definition get_int :: "state \<Rightarrow> label \<Rightarrow> error + int DataArray" where
  "get_int st l =
     (case variables st l of
        None \<Rightarrow> Inl KeyError
      | Some (Int_array a) \<Rightarrow> Inr a
      | Some _ \<Rightarrow> Inl TypeError)"

text \<open>
  Modelled from the spec: \<^verbatim>\<open>seapopym.standard.units\<close> is not among the sources.  The
  specification gives degree Celsius for temperatures and day for day lengths, and
  describes \<^verbatim>\<open>check_units\<close>: a field without unit is a \<^verbatim>\<open>MissingUnitsError\<close>, a
  field whose unit cannot be converted an \<^verbatim>\<open>IncompatibleUnitsError\<close>; otherwise the
  result has the shape of the field, its values are expressed in the expected unit and
  the unit tag is stripped; on a field that is already in the expected unit the values are
  unchanged.  The table of conversions is the parameter \<open>convert\<close>.
\<close>

definition StandardUnitsLabels_temperature_units :: string where
  "StandardUnitsLabels_temperature_units = ''degC''"

text \<open>
  Modelled from the spec: the standard unit of a day length.
\<close>

definition StandardUnitsLabels_time_units :: string where
  "StandardUnitsLabels_time_units = ''day''"

text \<open>
  Modelled from the spec: \<^verbatim>\<open>check_units\<close>, as described above.
\<close>

definition check_units ::
  "(string \<Rightarrow> string \<Rightarrow> (real \<Rightarrow> real) option) \<Rightarrow> float DataArray \<Rightarrow> string \<Rightarrow>
   error + float DataArray" where
  "check_units convert field expected_unit =
     (case units field of
        None \<Rightarrow> Inl MissingUnitsError
      | Some u \<Rightarrow>
          if u = expected_unit then Inr (field \<lparr> units := None \<rparr>)
          else (case convert u expected_unit of
                  None \<Rightarrow> Inl IncompatibleUnitsError
                | Some f \<Rightarrow>
                    Inr \<lparr> dims = dims field, units = None, cell = map_option f \<circ> cell field \<rparr>))"

text \<open>
  \<^verbatim>\<open>temperature.cf.sel(Z=label)\<close> selects the layer with the given label and drops the
  axis; a label that the coordinate does not hold, or an array without the axis, is a
  \<^verbatim>\<open>KeyError\<close>.  Selecting a functional group works in the same way; the loop of the
  helper walks the coordinate of the functional groups and selects each group by its own
  label, which is the selection of its position.  \<open>item\<close> reads the value of an array
  without dimensions.
\<close>

fun label_position :: "int \<Rightarrow> int list \<Rightarrow> nat option" where
  "label_position l [] = None"
| "label_position l (x # xs) = (if x = l then Some 0 else map_option Suc (label_position l xs))"

definition sel_Z :: "int list \<Rightarrow> 'a DataArray \<Rightarrow> int \<Rightarrow> error + 'a DataArray" where
  "sel_Z layer arr l =
     (if CoordinatesLabels_Z \<notin> set (dims arr) then Inl KeyError
      else (case label_position l layer of
              None \<Rightarrow> Inl KeyError
            | Some p \<Rightarrow>
                Inr \<lparr> dims = remove1 CoordinatesLabels_Z (dims arr), units = units arr,
                      cell = (\<lambda>i. cell arr (i (CoordinatesLabels_Z := p))) \<rparr>))"

definition sel_functional_group :: "'a DataArray \<Rightarrow> nat \<Rightarrow> error + 'a DataArray" where
  "sel_functional_group arr g =
     (if CoordinatesLabels_functional_group \<notin> set (dims arr) then Inl KeyError
      else Inr \<lparr> dims = remove1 CoordinatesLabels_functional_group (dims arr), units = units arr,
                 cell = (\<lambda>i. cell arr (i (CoordinatesLabels_functional_group := g))) \<rparr>)"

definition item :: "'a DataArray \<Rightarrow> 'a" where
  "item arr = cell arr (\<lambda>d. 0)"

text \<open>
  Arithmetic between two arrays broadcasts: the result has the dimensions of the left
  operand followed by those that only the right operand has, and its value at a position
  is the operation on the two values at that position.  \<^verbatim>\<open>where\<close> keeps the value
  where the condition is true and gives NaN elsewhere.  \<^verbatim>\<open>xarray.concat\<close> along a new
  dimension puts this dimension first and raises \<^verbatim>\<open>ValueError\<close> on an empty list.
\<close>

definition broadcast_dims :: "CoordinatesLabels list \<Rightarrow> CoordinatesLabels list \<Rightarrow> CoordinatesLabels list" where
  "broadcast_dims a b = a @ filter (\<lambda>d. d \<notin> set a) b"

definition fadd :: "float \<Rightarrow> float \<Rightarrow> float" where
  "fadd a b = (case (a, b) of (Some x, Some y) \<Rightarrow> Some (x + y) | _ \<Rightarrow> None)"

definition fsub :: "float \<Rightarrow> float \<Rightarrow> float" where
  "fsub a b = (case (a, b) of (Some x, Some y) \<Rightarrow> Some (x - y) | _ \<Rightarrow> None)"

definition fmul :: "float \<Rightarrow> float \<Rightarrow> float" where
  "fmul a b = (case (a, b) of (Some x, Some y) \<Rightarrow> Some (x * y) | _ \<Rightarrow> None)"

definition binary_op ::
  "(float \<Rightarrow> float \<Rightarrow> float) \<Rightarrow> float DataArray \<Rightarrow> float DataArray \<Rightarrow> float DataArray" where
  "binary_op f a b =
     \<lparr> dims = broadcast_dims (dims a) (dims b), units = None,
       cell = (\<lambda>i. f (cell a i) (cell b i)) \<rparr>"

definition scalar_op ::
  "(float \<Rightarrow> float \<Rightarrow> float) \<Rightarrow> real \<Rightarrow> float DataArray \<Rightarrow> float DataArray" where
  "scalar_op f c a = \<lparr> dims = dims a, units = None, cell = (\<lambda>i. f (Some c) (cell a i)) \<rparr>"

definition where_cond :: "float DataArray \<Rightarrow> bool DataArray \<Rightarrow> float DataArray" where
  "where_cond a cond =
     \<lparr> dims = broadcast_dims (dims a) (dims cond), units = units a,
       cell = (\<lambda>i. if cell cond i then cell a i else None) \<rparr>"

definition xr_concat :: "CoordinatesLabels \<Rightarrow> float DataArray list \<Rightarrow> error + float DataArray" where
  "xr_concat new_dim arrs =
     (case arrs of
        [] \<Rightarrow> Inl ValueError
      | a # _ \<Rightarrow>
          Inr \<lparr> dims = new_dim # dims a, units = units a,
                cell = (\<lambda>i. if i new_dim < length arrs then cell (arrs ! i new_dim) i else None) \<rparr>)"

text \<open>The loop over the functional groups; the first exception ends it.\<close>

fun for_each :: "('a \<Rightarrow> error + 'b) \<Rightarrow> 'a list \<Rightarrow> error + 'b list" where
  "for_each f [] = Inr []"
| "for_each f (x # xs) =
     (case f x of
        Inl e \<Rightarrow> Inl e
      | Inr y \<Rightarrow> (case for_each f xs of Inl e \<Rightarrow> Inl e | Inr ys \<Rightarrow> Inr (y # ys)))"

text \<open>
  The body of the loop of \<^verbatim>\<open>_average_temperature_by_fgroup_helper\<close> for the group at
  position \<open>g\<close>.  Dropping the scalar coordinate \<^verbatim>\<open>Z\<close> that the selection leaves behind
  changes neither the dimensions nor the values and has no counterpart here.
\<close>

definition mean_temperature_of_fgroup ::
  "int list \<Rightarrow> float DataArray \<Rightarrow> float DataArray \<Rightarrow> bool DataArray \<Rightarrow> int DataArray \<Rightarrow>
   int DataArray \<Rightarrow> nat \<Rightarrow> error + float DataArray" where
  "mean_temperature_of_fgroup layer temp dlen msk dlayer nlayer g =
     (case sel_functional_group dlayer g of
        Inl e \<Rightarrow> Inl e
      | Inr day_label \<Rightarrow>
     (case sel_Z layer temp (item day_label) of
        Inl e \<Rightarrow> Inl e
      | Inr day_temperature \<Rightarrow>
     (case sel_functional_group nlayer g of
        Inl e \<Rightarrow> Inl e
      | Inr night_label \<Rightarrow>
     (case sel_Z layer temp (item night_label) of
        Inl e \<Rightarrow> Inl e
      | Inr night_temperature \<Rightarrow>
     (let mean_temperature =
            binary_op fadd (binary_op fmul dlen day_temperature)
              (binary_op fmul (scalar_op fsub 1 dlen) night_temperature)
      in case sel_functional_group msk g of
           Inl e \<Rightarrow> Inl e
         | Inr mask_of_fgroup \<Rightarrow> Inr (where_cond mean_temperature mask_of_fgroup))))))"

text \<open>The helper \<^verbatim>\<open>_average_temperature_by_fgroup_helper\<close>.\<close>

definition average_temperature_by_fgroup_helper ::
  "(string \<Rightarrow> string \<Rightarrow> (real \<Rightarrow> real) option) \<Rightarrow> state \<Rightarrow> error + float DataArray" where
  "average_temperature_by_fgroup_helper convert st =
     (case get_float st (Conf ConfigurationLabels_temperature) of
        Inl e \<Rightarrow> Inl e
      | Inr t0 \<Rightarrow>
     (case check_units convert t0 StandardUnitsLabels_temperature_units of
        Inl e \<Rightarrow> Inl e
      | Inr temp \<Rightarrow>
     (case get_float st (Pre PreproductionLabels_day_length) of
        Inl e \<Rightarrow> Inl e
      | Inr d0 \<Rightarrow>
     (case check_units convert d0 StandardUnitsLabels_time_units of
        Inl e \<Rightarrow> Inl e
      | Inr dlen \<Rightarrow>
     (case get_bool st (Pre PreproductionLabels_mask_by_fgroup) of
        Inl e \<Rightarrow> Inl e
      | Inr msk \<Rightarrow>
     (case get_int st (Conf ConfigurationLabels_day_layer) of
        Inl e \<Rightarrow> Inl e
      | Inr dlayer \<Rightarrow>
     (case get_int st (Conf ConfigurationLabels_night_layer) of
        Inl e \<Rightarrow> Inl e
      | Inr nlayer \<Rightarrow>
     (case for_each (mean_temperature_of_fgroup (coords_Z st) temp dlen msk dlayer nlayer)
             [0 ..< sizes st CoordinatesLabels_functional_group] of
        Inl e \<Rightarrow> Inl e
      | Inr average_temperature \<Rightarrow>
          xr_concat CoordinatesLabels_functional_group average_temperature))))))))"



text \<open>
  The state of the reference test: four functional groups with the day layers
  \<open>[1, 1, 2, 2]\<close> and the night layers \<open>[1, 2, 2, 1]\<close>, a temperature that equals the
  position of the layer, a day length of one half everywhere, and a mask that the test
  sets to true everywhere and that is left open here; the time axis and the two spatial
  axes have one point each.
  Modelled from the spec: \<^verbatim>\<open>coordinates.new_layer\<close> is not among the sources.  The
  expected temperatures of the test fix the first two labels of the layer coordinate to 1
  and 2; the labels after them are left open.
\<close>

definition reference_state :: "(index \<Rightarrow> bool) \<Rightarrow> int list \<Rightarrow> state" where
  "reference_state msk more_layers =
     \<lparr> coords_Z = 1 # 2 # more_layers,
       sizes = (\<lambda>d. 1) (CoordinatesLabels_functional_group := 4,
                      CoordinatesLabels_Z := 2 + length more_layers),
       variables =
         [Conf ConfigurationLabels_temperature \<mapsto>
            Float_array \<lparr> dims = [CoordinatesLabels_time, CoordinatesLabels_Y, CoordinatesLabels_X,
                                  CoordinatesLabels_Z],
                          units = Some ''degC'',
                          cell = (\<lambda>i. Some (real (i CoordinatesLabels_Z))) \<rparr>,
          Pre PreproductionLabels_day_length \<mapsto>
            Float_array \<lparr> dims = [CoordinatesLabels_time, CoordinatesLabels_Y, CoordinatesLabels_X],
                          units = Some ''day'',
                          cell = (\<lambda>i. Some 0.5) \<rparr>,
          Pre PreproductionLabels_mask_by_fgroup \<mapsto>
            Bool_array \<lparr> dims = [CoordinatesLabels_functional_group, CoordinatesLabels_Y,
                                 CoordinatesLabels_X],
                         units = None,
                         cell = msk \<rparr>,
          Conf ConfigurationLabels_day_layer \<mapsto>
            Int_array \<lparr> dims = [CoordinatesLabels_functional_group], units = None,
                        cell = (\<lambda>i. [1, 1, 2, 2] ! i CoordinatesLabels_functional_group) \<rparr>,
          Conf ConfigurationLabels_night_layer \<mapsto>
            Int_array \<lparr> dims = [CoordinatesLabels_functional_group], units = None,
                        cell = (\<lambda>i. [1, 2, 2, 1] ! i CoordinatesLabels_functional_group) \<rparr>] \<rparr>"


section \<open>Eager and deferred execution of a kernel\<close>

text \<open>
  Modelled from the spec: \<^verbatim>\<open>seapopym.function.core.template\<close> (\<^verbatim>\<open>Template\<close>,
  \<^verbatim>\<open>TemplateLazy\<close>, \<^verbatim>\<open>apply_map_block\<close>) is not among the sources; only its callers
  are.  The definitions of this section follow the specification of the state container,
  of the templates and of the kernel wrapper.

  A chunk specification maps an axis to a block size; the size 0 stands for an axis that
  the specification does not name, which is not split.  The specification partitions every
  field of the container into blocks.  A block is numbered along every axis; the blocks of
  a container are all numberings within the number of blocks of each axis.
\<close>

type_synonym chunk = "CoordinatesLabels \<Rightarrow> nat"

definition all_axes :: "CoordinatesLabels list" where
  "all_axes =
     [CoordinatesLabels_functional_group, CoordinatesLabels_time, CoordinatesLabels_Y,
      CoordinatesLabels_X, CoordinatesLabels_Z]"

text \<open>
  Modelled from the spec: the number of blocks of an axis of a given size for a given
  block size, and the blocks of a container.
\<close>

definition n_blocks :: "nat \<Rightarrow> nat \<Rightarrow> nat" where
  "n_blocks n k = (if k = 0 then 1 else (n + k - 1) div k)"

fun blocks_along :: "CoordinatesLabels list \<Rightarrow> chunk \<Rightarrow> (CoordinatesLabels \<Rightarrow> nat) \<Rightarrow> index list" where
  "blocks_along [] ch sz = [\<lambda>d. 0]"
| "blocks_along (x # xs) ch sz =
     concat (map (\<lambda>b. map (\<lambda>k. b (x := k)) [0 ..< n_blocks (sz x) (ch x)])
               (blocks_along xs ch sz))"

definition all_blocks :: "chunk \<Rightarrow> (CoordinatesLabels \<Rightarrow> nat) \<Rightarrow> index list" where
  "all_blocks ch sz = blocks_along all_axes ch sz"

text \<open>
  Modelled from the spec: the container restricted to one block.  Every field is
  restricted to the positions of the block, renumbered from 0, and the coordinates shrink
  accordingly.  \<open>global_index\<close> gives the position in the whole container of a position
  in a block; \<open>block_of\<close> and \<open>local_index\<close> go the other way.
\<close>

definition block_sizes :: "chunk \<Rightarrow> index \<Rightarrow> (CoordinatesLabels \<Rightarrow> nat) \<Rightarrow> CoordinatesLabels \<Rightarrow> nat" where
  "block_sizes ch b sz d = (if ch d = 0 then sz d else min (ch d) (sz d - b d * ch d))"

definition global_index :: "chunk \<Rightarrow> index \<Rightarrow> index \<Rightarrow> index" where
  "global_index ch b i = (\<lambda>d. b d * ch d + i d)"

text \<open>
  Modelled from the spec: a field restricted to a block, and the container restricted to
  a block.
\<close>

definition block_array :: "chunk \<Rightarrow> index \<Rightarrow> 'a DataArray \<Rightarrow> 'a DataArray" where
  "block_array ch b a = a \<lparr> cell := (\<lambda>i. cell a (global_index ch b i)) \<rparr>"

fun block_variable :: "chunk \<Rightarrow> index \<Rightarrow> array \<Rightarrow> array" where
  "block_variable ch b (Float_array a) = Float_array (block_array ch b a)"
| "block_variable ch b (Bool_array a) = Bool_array (block_array ch b a)"
| "block_variable ch b (Int_array a) = Int_array (block_array ch b a)"

definition block_state :: "chunk \<Rightarrow> index \<Rightarrow> state \<Rightarrow> state" where
  "block_state ch b st =
     \<lparr> coords_Z =
         (if ch CoordinatesLabels_Z = 0 then coords_Z st
          else take (ch CoordinatesLabels_Z)
                 (drop (b CoordinatesLabels_Z * ch CoordinatesLabels_Z) (coords_Z st))),
       sizes = block_sizes ch b (sizes st),
       variables = map_option (block_variable ch b) \<circ> variables st \<rparr>"

definition block_of :: "chunk \<Rightarrow> index \<Rightarrow> index" where
  "block_of ch i = (\<lambda>d. if ch d = 0 then 0 else i d div ch d)"

definition local_index :: "chunk \<Rightarrow> index \<Rightarrow> index" where
  "local_index ch i = (\<lambda>d. if ch d = 0 then i d else i d mod ch d)"

definition same_block :: "index \<Rightarrow> index \<Rightarrow> bool" where
  "same_block b b' = list_all (\<lambda>d. b d = b' d) all_axes"

text \<open>
  The two template classes with the arguments that the wrappers in
  \<^verbatim>\<open>average_temperature.py\<close> and \<^verbatim>\<open>global_mask.py\<close> pass: name, dimensions,
  attributes and chunk specification, and for the lazy class the name of the model.
\<close>

datatype Template =
    Template PreproductionLabels "CoordinatesLabels list" "(string \<times> string) list" chunk
  | TemplateLazy PreproductionLabels "CoordinatesLabels list" "(string \<times> string) list" chunk string

text \<open>
  Modelled from the spec: what \<^verbatim>\<open>apply_map_block\<close> returns.  On the eager path it is
  the computed array with the name and the attributes of the template.  On the lazy path
  it is a placeholder with the name, attributes and dimensions of the template, together
  with the deferred computation: the blocks of the container and the function that is to
  run on each of them.  Both present a name, attributes and dimensions to the caller.
\<close>

type_synonym kernel_body = "state \<Rightarrow> error + float DataArray"

datatype SeapopymForcing =
    Computed PreproductionLabels "(string \<times> string) list" "float DataArray"
  | Deferred PreproductionLabels "(string \<times> string) list" "CoordinatesLabels list" chunk
      "(index \<times> state) list" kernel_body

fun forcing_name :: "SeapopymForcing \<Rightarrow> PreproductionLabels" where
  "forcing_name (Computed n attrs a) = n"
| "forcing_name (Deferred n attrs ds ch tasks f) = n"

fun forcing_attrs :: "SeapopymForcing \<Rightarrow> (string \<times> string) list" where
  "forcing_attrs (Computed n attrs a) = attrs"
| "forcing_attrs (Deferred n attrs ds ch tasks f) = attrs"

fun forcing_dims :: "SeapopymForcing \<Rightarrow> CoordinatesLabels list" where
  "forcing_dims (Computed n attrs a) = dims a"
| "forcing_dims (Deferred n attrs ds ch tasks f) = ds"

text \<open>
  Modelled from the spec: the eager path invokes the function on the container at once,
  validates the result against the template (the set of its dimensions must be the
  declared one) and attaches the metadata of the template.  A failure of the function
  becomes a \<^verbatim>\<open>KernelComputationError\<close>, a mismatch a \<^verbatim>\<open>TemplateMismatchError\<close>.  The
  lazy path runs nothing: it returns the placeholder and registers the function to run
  block by block.
\<close>

definition attach :: "(string \<times> string) list \<Rightarrow> float DataArray \<Rightarrow> float DataArray" where
  "attach attrs a = a \<lparr> units := map_of attrs ''units'' \<rparr>"

text \<open>
  Modelled from the spec: running the function and validating its result against the
  declared dimensions.
\<close>

definition run_validated :: "kernel_body \<Rightarrow> CoordinatesLabels list \<Rightarrow> state \<Rightarrow> error + float DataArray" where
  "run_validated f ds st =
     (case f st of
        Inl e \<Rightarrow> Inl KernelComputationError
      | Inr a \<Rightarrow> if set (dims a) \<noteq> set ds then Inl TemplateMismatchError else Inr a)"

text \<open>
  Modelled from the spec: \<^verbatim>\<open>apply_map_block\<close> with its eager and its lazy path.
\<close>

definition apply_map_block :: "kernel_body \<Rightarrow> state \<Rightarrow> Template \<Rightarrow> error + SeapopymForcing" where
  "apply_map_block f st template =
     (case template of
        Template n ds attrs ch \<Rightarrow>
          (case run_validated f ds st of
             Inl e \<Rightarrow> Inl e
           | Inr a \<Rightarrow> Inr (Computed n attrs (attach attrs a)))
      | TemplateLazy n ds attrs ch model_name \<Rightarrow>
          Inr (Deferred n attrs ds ch
                 (map (\<lambda>b. (b, block_state ch b st)) (all_blocks ch (sizes st))) f))"

text \<open>
  Modelled from the spec: forcing a deferred value runs the function on every block,
  independently, validates each result, and puts the results together in the placeholder:
  the value at a position is the value at the corresponding position of the result for
  the block that holds the position.  A failure on a block surfaces here.
\<close>

definition assemble ::
  "CoordinatesLabels list \<Rightarrow> chunk \<Rightarrow> (index \<times> float DataArray) list \<Rightarrow> float DataArray" where
  "assemble ds ch parts =
     \<lparr> dims = ds, units = None,
       cell = (\<lambda>i. case find (\<lambda>(b, a). same_block b (block_of ch i)) parts of
                     None \<Rightarrow> None
                   | Some (b, a) \<Rightarrow> cell a (local_index ch i)) \<rparr>"

text \<open>
  Modelled from the spec: forcing the evaluation of a value.
\<close>

definition materialize :: "SeapopymForcing \<Rightarrow> error + SeapopymForcing" where
  "materialize v =
     (case v of
        Computed n attrs a \<Rightarrow> Inr (Computed n attrs a)
      | Deferred n attrs ds ch tasks f \<Rightarrow>
          (case for_each (\<lambda>(b, s). case run_validated f ds s of
                                      Inl e \<Rightarrow> Inl e
                                    | Inr a \<Rightarrow> Inr (b, a)) tasks of
             Inl e \<Rightarrow> Inl e
           | Inr parts \<Rightarrow> Inr (Computed n attrs (attach attrs (assemble ds ch parts)))))"

text \<open>
  A position is inside a grid when it is below the size of every axis.  A kernel is
  block-local for a chunk specification when, on every block of the container, it succeeds
  with the dimensions of its result on the whole container and agrees with that result at
  every position of the block.
\<close>

definition inside :: "(CoordinatesLabels \<Rightarrow> nat) \<Rightarrow> index \<Rightarrow> bool" where
  "inside sz i = list_all (\<lambda>d. i d < sz d) all_axes"

definition block_local ::
  "kernel_body \<Rightarrow> state \<Rightarrow> chunk \<Rightarrow> float DataArray \<Rightarrow> bool" where
  "block_local f st ch a =
     list_all (\<lambda>b. case f (block_state ch b st) of
                     Inl e \<Rightarrow> False
                   | Inr p \<Rightarrow> set (dims p) = set (dims a) \<and>
                       (\<forall>i. inside (block_sizes ch b (sizes st)) i \<longrightarrow>
                            cell p i = cell a (global_index ch b i)))
       (all_blocks ch (sizes st))"


text \<open>
  Forcing the result of a call, and the value of a computed result at a position.
\<close>

definition force :: "error + SeapopymForcing \<Rightarrow> error + SeapopymForcing" where
  "force r = (case r of Inl e \<Rightarrow> Inl e | Inr v \<Rightarrow> materialize v)"








text \<open>
  The wrapper \<^verbatim>\<open>average_temperature\<close> of the sources: it chooses the class of the
  template by its argument \<^verbatim>\<open>lazy\<close> and hands the helper, the state and the template
  to \<^verbatim>\<open>apply_map_block\<close>.  The attributes \<^verbatim>\<open>average_temperature_by_fgroup_desc\<close> are not
  among the sources and are a parameter.  The wrapper \<^verbatim>\<open>global_mask\<close> has the same
  shape; its function \<^verbatim>\<open>landmask_from_nan\<close> is not among the sources.
\<close>

definition average_temperature ::
  "(string \<times> string) list \<Rightarrow> (string \<Rightarrow> string \<Rightarrow> (real \<Rightarrow> real) option) \<Rightarrow> state \<Rightarrow>
   chunk \<Rightarrow> string option \<Rightarrow> error + SeapopymForcing" where
  "average_temperature average_temperature_by_fgroup_desc convert st ch lazy =
     (let template =
            (case lazy of
               None \<Rightarrow>
                 Template PreproductionLabels_avg_temperature_by_fgroup
                   [CoordinatesLabels_functional_group, CoordinatesLabels_time,
                    CoordinatesLabels_Y, CoordinatesLabels_X]
                   average_temperature_by_fgroup_desc ch
             | Some model_name \<Rightarrow>
                 TemplateLazy PreproductionLabels_avg_temperature_by_fgroup
                   [CoordinatesLabels_functional_group, CoordinatesLabels_time,
                    CoordinatesLabels_Y, CoordinatesLabels_X]
                   average_temperature_by_fgroup_desc ch model_name)
      in apply_map_block (average_temperature_by_fgroup_helper convert) st template)"


section \<open>Theorems\<close>

subsection \<open>Rounding to \<^verbatim>\<open>float64\<close>\<close>

lemma bitlen_0 [simp]: "bitlen 0 = 0"
  by (simp add: bitlen.simps)

lemma bitlen_Suc_0 [simp]: "bitlen (Suc 0) = 1"
  by (simp add: bitlen.simps)

lemma bitlen_numeral [simp]: "bitlen (numeral k) = Suc (bitlen (numeral k div 2))"
  by (subst bitlen.simps) simp

lemma bitlen_bounds: "0 < n \<Longrightarrow> 2 ^ (bitlen n - 1) \<le> n \<and> n < 2 ^ bitlen n"
proof (induction n rule: bitlen.induct)
  case (1 n)
  show ?case
  proof (cases "n div 2 = 0")
    case True
    with 1 have "n = 1" by (simp add: div_eq_0_iff) 
    then show ?thesis by simp
  next
    case False
    then have p: "0 < n div 2" by simp
    from 1 have n0: "n \<noteq> 0" by simp
    have ih: "2 ^ (bitlen (n div 2) - 1) \<le> n div 2 \<and> n div 2 < 2 ^ bitlen (n div 2)"
      using 1(1) [OF n0 p] .
    have b: "bitlen n = Suc (bitlen (n div 2))"
      using n0 by (subst bitlen.simps) simp
    have pos: "0 < bitlen (n div 2)"
      using p by (subst bitlen.simps) simp
    then have e: "2 ^ (bitlen n - 1) = 2 * (2::nat) ^ (bitlen (n div 2) - 1)"
      unfolding b by (cases "bitlen (n div 2)") simp_all
    have "2 * (2::nat) ^ (bitlen (n div 2) - 1) \<le> 2 * (n div 2)"
      using ih by simp
    then have lo: "2 ^ (bitlen n - 1) \<le> n"
      unfolding e by linarith
    have "n < 2 * 2 ^ bitlen (n div 2)"
      using ih by linarith
    then have hi: "n < 2 ^ bitlen n"
      unfolding b by simp
    show ?thesis using lo hi by simp
  qed
qed

lemma bitlen_pos: "0 < n \<Longrightarrow> 0 < bitlen n"
  by (subst bitlen.simps) simp

lemma bitlen_real_bounds:
  assumes "0 < n"
  shows "(2::real) powi (int (bitlen (nat n)) - 1) \<le> real_of_int n"
    and "real_of_int n < 2 powi (int (bitlen (nat n)))"
proof -
  let ?N = "nat n"
  have N: "0 < ?N" using assms by simp
  have b: "2 ^ (bitlen ?N - 1) \<le> ?N \<and> ?N < 2 ^ bitlen ?N"
    using N by (rule bitlen_bounds)
  have bp: "0 < bitlen ?N" using N by (rule bitlen_pos)
  have e: "int (bitlen ?N) - 1 = int (bitlen ?N - 1)"
    using bp by simp
  have "real (2 ^ (bitlen ?N - 1)) \<le> real ?N"
    using b by (simp only: of_nat_le_iff)
  then show "(2::real) powi (int (bitlen (nat n)) - 1) \<le> real_of_int n"
    unfolding e using assms by simp
  have "real ?N < real (2 ^ bitlen ?N)"
    using b by (simp only: of_nat_less_iff)
  then show "real_of_int n < 2 powi (int (bitlen (nat n)))"
    using assms by simp
qed

lemma floor_log2_bounds:
  assumes n: "0 < n" and d: "0 < d"
  shows "real_of_int d * 2 powi (floor_log2 n d) \<le> real_of_int n"
    and "real_of_int n < real_of_int d * 2 powi (floor_log2 n d + 1)"
proof -
  define bn where "bn = int (bitlen (nat n))"
  define bd where "bd = int (bitlen (nat d))"
  define k where "k = bn - bd"
  have n1: "(2::real) powi (bn - 1) \<le> real_of_int n" and n2: "real_of_int n < 2 powi bn"
    unfolding bn_def using bitlen_real_bounds [OF n] by blast+
  have d1: "(2::real) powi (bd - 1) \<le> real_of_int d" and d2: "real_of_int d < 2 powi bd"
    unfolding bd_def using bitlen_real_bounds [OF d] by blast+
  have add: "(2::real) powi a * 2 powi b = 2 powi (a + b)" for a b :: int
    by (rule power_int_add [symmetric]) simp
  have lo: "real_of_int d * 2 powi (k - 1) < real_of_int n"
  proof -
    have "real_of_int d * 2 powi (k - 1) < 2 powi bd * 2 powi (k - 1)"
      using d2 by simp
    also have "\<dots> = 2 powi (bn - 1)"
      unfolding add k_def by simp
    also have "\<dots> \<le> real_of_int n" by (rule n1)
    finally show ?thesis .
  qed
  have hi: "real_of_int n < real_of_int d * 2 powi (k + 1)"
  proof -
    have "real_of_int n < 2 powi bn" by (rule n2)
    also have "\<dots> = 2 powi (bd - 1) * 2 powi (k + 1)"
      unfolding add k_def by simp
    also have "\<dots> \<le> real_of_int d * 2 powi (k + 1)"
      using d1 by simp
    finally show ?thesis .
  qed
  have test: "(if 0 \<le> k then d * 2 ^ nat k \<le> n else d \<le> n * 2 ^ nat (- k))
      = (real_of_int d * 2 powi k \<le> real_of_int n)"
  proof (cases "0 \<le> k")
    case True
    then have "(2::real) powi k = 2 ^ nat k"
      by (simp add: power_int_def)
    then have "(real_of_int d * 2 powi k \<le> real_of_int n)
        = (real_of_int (d * 2 ^ nat k) \<le> real_of_int n)"
      by simp
    then show ?thesis using True by (simp only: of_int_le_iff if_True)
  next
    case False
    then have p: "(2::real) powi k = 1 / 2 ^ nat (- k)"
      by (simp add: power_int_def power_one_over)
    have "(real_of_int d * 2 powi k \<le> real_of_int n)
        = (real_of_int d \<le> real_of_int (n * 2 ^ nat (- k)))"
      unfolding p by (simp add: field_simps)
    then show ?thesis using False by (simp only: of_int_le_iff if_False)
  qed
  have fl: "floor_log2 n d = (if real_of_int d * 2 powi k \<le> real_of_int n then k else k - 1)"
    unfolding floor_log2_def Let_def bn_def [symmetric] bd_def [symmetric] k_def [symmetric] test ..
  show "real_of_int d * 2 powi (floor_log2 n d) \<le> real_of_int n"
    unfolding fl using lo by (simp split: if_splits)
  show "real_of_int n < real_of_int d * 2 powi (floor_log2 n d + 1)"
    unfolding fl using hi by (simp split: if_splits)
qed

lemma round_half_even_exact:
  "0 < d \<Longrightarrow> n = q * d \<Longrightarrow> round_half_even n d = q"
  by (simp add: round_half_even_def)


lemma round_float64_exact:
  assumes d: "0 < d"
    and q: "real_of_int n / real_of_int d = real_of_int M * 2 powi E"
    and M: "\<bar>M\<bar> < 2 ^ 53" and E: "- 1074 \<le> E"
    and big: "\<bar>real_of_int n / real_of_int d\<bar> < 2 ^ 1024"
  shows "\<exists>m e. round_float64 n d = Finite m e \<and>
           real_of_int m * 2 powi e = real_of_int n / real_of_int d"
proof (cases "n = 0")
  case True
  then show ?thesis by (simp add: round_float64_def)
next
  case False
  define a where "a = \<bar>n\<bar>"
  define f where "f = floor_log2 a d"
  define e where "e = max (f - 52) (- 1074)"
  have a: "0 < a" using False by (simp add: a_def)
  have add: "(2::real) powi x * 2 powi y = 2 powi (x + y)" for x y :: int
    by (rule power_int_add [symmetric]) simp
  have dr: "0 < real_of_int d" using d by simp
  have absq: "\<bar>real_of_int n / real_of_int d\<bar> = real_of_int a / real_of_int d"
    using dr by (simp add: a_def abs_divide)
  have "real_of_int d * 2 powi f \<le> real_of_int a"
    unfolding f_def using a d by (rule floor_log2_bounds(1))
  then have "2 powi f \<le> real_of_int a / real_of_int d"
    using dr by (simp add: field_simps)
  also have "\<dots> = \<bar>real_of_int M\<bar> * 2 powi E"
    unfolding absq [symmetric] q by (simp add: abs_mult)
  also have "\<dots> < 2 ^ 53 * 2 powi E"
  proof -
    have "real_of_int \<bar>M\<bar> < real_of_int (2 ^ 53)"
      using M by (simp only: of_int_less_iff)
    then have "\<bar>real_of_int M\<bar> < 2 ^ 53" by simp
    then show ?thesis by simp
  qed
  also have "\<dots> = 2 powi (53 + E)"
    unfolding add [symmetric] by simp
  finally have lt: "(2::real) powi f < 2 powi (53 + E)" .
  have fE: "f < 53 + E"
  proof (rule ccontr)
    assume "\<not> f < 53 + E"
    then have "53 + E \<le> f" by simp
    then have "(2::real) powi (53 + E) \<le> 2 powi f"
      by (rule power_int_increasing) simp
    with lt show False by simp
  qed
  have eE: "e \<le> E" using fE E by (simp add: e_def)
  define j where "j = nat (E - e)"
  define m0 where "m0 = M * 2 ^ j"
  have Ej: "E = int j + e" using eE by (simp add: j_def)
  have val: "real_of_int n / real_of_int d = real_of_int m0 * 2 powi e"
  proof -
    have "(2::real) powi E = 2 powi (int j) * 2 powi e"
      unfolding add Ej ..
    then show ?thesis unfolding q m0_def by simp
  qed
  show ?thesis
  proof (cases "0 \<le> e")
    case True
    then have p: "(2::real) powi e = 2 ^ nat e" by (simp add: power_int_def)
    have "real_of_int n = real_of_int m0 * 2 ^ nat e * real_of_int d"
      using val dr unfolding p by (simp add: field_simps)
    then have "real_of_int n = real_of_int (m0 * (d * 2 ^ nat e))" by simp
    then have n: "n = m0 * (d * 2 ^ nat e)" by (simp only: of_int_eq_iff)
    have dp: "0 < d * 2 ^ nat e" using d by simp
    have r: "round_half_even n (d * 2 ^ nat e) = m0"
      using dp n by (rule round_half_even_exact)
    have "real_of_int (\<bar>m0\<bar> * 2 ^ nat e) = \<bar>real_of_int n / real_of_int d\<bar>"
      unfolding val p by (simp add: abs_mult)
    also have "\<dots> < real_of_int (2 ^ 1024)" using big by simp
    finally have "\<bar>m0\<bar> * 2 ^ nat e < 2 ^ 1024" by (simp only: of_int_less_iff)
    then have no: "\<not> (0 \<le> e \<and> 2 ^ 1024 \<le> \<bar>m0\<bar> * 2 ^ nat e)" by simp
    have "round_float64 n d = Finite m0 e"
      using False True r no
      by (simp only: round_float64_def Let_def a_def [symmetric] f_def [symmetric]
            e_def [symmetric] if_False if_True)
    then show ?thesis using val by simp
  next
    case False
    then have p: "(2::real) powi e = 1 / 2 ^ nat (- e)"
      by (simp add: power_int_def power_one_over)
    have "real_of_int n * 2 ^ nat (- e) = real_of_int m0 * real_of_int d"
      using val dr unfolding p by (simp add: field_simps)
    then have "real_of_int (n * 2 ^ nat (- e)) = real_of_int (m0 * d)" by simp
    then have n: "n * 2 ^ nat (- e) = m0 * d" by (simp only: of_int_eq_iff)
    have r: "round_half_even (n * 2 ^ nat (- e)) d = m0"
      using d n by (rule round_half_even_exact)
    have "round_float64 n d = Finite m0 e"
      using \<open>n \<noteq> 0\<close> False r
      by (simp only: round_float64_def Let_def a_def [symmetric] f_def [symmetric]
            e_def [symmetric] if_False if_True simp_thms)
    then show ?thesis using val by simp
  qed
qed

lemma float64_of_int_exact:
  assumes "\<bar>x\<bar> < 2 ^ 53"
  shows "\<exists>m e. float64_of_int x = Finite m e \<and> real_of_int m * 2 powi e = real_of_int x"
proof -
  have q: "real_of_int x / real_of_int 1 = real_of_int x * 2 powi 0" by simp
  have "real_of_int \<bar>x\<bar> < real_of_int (2 ^ 53)"
    using assms by (simp only: of_int_less_iff)
  then have "\<bar>real_of_int x\<bar> < 2 ^ 53" by simp
  also have "\<dots> < (2::real) ^ 1024" by simp
  finally have big: "\<bar>real_of_int x / real_of_int 1\<bar> < 2 ^ 1024" by simp
  show ?thesis
    unfolding float64_of_int_def
    using round_float64_exact [OF _ q assms _ big] by simp
qed

lemma float64_div_exact:
  assumes m2: "m2 \<noteq> 0"
    and q: "(real_of_int m1 * 2 powi e1) / (real_of_int m2 * 2 powi e2) = real_of_int M * 2 powi E"
    and M: "\<bar>M\<bar> < 2 ^ 53" and E: "- 1074 \<le> E"
    and big: "\<bar>(real_of_int m1 * 2 powi e1) / (real_of_int m2 * 2 powi e2)\<bar> < 2 ^ 1024"
  shows "\<exists>m e. float64_div (Finite m1 e1) (Finite m2 e2) = Finite m e \<and>
           real_of_int m * 2 powi e = (real_of_int m1 * 2 powi e1) / (real_of_int m2 * 2 powi e2)"
proof -
  define s :: int where "s = (if m2 < 0 then - 1 else 1)"
  have sp: "0 < s * m2" using m2 by (auto simp: s_def)
  have s2: "real_of_int s \<noteq> 0" by (simp add: s_def)
  have add: "(2::real) powi x * 2 powi y = 2 powi (x + y)" for x y :: int
    by (rule power_int_add [symmetric]) simp
  show ?thesis
  proof (cases "e2 \<le> e1")
    case True
    define k where "k = nat (e1 - e2)"
    have e1: "e1 = int k + e2" using True by (simp add: k_def)
    have "(2::real) powi e1 = 2 ^ k * 2 powi e2"
      unfolding e1 add [symmetric] by simp
    then have eq: "real_of_int (s * m1 * 2 ^ k) / real_of_int (s * m2)
        = (real_of_int m1 * 2 powi e1) / (real_of_int m2 * 2 powi e2)"
      using s2 m2 by (simp add: field_simps)
    have d: "float64_div (Finite m1 e1) (Finite m2 e2) = round_float64 (s * m1 * 2 ^ k) (s * m2)"
      using m2 True by (simp add: s_def k_def Let_def)
    show ?thesis
      unfolding d using round_float64_exact [OF sp _ M E, of "s * m1 * 2 ^ k"] q big
      unfolding eq by blast
  next
    case False
    define k where "k = nat (e2 - e1)"
    have e2: "e2 = int k + e1" using False by (simp add: k_def)
    have "(2::real) powi e2 = 2 ^ k * 2 powi e1"
      unfolding e2 add [symmetric] by simp
    then have eq: "real_of_int (s * m1) / real_of_int (s * m2 * 2 ^ k)
        = (real_of_int m1 * 2 powi e1) / (real_of_int m2 * 2 powi e2)"
      using s2 m2 by (simp add: field_simps)
    have sp': "0 < s * m2 * 2 ^ k" using sp by simp
    have d: "float64_div (Finite m1 e1) (Finite m2 e2) = round_float64 (s * m1) (s * m2 * 2 ^ k)"
      using m2 False by (simp add: s_def k_def Let_def)
    show ?thesis
      unfolding d using round_float64_exact [OF sp' _ M E, of "s * m1"] q big
      unfolding eq by blast
  qed
qed

lemma half_exact:
  assumes "\<bar>x\<bar> < 2 ^ 53"
  shows "float64_real (float64_div (float64_of_int x) (float64_of_int 2))
         = Some (real_of_int x / 2)"
proof -
  obtain m1 e1 where a: "float64_of_int x = Finite m1 e1"
    and av: "real_of_int m1 * 2 powi e1 = real_of_int x"
    using float64_of_int_exact [OF assms] by blast
  obtain m2 e2 where b: "float64_of_int 2 = Finite m2 e2"
    and bv: "real_of_int m2 * 2 powi e2 = real_of_int 2"
    using float64_of_int_exact [of 2] by auto
  have m2: "m2 \<noteq> 0" using bv by auto
  have q: "(real_of_int m1 * 2 powi e1) / (real_of_int m2 * 2 powi e2)
      = real_of_int x * 2 powi (- 1)"
    unfolding av bv by simp
  have "real_of_int \<bar>x\<bar> < real_of_int (2 ^ 53)"
    using assms by (simp only: of_int_less_iff)
  then have "\<bar>real_of_int x\<bar> < 2 ^ 53" by simp
  also have "\<dots> < (2::real) ^ 1024" by simp
  finally have "\<bar>real_of_int x\<bar> < 2 ^ 1024" .
  then have big: "\<bar>(real_of_int m1 * 2 powi e1) / (real_of_int m2 * 2 powi e2)\<bar> < 2 ^ 1024"
    unfolding av bv by simp
  obtain m e where r: "float64_div (Finite m1 e1) (Finite m2 e2) = Finite m e"
    and rv: "real_of_int m * 2 powi e = (real_of_int m1 * 2 powi e1) / (real_of_int m2 * 2 powi e2)"
    using float64_div_exact [OF m2 q assms _ big] by auto
  show ?thesis
    unfolding a b r using rv av bv by simp
qed

lemma round_float64_eq:
  assumes "n \<noteq> 0" and "floor_log2 \<bar>n\<bar> d = f" and "max (f - 52) (- 1074) = e"
    and "(if 0 \<le> e then round_half_even n (d * 2 ^ nat e)
              else round_half_even (n * 2 ^ nat (- e)) d) = m"
    and "\<not> (0 \<le> e \<and> 2 ^ 1024 \<le> \<bar>m\<bar> * 2 ^ nat e)"
  shows "round_float64 n d = Finite m e"
  by (simp only: round_float64_def Let_def assms if_False)

subsection \<open>Cohort axis\<close>

lemma length_cumsum_from: "length (cumsum_from acc xs) = length xs"
  by (induction xs arbitrary: acc) auto

lemma nth_cumsum_from:
  "i < length xs \<Longrightarrow> cumsum_from acc xs ! i = acc + sum_list (take (Suc i) xs)"
proof (induction xs arbitrary: acc i)
  case Nil
  then show ?case by simp
next
  case (Cons x xs)
  then show ?case by (cases i) (auto simp: add.assoc)
qed

lemma length_cumsum: "length (cumsum xs) = length xs"
  by (simp add: cumsum_def length_cumsum_from)

lemma nth_cumsum: "i < length xs \<Longrightarrow> cumsum xs ! i = sum_list (take (Suc i) xs)"
  by (simp add: cumsum_def nth_cumsum_from)

lemma sint_int64_range: "- (2 ^ 63) \<le> sint (x :: int64) \<and> sint x < 2 ^ 63"
  using sint_ge [of x] sint_lt [of x] by simp

lemma sint_add_int64:
  "- (2 ^ 63) \<le> sint a + sint b \<Longrightarrow> sint a + sint b < 2 ^ 63 \<Longrightarrow>
   sint (a + b :: int64) = sint a + sint b"
  by (simp add: sint_word_ariths signed_take_bit_int_eq_self)

lemma sint_diff_int64:
  "- (2 ^ 63) \<le> sint a - sint b \<Longrightarrow> sint a - sint b < 2 ^ 63 \<Longrightarrow>
   sint (a - b :: int64) = sint a - sint b"
  by (simp add: sint_word_ariths signed_take_bit_int_eq_self)

lemma sint_one_int64: "sint (1 :: int64) = 1"
  by simp

lemma sum_list_nonneg_take:
  "(\<forall>x \<in> set xs. 0 \<le> (x::int)) \<Longrightarrow> sum_list (take k xs) \<le> sum_list xs"
proof (induction xs arbitrary: k)
  case Nil
  then show ?case by simp
next
  case (Cons x xs)
  then show ?case
  proof (cases k)
    case 0
    have "0 \<le> sum_list (x # xs)"
      using Cons.prems by (intro sum_list_nonneg) auto
    with 0 show ?thesis by simp
  next
    case (Suc j)
    have "sum_list (take j xs) \<le> sum_list xs"
      using Cons by simp
    with Suc show ?thesis by simp
  qed
qed

lemma sint_sum_list:
  "(\<forall>x \<in> set xs. 0 \<le> sint (x :: int64)) \<Longrightarrow> sum_list (map sint xs) < 2 ^ 63 \<Longrightarrow>
   sint (sum_list xs) = sum_list (map sint xs)"
proof (induction xs)
  case Nil
  then show ?case by simp
next
  case (Cons x xs)
  have nn: "0 \<le> sum_list (map sint xs)"
    using Cons.prems(1) by (intro sum_list_nonneg) auto
  have x0: "0 \<le> sint x" using Cons.prems(1) by simp
  have "sum_list (map sint xs) < 2 ^ 63"
    using Cons.prems(2) x0 by simp
  then have ih: "sint (sum_list xs) = sum_list (map sint xs)"
    using Cons.IH Cons.prems(1) by simp
  have "sint (x + sum_list xs) = sint x + sint (sum_list xs)"
  proof (rule sint_add_int64)
    show "- (2 ^ 63) \<le> sint x + sint (sum_list xs)"
      using x0 nn unfolding ih by simp
    show "sint x + sint (sum_list xs) < 2 ^ 63"
      using Cons.prems(2) unfolding ih by simp
  qed
  then show ?case by (simp add: ih)
qed

text \<open>
  The exact values of the three arrays at a cohort, when every count is positive and the
  total number of timesteps is below \<open>2^52\<close>: no sum wraps around and the
  conversion to \<^verbatim>\<open>float64\<close> is exact.
\<close>

lemma cohort_values:
  assumes pos: "\<forall>n \<in> set ts. 0 < sint n"
    and small: "sum_list (map sint ts) < 2 ^ 52"
    and i: "i < length ts"
  shows "sint (cumsum ts ! i) = sum_list (map sint (take (Suc i) ts))"
    and "sint (cumsum ts ! i - (ts ! i - 1)) = sint (cumsum ts ! i) - sint (ts ! i) + 1"
    and "float64_real (float64_div
            (float64_of_int (sint (cumsum ts ! i + (cumsum ts ! i - (ts ! i - 1)))))
            (float64_of_int 2))
         = Some ((real_of_int (sint (cumsum ts ! i - (ts ! i - 1)))
                  + real_of_int (sint (cumsum ts ! i))) / 2)"
    and "0 < sint (ts ! i)" and "sint (ts ! i) \<le> sint (cumsum ts ! i)"
    and "sint (cumsum ts ! i) < 2 ^ 52"
proof -
  let ?p = "take (Suc i) ts"
  have nn: "\<forall>x \<in> set (map sint ts). 0 \<le> x" using pos by auto
  have ple: "sum_list (map sint ?p) \<le> sum_list (map sint ts)"
    using sum_list_nonneg_take [OF nn, of "Suc i"] by (simp add: take_map)
  have pnn: "\<forall>x \<in> set ?p. 0 \<le> sint x"
    using pos by (auto dest: in_set_takeD intro: less_imp_le)
  have p63: "sum_list (map sint ?p) < 2 ^ 63"
    using ple small by simp
  show mx: "sint (cumsum ts ! i) = sum_list (map sint (take (Suc i) ts))"
    using i sint_sum_list [OF pnn p63] by (simp add: nth_cumsum)
  show tpos: "0 < sint (ts ! i)" using pos i by simp
  have split: "sum_list (map sint ?p) = sum_list (map sint (take i ts)) + sint (ts ! i)"
    using i by (simp add: take_Suc_conv_app_nth)
  have "0 \<le> sum_list (map sint (take i ts))"
    using pos by (intro sum_list_nonneg) (auto dest: in_set_takeD intro: less_imp_le)
  then show tle: "sint (ts ! i) \<le> sint (cumsum ts ! i)"
    unfolding mx split by simp
  show m52: "sint (cumsum ts ! i) < 2 ^ 52"
    unfolding mx using ple small by simp
  have t1: "sint (ts ! i - 1) = sint (ts ! i) - 1"
    using tpos sint_int64_range [of "ts ! i"]
    by (subst sint_diff_int64) simp_all
  show mn: "sint (cumsum ts ! i - (ts ! i - 1)) = sint (cumsum ts ! i) - sint (ts ! i) + 1"
    using tpos tle m52 unfolding t1 [symmetric]
    by (subst sint_diff_int64) (simp_all add: t1)
  have s: "sint (cumsum ts ! i + (cumsum ts ! i - (ts ! i - 1)))
      = sint (cumsum ts ! i) + sint (cumsum ts ! i - (ts ! i - 1))"
    using tpos tle m52 by (subst sint_add_int64) (simp_all add: mn)
  have "\<bar>sint (cumsum ts ! i) + sint (cumsum ts ! i - (ts ! i - 1))\<bar> < 2 ^ 53"
    using tpos tle m52 by (simp add: mn)
  from half_exact [OF this]
  show "float64_real (float64_div
            (float64_of_int (sint (cumsum ts ! i + (cumsum ts ! i - (ts ! i - 1)))))
            (float64_of_int 2))
         = Some ((real_of_int (sint (cumsum ts ! i - (ts ! i - 1)))
                  + real_of_int (sint (cumsum ts ! i))) / 2)"
    unfolding s by (simp add: add.commute)
qed

text \<open>
  The function evaluated on four lists: the counts \<open>[3, 2, 5]\<close> of the specification,
  the counts \<open>[2^62, 2^62]\<close>, \<open>[2^53, 1]\<close> and \<open>[2^53]\<close>.
\<close>

lemma cohort_example:
  "cohort_by_fgroup (Array_coordinate [g]) [3, 2, 5]
     = Inr \<lparr> fgroup = [g], cohort = [0, 1, 2], timesteps_number = [3, 2, 5],
             min_timestep = [1, 4, 6], max_timestep = [3, 5, 10],
             mean_timestep = [Finite 4503599627370496 (- 51), Finite 5066549580791808 (- 50), Finite 4503599627370496 (- 49)] \<rparr>"
proof -
  have m1: "round_float64 2 1 = Finite 4503599627370496 (- 51)"
    by (rule round_float64_eq [where f = "1"])
       (simp_all add: floor_log2_def round_half_even_def Let_def)
  have m2: "float64_of_int 2 = Finite 4503599627370496 (- 51)"
    by (simp add: float64_of_int_def m1)
  have m3: "round_float64 4 1 = Finite 4503599627370496 (- 50)"
    by (rule round_float64_eq [where f = "2"])
       (simp_all add: floor_log2_def round_half_even_def Let_def)
  have m4: "float64_of_int 4 = Finite 4503599627370496 (- 50)"
    by (simp add: float64_of_int_def m3)
  have m5: "round_float64 9007199254740992 4503599627370496 = Finite 4503599627370496 (- 51)"
    by (rule round_float64_eq [where f = "1"])
       (simp_all add: floor_log2_def round_half_even_def Let_def)
  have m6: "float64_div (Finite 4503599627370496 (- 50)) (Finite 4503599627370496 (- 51)) = Finite 4503599627370496 (- 51)"
    by (simp add: Let_def m5)
  have m7: "round_float64 9 1 = Finite 5066549580791808 (- 49)"
    by (rule round_float64_eq [where f = "3"])
       (simp_all add: floor_log2_def round_half_even_def Let_def)
  have m8: "float64_of_int 9 = Finite 5066549580791808 (- 49)"
    by (simp add: float64_of_int_def m7)
  have m9: "round_float64 20266198323167232 4503599627370496 = Finite 5066549580791808 (- 50)"
    by (rule round_float64_eq [where f = "2"])
       (simp_all add: floor_log2_def round_half_even_def Let_def)
  have m10: "float64_div (Finite 5066549580791808 (- 49)) (Finite 4503599627370496 (- 51)) = Finite 5066549580791808 (- 50)"
    by (simp add: Let_def m9)
  have m11: "round_float64 16 1 = Finite 4503599627370496 (- 48)"
    by (rule round_float64_eq [where f = "4"])
       (simp_all add: floor_log2_def round_half_even_def Let_def)
  have m12: "float64_of_int 16 = Finite 4503599627370496 (- 48)"
    by (simp add: float64_of_int_def m11)
  have m13: "round_float64 36028797018963968 4503599627370496 = Finite 4503599627370496 (- 49)"
    by (rule round_float64_eq [where f = "3"])
       (simp_all add: floor_log2_def round_half_even_def Let_def)
  have m14: "float64_div (Finite 4503599627370496 (- 48)) (Finite 4503599627370496 (- 51)) = Finite 4503599627370496 (- 49)"
    by (simp add: Let_def m13)
  have i0: "sint (4 :: int64) = 4"
    by simp
  have i1: "sint (9 :: int64) = 9"
    by simp
  have i2: "sint (16 :: int64) = 16"
    by simp
  show ?thesis
    by (simp add: cohort_by_fgroup_def cumsum_def Let_def upt_rec m2 m4 m6 m8 m10 m12 m14 i0 i1 i2
          del: float64_div.simps)
qed

lemma cohort_wrap:
  "cohort_by_fgroup (Array_coordinate [0::nat]) [4611686018427387904, 4611686018427387904]
     = Inr \<lparr> fgroup = [0::nat], cohort = [0, 1], timesteps_number = [4611686018427387904, 4611686018427387904],
             min_timestep = [1, 4611686018427387905], max_timestep = [4611686018427387904, 9223372036854775808],
             mean_timestep = [Finite 4503599627370496 9, Finite (- 4503599627370496) 9] \<rparr>"
proof -
  have m1: "round_float64 2 1 = Finite 4503599627370496 (- 51)"
    by (rule round_float64_eq [where f = "1"])
       (simp_all add: floor_log2_def round_half_even_def Let_def)
  have m2: "float64_of_int 2 = Finite 4503599627370496 (- 51)"
    by (simp add: float64_of_int_def m1)
  have m3: "round_float64 4611686018427387905 1 = Finite 4503599627370496 10"
    by (rule round_float64_eq [where f = "62"])
       (simp_all add: floor_log2_def round_half_even_def Let_def)
  have m4: "float64_of_int 4611686018427387905 = Finite 4503599627370496 10"
    by (simp add: float64_of_int_def m3)
  have m5: "round_float64 10384593717069655257060992658440192 4503599627370496 = Finite 4503599627370496 9"
    by (rule round_float64_eq [where f = "61"])
       (simp_all add: floor_log2_def round_half_even_def Let_def)
  have m6: "float64_div (Finite 4503599627370496 10) (Finite 4503599627370496 (- 51)) = Finite 4503599627370496 9"
    by (simp add: Let_def m5)
  have m7: "round_float64 (- 4611686018427387903) 1 = Finite (- 9007199254740992) 9"
    by (rule round_float64_eq [where f = "61"])
       (simp_all add: floor_log2_def round_half_even_def Let_def)
  have m8: "float64_of_int (- 4611686018427387903) = Finite (- 9007199254740992) 9"
    by (simp add: float64_of_int_def m7)
  have m9: "round_float64 (- 10384593717069655257060992658440192) 4503599627370496 = Finite (- 4503599627370496) 9"
    by (rule round_float64_eq [where f = "61"])
       (simp_all add: floor_log2_def round_half_even_def Let_def)
  have m10: "float64_div (Finite (- 9007199254740992) 9) (Finite 4503599627370496 (- 51)) = Finite (- 4503599627370496) 9"
    by (simp add: Let_def m9)
  have i0: "sint (13835058055282163713 :: int64) = (- 4611686018427387903)"
    by simp
  have i1: "sint (4611686018427387905 :: int64) = 4611686018427387905"
    by simp
  show ?thesis
    by (simp add: cohort_by_fgroup_def cumsum_def Let_def upt_rec m2 m4 m6 m8 m10 i0 i1
          del: float64_div.simps)
qed

lemma cohort_round:
  "cohort_by_fgroup (Array_coordinate [0::nat]) [9007199254740992, 1]
     = Inr \<lparr> fgroup = [0::nat], cohort = [0, 1], timesteps_number = [9007199254740992, 1],
             min_timestep = [1, 9007199254740993], max_timestep = [9007199254740992, 9007199254740993],
             mean_timestep = [Finite 4503599627370496 0, Finite 4503599627370496 1] \<rparr>"
proof -
  have m1: "round_float64 2 1 = Finite 4503599627370496 (- 51)"
    by (rule round_float64_eq [where f = "1"])
       (simp_all add: floor_log2_def round_half_even_def Let_def)
  have m2: "float64_of_int 2 = Finite 4503599627370496 (- 51)"
    by (simp add: float64_of_int_def m1)
  have m3: "round_float64 9007199254740993 1 = Finite 4503599627370496 1"
    by (rule round_float64_eq [where f = "53"])
       (simp_all add: floor_log2_def round_half_even_def Let_def)
  have m4: "float64_of_int 9007199254740993 = Finite 4503599627370496 1"
    by (simp add: float64_of_int_def m3)
  have m5: "round_float64 20282409603651670423947251286016 4503599627370496 = Finite 4503599627370496 0"
    by (rule round_float64_eq [where f = "52"])
       (simp_all add: floor_log2_def round_half_even_def Let_def)
  have m6: "float64_div (Finite 4503599627370496 1) (Finite 4503599627370496 (- 51)) = Finite 4503599627370496 0"
    by (simp add: Let_def m5)
  have m7: "round_float64 18014398509481986 1 = Finite 4503599627370496 2"
    by (rule round_float64_eq [where f = "54"])
       (simp_all add: floor_log2_def round_half_even_def Let_def)
  have m8: "float64_of_int 18014398509481986 = Finite 4503599627370496 2"
    by (simp add: float64_of_int_def m7)
  have m9: "round_float64 40564819207303340847894502572032 4503599627370496 = Finite 4503599627370496 1"
    by (rule round_float64_eq [where f = "53"])
       (simp_all add: floor_log2_def round_half_even_def Let_def)
  have m10: "float64_div (Finite 4503599627370496 2) (Finite 4503599627370496 (- 51)) = Finite 4503599627370496 1"
    by (simp add: Let_def m9)
  have i0: "sint (9007199254740993 :: int64) = 9007199254740993"
    by simp
  have i1: "sint (18014398509481986 :: int64) = 18014398509481986"
    by simp
  show ?thesis
    by (simp add: cohort_by_fgroup_def cumsum_def Let_def upt_rec m2 m4 m6 m8 m10 i0 i1
          del: float64_div.simps)
qed

lemma cohort_half:
  "cohort_by_fgroup (Array_coordinate [0::nat]) [9007199254740992]
     = Inr \<lparr> fgroup = [0::nat], cohort = [0], timesteps_number = [9007199254740992],
             min_timestep = [1], max_timestep = [9007199254740992],
             mean_timestep = [Finite 4503599627370496 0] \<rparr>"
proof -
  have m1: "round_float64 2 1 = Finite 4503599627370496 (- 51)"
    by (rule round_float64_eq [where f = "1"])
       (simp_all add: floor_log2_def round_half_even_def Let_def)
  have m2: "float64_of_int 2 = Finite 4503599627370496 (- 51)"
    by (simp add: float64_of_int_def m1)
  have m3: "round_float64 9007199254740993 1 = Finite 4503599627370496 1"
    by (rule round_float64_eq [where f = "53"])
       (simp_all add: floor_log2_def round_half_even_def Let_def)
  have m4: "float64_of_int 9007199254740993 = Finite 4503599627370496 1"
    by (simp add: float64_of_int_def m3)
  have m5: "round_float64 20282409603651670423947251286016 4503599627370496 = Finite 4503599627370496 0"
    by (rule round_float64_eq [where f = "52"])
       (simp_all add: floor_log2_def round_half_even_def Let_def)
  have m6: "float64_div (Finite 4503599627370496 1) (Finite 4503599627370496 (- 51)) = Finite 4503599627370496 0"
    by (simp add: Let_def m5)
  have i0: "sint (9007199254740993 :: int64) = 9007199254740993"
    by simp
  show ?thesis
    by (simp add: cohort_by_fgroup_def cumsum_def Let_def upt_rec m2 m4 m6 i0
          del: float64_div.simps)
qed


lemma cohort_by_fgroup_array:
  "cohort_by_fgroup (Array_coordinate [g]) ts =
     Inr \<lparr> fgroup = [g], cohort = [0 ..< length ts], timesteps_number = ts,
           min_timestep = map2 (\<lambda>m n. m - (n - 1)) (cumsum ts) ts,
           max_timestep = cumsum ts,
           mean_timestep =
             map2 (\<lambda>mx mn. float64_div (float64_of_int (sint (mx + mn))) (float64_of_int 2))
               (cumsum ts) (map2 (\<lambda>m n. m - (n - 1)) (cumsum ts) ts) \<rparr>"
  by (simp add: cohort_by_fgroup_def Let_def)

lemma cohort_by_fgroup_not_array:
  "cohort_by_fgroup (Scalar_coordinate g) ts = Inl ValueError \<and>
   (length gs \<noteq> 1 \<longrightarrow> cohort_by_fgroup (Array_coordinate gs) ts = Inl ValueError)"
  by (simp add: cohort_by_fgroup_def Let_def)

text \<open>
  Claim C3.  Called with a functional-group coordinate of one element, the function
  returns a dataset whose three arrays have one entry per cohort.  When every count is
  positive and the total number of timesteps is below \<open>2^52\<close>, then for every cohort
  \<open>i\<close> the maximum timestep is the sum of the first \<open>i + 1\<close> counts (the cumulative
  sum), the minimum timestep is the maximum minus the count of the cohort plus one, and
  the mean timestep is half the sum of minimum and maximum.  For the counts \<open>[3, 2, 5]\<close>
  the function returns the maxima \<open>[3, 5, 10]\<close>, the minima \<open>[1, 4, 6]\<close> and the means
  \<open>[2, 4.5, 8]\<close>.
\<close>

theorem cohort_by_fgroup_timesteps:
  "(\<exists>ds. cohort_by_fgroup (Array_coordinate [g]) ts = Inr ds \<and>
        fgroup ds = [g] \<and> cohort ds = [0 ..< length ts] \<and> timesteps_number ds = ts \<and>
        length (max_timestep ds) = length ts \<and>
        length (min_timestep ds) = length ts \<and>
        length (mean_timestep ds) = length ts \<and>
        ((\<forall>n \<in> set ts. 0 < sint n) \<and> sum_list (map sint ts) < 2 ^ 52 \<longrightarrow>
           (\<forall>i. i < length ts \<longrightarrow>
              sint (max_timestep ds ! i) = sum_list (map sint (take (Suc i) ts)) \<and>
              sint (min_timestep ds ! i) = sint (max_timestep ds ! i) - sint (ts ! i) + 1 \<and>
              float64_real (mean_timestep ds ! i)
                = Some ((real_of_int (sint (min_timestep ds ! i))
                         + real_of_int (sint (max_timestep ds ! i))) / 2)))) \<and>
   (\<exists>ds. cohort_by_fgroup (Array_coordinate [g]) [3, 2, 5] = Inr ds \<and>
        max_timestep ds = [3, 5, 10] \<and> min_timestep ds = [1, 4, 6] \<and>
        map float64_real (mean_timestep ds) = [Some 2, Some 4.5, Some 8])"
proof (intro conjI)
  let ?ds = "\<lparr> fgroup = [g], cohort = [0 ..< length ts], timesteps_number = ts,
           min_timestep = map2 (\<lambda>m n. m - (n - 1)) (cumsum ts) ts,
           max_timestep = cumsum ts,
           mean_timestep =
             map2 (\<lambda>mx mn. float64_div (float64_of_int (sint (mx + mn))) (float64_of_int 2))
               (cumsum ts) (map2 (\<lambda>m n. m - (n - 1)) (cumsum ts) ts) \<rparr>"
  have run: "cohort_by_fgroup (Array_coordinate [g]) ts = Inr ?ds"
    by (rule cohort_by_fgroup_array)
  have vals: "sint (max_timestep ?ds ! i) = sum_list (map sint (take (Suc i) ts)) \<and>
              sint (min_timestep ?ds ! i) = sint (max_timestep ?ds ! i) - sint (ts ! i) + 1 \<and>
              float64_real (mean_timestep ?ds ! i)
                = Some ((real_of_int (sint (min_timestep ?ds ! i))
                         + real_of_int (sint (max_timestep ?ds ! i))) / 2)"
    if pos: "\<forall>n \<in> set ts. 0 < sint n" and small: "sum_list (map sint ts) < 2 ^ 52"
      and i: "i < length ts" for i
    using cohort_values(1-3) [OF pos small i] i by (simp add: length_cumsum)
  show "\<exists>ds. cohort_by_fgroup (Array_coordinate [g]) ts = Inr ds \<and>
        fgroup ds = [g] \<and> cohort ds = [0 ..< length ts] \<and> timesteps_number ds = ts \<and>
        length (max_timestep ds) = length ts \<and>
        length (min_timestep ds) = length ts \<and>
        length (mean_timestep ds) = length ts \<and>
        ((\<forall>n \<in> set ts. 0 < sint n) \<and> sum_list (map sint ts) < 2 ^ 52 \<longrightarrow>
           (\<forall>i. i < length ts \<longrightarrow>
              sint (max_timestep ds ! i) = sum_list (map sint (take (Suc i) ts)) \<and>
              sint (min_timestep ds ! i) = sint (max_timestep ds ! i) - sint (ts ! i) + 1 \<and>
              float64_real (mean_timestep ds ! i)
                = Some ((real_of_int (sint (min_timestep ds ! i))
                         + real_of_int (sint (max_timestep ds ! i))) / 2)))"
  proof (intro exI [of _ ?ds] conjI impI allI)
    show "cohort_by_fgroup (Array_coordinate [g]) ts = Inr ?ds" by (rule run)
  next
    fix i
    assume h: "(\<forall>n \<in> set ts. 0 < sint n) \<and> sum_list (map sint ts) < 2 ^ 52" and i: "i < length ts"
    show "sint (max_timestep ?ds ! i) = sum_list (map sint (take (Suc i) ts))"
      using vals [of i] h i by blast
    show "sint (min_timestep ?ds ! i) = sint (max_timestep ?ds ! i) - sint (ts ! i) + 1"
      using vals [of i] h i by blast
    show "float64_real (mean_timestep ?ds ! i)
                = Some ((real_of_int (sint (min_timestep ?ds ! i))
                         + real_of_int (sint (max_timestep ?ds ! i))) / 2)"
      using vals [of i] h i by blast
  qed (simp_all add: length_cumsum)
  show "\<exists>ds. cohort_by_fgroup (Array_coordinate [g]) [3, 2, 5] = Inr ds \<and>
        max_timestep ds = [3, 5, 10] \<and> min_timestep ds = [1, 4, 6] \<and>
        map float64_real (mean_timestep ds) = [Some 2, Some 4.5, Some 8]"
    by (simp add: cohort_example)
qed

theorem cohort_by_fgroup_timesteps_witness:
  "list_all (\<lambda>n. 0 < sint n) [4, 1, 2 :: int64] \<and> sum_list (map sint [4, 1, 2 :: int64]) < 2 ^ 52 \<and>
   (\<exists>ds. cohort_by_fgroup (Array_coordinate [0 :: nat]) [4, 1, 2] = Inr ds \<and>
      sint (max_timestep ds ! 1) = 5 \<and> sint (min_timestep ds ! 1) = 5 \<and>
      float64_real (mean_timestep ds ! 1) = Some 5)"
proof -
  have h: "(\<forall>n \<in> set [4, 1, 2 :: int64]. 0 < sint n) \<and> sum_list (map sint [4, 1, 2 :: int64]) < 2 ^ 52"
    by simp
  have i: "(1 :: nat) < length [4, 1, 2 :: int64]" by simp
  obtain ds where run: "cohort_by_fgroup (Array_coordinate [0 :: nat]) [4, 1, 2] = Inr ds"
    and v: "\<And>i. i < length [4, 1, 2 :: int64] \<Longrightarrow>
              sint (max_timestep ds ! i) = sum_list (map sint (take (Suc i) [4, 1, 2 :: int64])) \<and>
              sint (min_timestep ds ! i) = sint (max_timestep ds ! i) - sint ([4, 1, 2 :: int64] ! i) + 1 \<and>
              float64_real (mean_timestep ds ! i)
                = Some ((real_of_int (sint (min_timestep ds ! i))
                         + real_of_int (sint (max_timestep ds ! i))) / 2)"
    using cohort_by_fgroup_timesteps [of "0 :: nat" "[4, 1, 2]"] h by blast
  have mx: "sint (max_timestep ds ! 1) = 5"
    using v [OF i] by simp
  have mn: "sint (min_timestep ds ! 1) = 5"
    using v [OF i] mx by simp
  have "float64_real (mean_timestep ds ! 1)
      = Some ((real_of_int (sint (min_timestep ds ! 1))
               + real_of_int (sint (max_timestep ds ! 1))) / 2)"
    using v [OF i] by blast
  then have "float64_real (mean_timestep ds ! 1) = Some 5"
    unfolding mx mn by simp
  moreover have "list_all (\<lambda>n. 0 < sint n) [4, 1, 2 :: int64]" by simp
  ultimately show ?thesis using run mx mn h by blast
qed

text \<open>
  Without the bound on the total the equations of the claim fail.  For the counts
  \<open>[2^62, 2^62]\<close> the second maximum is \<open>- 2^63\<close>, where the cumulative sum is
  \<open>2^63\<close>: the sum wraps around.  For the single count \<open>2^53\<close> the mean is \<open>2^52\<close>,
  where half the sum of the minimum 1 and the maximum \<open>2^53\<close> is \<open>2^52 + 1/2\<close>: the
  sum \<open>2^53 + 1\<close> is not a \<^verbatim>\<open>float64\<close>.  With a scalar as the coordinate of the
  functional group the function returns nothing: it raises \<^verbatim>\<open>ValueError\<close>.
\<close>

theorem cohort_by_fgroup_overflows:
  "cohort_by_fgroup (Array_coordinate [0::nat]) [4611686018427387904, 4611686018427387904]
     = Inr \<lparr> fgroup = [0::nat], cohort = [0, 1], timesteps_number = [4611686018427387904, 4611686018427387904],
             min_timestep = [1, 4611686018427387905], max_timestep = [4611686018427387904, 9223372036854775808],
             mean_timestep = [Finite 4503599627370496 9, Finite (- 4503599627370496) 9] \<rparr> \<and>
   sint (9223372036854775808 :: int64) = - (2 ^ 63) \<and>
   sum_list (map sint [4611686018427387904, 4611686018427387904 :: int64]) = 2 ^ 63 \<and>
   cohort_by_fgroup (Array_coordinate [0::nat]) [9007199254740992]
     = Inr \<lparr> fgroup = [0::nat], cohort = [0], timesteps_number = [9007199254740992],
             min_timestep = [1], max_timestep = [9007199254740992],
             mean_timestep = [Finite 4503599627370496 0] \<rparr> \<and>
   float64_real (Finite 4503599627370496 0) = Some (2 ^ 52) \<and>
   (real_of_int (sint (1 :: int64)) + real_of_int (sint (9007199254740992 :: int64))) / 2 = 2 ^ 52 + 1 / 2 \<and>
   cohort_by_fgroup (Scalar_coordinate (0::nat)) [3, 2, 5] = Inl ValueError"
  by (simp add: cohort_wrap cohort_half cohort_by_fgroup_not_array)


lemma mean_between:
  "(a::int) \<le> b \<Longrightarrow>
   real_of_int a \<le> (real_of_int a + real_of_int b) / 2 \<and>
   (real_of_int a + real_of_int b) / 2 \<le> real_of_int b"
  by simp

text \<open>
  Claim C10.  Called with a functional-group coordinate of one element on positive
  counts whose total is below \<open>2^52\<close>, the function returns cohort intervals that tile
  the timestep line: the first interval starts at 1, every later interval starts right
  after the end of the one before it, no interval is empty, and the mean of a cohort lies
  between its minimum and its maximum.
\<close>

theorem cohort_intervals_contiguous:
  assumes "\<forall>n \<in> set ts. 0 < sint n" and "sum_list (map sint ts) < 2 ^ 52" and "i < length ts"
  shows "\<exists>ds. cohort_by_fgroup (Array_coordinate [g]) ts = Inr ds \<and>
           (i = 0 \<longrightarrow> sint (min_timestep ds ! i) = 1) \<and>
           (0 < i \<longrightarrow> sint (min_timestep ds ! i) = sint (max_timestep ds ! (i - 1)) + 1) \<and>
           sint (min_timestep ds ! i) \<le> sint (max_timestep ds ! i) \<and>
           (\<exists>mean. float64_real (mean_timestep ds ! i) = Some mean \<and>
              real_of_int (sint (min_timestep ds ! i)) \<le> mean \<and>
              mean \<le> real_of_int (sint (max_timestep ds ! i)))"
proof -
  let ?ds = "\<lparr> fgroup = [g], cohort = [0 ..< length ts], timesteps_number = ts,
           min_timestep = map2 (\<lambda>m n. m - (n - 1)) (cumsum ts) ts,
           max_timestep = cumsum ts,
           mean_timestep =
             map2 (\<lambda>mx mn. float64_div (float64_of_int (sint (mx + mn))) (float64_of_int 2))
               (cumsum ts) (map2 (\<lambda>m n. m - (n - 1)) (cumsum ts) ts) \<rparr>"
  have run: "cohort_by_fgroup (Array_coordinate [g]) ts = Inr ?ds"
    by (rule cohort_by_fgroup_array)
  note v = cohort_values [OF assms]
  have mx: "sint (max_timestep ?ds ! i) = sum_list (map sint (take (Suc i) ts))"
    using v(1) by simp
  have mn: "sint (min_timestep ?ds ! i) = sint (max_timestep ?ds ! i) - sint (ts ! i) + 1"
    using v(2) assms(3) by (simp add: length_cumsum)
  have mean: "float64_real (mean_timestep ?ds ! i)
      = Some ((real_of_int (sint (min_timestep ?ds ! i))
               + real_of_int (sint (max_timestep ?ds ! i))) / 2)"
    using v(3) assms(3) by (simp add: length_cumsum)
  have step: "sum_list (map sint (take (Suc i) ts)) = sum_list (map sint (take i ts)) + sint (ts ! i)"
    using assms(3) by (simp add: take_Suc_conv_app_nth)
  have first: "i = 0 \<longrightarrow> sint (min_timestep ?ds ! i) = 1"
  proof
    assume "i = 0"
    then have "sum_list (map sint (take i ts)) = 0" by simp
    then show "sint (min_timestep ?ds ! i) = 1"
      using mn mx step by linarith
  qed
  have later: "0 < i \<longrightarrow> sint (min_timestep ?ds ! i) = sint (max_timestep ?ds ! (i - 1)) + 1"
  proof
    assume "0 < i"
    then have j: "i - 1 < length ts" and s: "Suc (i - 1) = i"
      using assms(3) by simp_all
    have "sint (cumsum ts ! (i - 1)) = sum_list (map sint (take (Suc (i - 1)) ts))"
      using cohort_values(1) [OF assms(1,2) j] .
    then have "sint (max_timestep ?ds ! (i - 1)) = sum_list (map sint (take i ts))"
      unfolding s by simp
    then show "sint (min_timestep ?ds ! i) = sint (max_timestep ?ds ! (i - 1)) + 1"
      using mn mx step by linarith
  qed
  have le: "sint (min_timestep ?ds ! i) \<le> sint (max_timestep ?ds ! i)"
    using mn v(4) by linarith
  have lo: "real_of_int (sint (min_timestep ?ds ! i))
      \<le> (real_of_int (sint (min_timestep ?ds ! i)) + real_of_int (sint (max_timestep ?ds ! i))) / 2"
    using mean_between [OF le] by (rule conjunct1)
  have hi: "(real_of_int (sint (min_timestep ?ds ! i)) + real_of_int (sint (max_timestep ?ds ! i))) / 2
      \<le> real_of_int (sint (max_timestep ?ds ! i))"
    using mean_between [OF le] by (rule conjunct2)
  show ?thesis
    using run first later le mean lo hi by blast
qed

theorem cohort_intervals_contiguous_witness:
  "list_all (\<lambda>n. 0 < sint n) [3, 2, 5 :: int64] \<and> sum_list (map sint [3, 2, 5 :: int64]) < 2 ^ 52 \<and>
   (1::nat) < length [3, 2, 5 :: int64] \<and>
   (\<exists>ds. cohort_by_fgroup (Array_coordinate [0 :: nat]) [3, 2, 5] = Inr ds \<and>
      sint (min_timestep ds ! 1) = sint (max_timestep ds ! (1 - 1)) + 1 \<and>
      sint (min_timestep ds ! 1) \<le> sint (max_timestep ds ! 1) \<and>
      (\<exists>mean. float64_real (mean_timestep ds ! 1) = Some mean \<and>
         real_of_int (sint (min_timestep ds ! 1)) \<le> mean \<and>
         mean \<le> real_of_int (sint (max_timestep ds ! 1))))"
proof -
  have h1: "\<forall>n \<in> set [3, 2, 5 :: int64]. 0 < sint n" by simp
  have h2: "sum_list (map sint [3, 2, 5 :: int64]) < 2 ^ 52" by simp
  have h3: "(1::nat) < length [3, 2, 5 :: int64]" by simp
  have h4: "list_all (\<lambda>n. 0 < sint n) [3, 2, 5 :: int64]" by simp
  have h5: "(0::nat) < 1" by simp
  show ?thesis
    using cohort_intervals_contiguous [OF h1 h2 h3, of "0::nat"] h2 h3 h4 h5 by blast
qed

text \<open>
  Without the bound on the total the mean can leave its interval and an interval can end
  before it starts.  For the counts \<open>[2^53, 1]\<close> the second cohort has the minimum and
  the maximum \<open>2^53 + 1\<close> and the mean \<open>2^53\<close>.  For the counts \<open>[2^62, 2^62]\<close> the
  second cohort has the minimum \<open>2^62 + 1\<close> and the maximum \<open>- 2^63\<close>.  With a scalar
  as the coordinate of the functional group there are no intervals: the function raises
  \<^verbatim>\<open>ValueError\<close>.
\<close>

theorem cohort_mean_below_minimum:
  "cohort_by_fgroup (Array_coordinate [0::nat]) [9007199254740992, 1]
     = Inr \<lparr> fgroup = [0::nat], cohort = [0, 1], timesteps_number = [9007199254740992, 1],
             min_timestep = [1, 9007199254740993], max_timestep = [9007199254740992, 9007199254740993],
             mean_timestep = [Finite 4503599627370496 0, Finite 4503599627370496 1] \<rparr> \<and>
   float64_real (Finite 4503599627370496 1) = Some (2 ^ 53) \<and>
   (2 ^ 53 :: real) < real_of_int (sint (9007199254740993 :: int64)) \<and>
   sint (min_timestep
           \<lparr> fgroup = [0::nat], cohort = [0, 1],
             timesteps_number = [4611686018427387904, 4611686018427387904],
             min_timestep = [1, 4611686018427387905],
             max_timestep = [4611686018427387904, 9223372036854775808],
             mean_timestep = [Finite 4503599627370496 9, Finite (- 4503599627370496) 9] \<rparr> ! 1)
     = 2 ^ 62 + 1 \<and>
   sint (9223372036854775808 :: int64) < sint (4611686018427387905 :: int64) \<and>
   cohort_by_fgroup (Scalar_coordinate (0::nat)) [1] = Inl ValueError"
  by (simp add: cohort_round cohort_by_fgroup_not_array)

subsection \<open>Functional-group parameters\<close>

text \<open>
  The sum that Python computes for four lists of coefficients, by either algorithm: the
  two lists of the specification, the list \<open>[1.0, 1e-17]\<close>, and the list
  \<open>[0.33, 0.56, 0.11]\<close>, on which the two algorithms differ.
\<close>

lemma py_sum_rejected_plain:
  "py_sum Plain_summation [float64_of_decimal 5 1, float64_of_decimal 3 1, float64_of_decimal 3 1] = Finite 4953959590107546 (- 52)"
proof -
  have s1: "round_float64 5 10 = Finite 4503599627370496 (- 53)"
    by (rule round_float64_eq [where f = "- 1"])
       (simp_all add: floor_log2_def round_half_even_def Let_def)
  have s2: "float64_of_decimal 5 1 = Finite 4503599627370496 (- 53)"
    by (simp add: float64_of_decimal_def s1)
  have s3: "round_float64 3 10 = Finite 5404319552844595 (- 54)"
    by (rule round_float64_eq [where f = "- 2"])
       (simp_all add: floor_log2_def round_half_even_def Let_def)
  have s4: "float64_of_decimal 3 1 = Finite 5404319552844595 (- 54)"
    by (simp add: float64_of_decimal_def s3)
  have s5: "round_float64 4503599627370496 9007199254740992 = Finite 4503599627370496 (- 53)"
    by (rule round_float64_eq [where f = "- 1"])
       (simp_all add: floor_log2_def round_half_even_def Let_def)
  have s6: "float64_add (Finite 0 0) (Finite 4503599627370496 (- 53)) = Finite 4503599627370496 (- 53)"
    by (simp add: round_dyadic_def s5)
  have s7: "round_float64 14411518807585587 18014398509481984 = Finite 7205759403792794 (- 53)"
    by (rule round_float64_eq [where f = "- 1"])
       (simp_all add: floor_log2_def round_half_even_def Let_def)
  have s8: "float64_add (Finite 4503599627370496 (- 53)) (Finite 5404319552844595 (- 54)) = Finite 7205759403792794 (- 53)"
    by (simp add: round_dyadic_def s7)
  have s9: "round_float64 19815838360430183 18014398509481984 = Finite 4953959590107546 (- 52)"
    by (rule round_float64_eq [where f = "0"])
       (simp_all add: floor_log2_def round_half_even_def Let_def)
  have s10: "float64_add (Finite 7205759403792794 (- 53)) (Finite 5404319552844595 (- 54)) = Finite 4953959590107546 (- 52)"
    by (simp add: round_dyadic_def s9)
  show ?thesis
    by (simp add: py_sum_def Let_def float64_sub_def s2 s4 s6 s8 s10 del: float64_add.simps One_nat_def)
qed

lemma py_sum_rejected_neumaier:
  "py_sum Neumaier_summation [float64_of_decimal 5 1, float64_of_decimal 3 1, float64_of_decimal 3 1] = Finite 4953959590107546 (- 52)"
proof -
  have s1: "round_float64 5 10 = Finite 4503599627370496 (- 53)"
    by (rule round_float64_eq [where f = "- 1"])
       (simp_all add: floor_log2_def round_half_even_def Let_def)
  have s2: "float64_of_decimal 5 1 = Finite 4503599627370496 (- 53)"
    by (simp add: float64_of_decimal_def s1)
  have s3: "round_float64 3 10 = Finite 5404319552844595 (- 54)"
    by (rule round_float64_eq [where f = "- 2"])
       (simp_all add: floor_log2_def round_half_even_def Let_def)
  have s4: "float64_of_decimal 3 1 = Finite 5404319552844595 (- 54)"
    by (simp add: float64_of_decimal_def s3)
  have s5: "round_float64 4503599627370496 9007199254740992 = Finite 4503599627370496 (- 53)"
    by (rule round_float64_eq [where f = "- 1"])
       (simp_all add: floor_log2_def round_half_even_def Let_def)
  have s6: "float64_add (Finite 0 0) (Finite 4503599627370496 (- 53)) = Finite 4503599627370496 (- 53)"
    by (simp add: round_dyadic_def s5)
  have s7: "round_float64 14411518807585587 18014398509481984 = Finite 7205759403792794 (- 53)"
    by (rule round_float64_eq [where f = "- 1"])
       (simp_all add: floor_log2_def round_half_even_def Let_def)
  have s8: "float64_add (Finite 4503599627370496 (- 53)) (Finite 5404319552844595 (- 54)) = Finite 7205759403792794 (- 53)"
    by (simp add: round_dyadic_def s7)
  have s9: "round_float64 (- 2702159776422298) 9007199254740992 = Finite (- 5404319552844596) (- 54)"
    by (rule round_float64_eq [where f = "- 2"])
       (simp_all add: floor_log2_def round_half_even_def Let_def)
  have s10: "float64_add (Finite 4503599627370496 (- 53)) (Finite (- 7205759403792794) (- 53)) = Finite (- 5404319552844596) (- 54)"
    by (simp add: round_dyadic_def s9)
  have s11: "round_float64 (- 1) 18014398509481984 = Finite (- 4503599627370496) (- 106)"
    by (rule round_float64_eq [where f = "- 54"])
       (simp_all add: floor_log2_def round_half_even_def Let_def)
  have s12: "float64_add (Finite (- 5404319552844596) (- 54)) (Finite 5404319552844595 (- 54)) = Finite (- 4503599627370496) (- 106)"
    by (simp add: round_dyadic_def s11)
  have s13: "round_float64 (- 4503599627370496) 81129638414606681695789005144064 = Finite (- 4503599627370496) (- 106)"
    by (rule round_float64_eq [where f = "- 54"])
       (simp_all add: floor_log2_def round_half_even_def Let_def)
  have s14: "float64_add (Finite 0 0) (Finite (- 4503599627370496) (- 106)) = Finite (- 4503599627370496) (- 106)"
    by (simp add: round_dyadic_def s13)
  have s15: "round_float64 19815838360430183 18014398509481984 = Finite 4953959590107546 (- 52)"
    by (rule round_float64_eq [where f = "0"])
       (simp_all add: floor_log2_def round_half_even_def Let_def)
  have s16: "float64_add (Finite 7205759403792794 (- 53)) (Finite 5404319552844595 (- 54)) = Finite 4953959590107546 (- 52)"
    by (simp add: round_dyadic_def s15)
  have s17: "float64_add (Finite 7205759403792794 (- 53)) (Finite (- 4953959590107546) (- 52)) = Finite (- 5404319552844596) (- 54)"
    by (simp add: round_dyadic_def s9)
  have s18: "round_float64 (- 9007199254740992) 81129638414606681695789005144064 = Finite (- 4503599627370496) (- 105)"
    by (rule round_float64_eq [where f = "- 53"])
       (simp_all add: floor_log2_def round_half_even_def Let_def)
  have s19: "float64_add (Finite (- 4503599627370496) (- 106)) (Finite (- 4503599627370496) (- 106)) = Finite (- 4503599627370496) (- 105)"
    by (simp add: round_dyadic_def s18)
  have s20: "round_float64 44621301128033674031964027355136 40564819207303340847894502572032 = Finite 4953959590107546 (- 52)"
    by (rule round_float64_eq [where f = "0"])
       (simp_all add: floor_log2_def round_half_even_def Let_def)
  have s21: "float64_add (Finite 4953959590107546 (- 52)) (Finite (- 4503599627370496) (- 105)) = Finite 4953959590107546 (- 52)"
    by (simp add: round_dyadic_def s20)
  show ?thesis
    by (simp add: py_sum_def Let_def float64_sub_def s2 s4 s6 s8 s10 s12 s14 s16 s17 s19 s21 del: float64_add.simps One_nat_def)
qed

lemma py_sum_boundary_plain:
  "py_sum Plain_summation [float64_of_decimal 5 1, float64_of_decimal 3 1, float64_of_decimal 2 1] = Finite 4503599627370496 (- 52)"
proof -
  have s1: "round_float64 5 10 = Finite 4503599627370496 (- 53)"
    by (rule round_float64_eq [where f = "- 1"])
       (simp_all add: floor_log2_def round_half_even_def Let_def)
  have s2: "float64_of_decimal 5 1 = Finite 4503599627370496 (- 53)"
    by (simp add: float64_of_decimal_def s1)
  have s3: "round_float64 3 10 = Finite 5404319552844595 (- 54)"
    by (rule round_float64_eq [where f = "- 2"])
       (simp_all add: floor_log2_def round_half_even_def Let_def)
  have s4: "float64_of_decimal 3 1 = Finite 5404319552844595 (- 54)"
    by (simp add: float64_of_decimal_def s3)
  have s5: "round_float64 2 10 = Finite 7205759403792794 (- 55)"
    by (rule round_float64_eq [where f = "- 3"])
       (simp_all add: floor_log2_def round_half_even_def Let_def)
  have s6: "float64_of_decimal 2 1 = Finite 7205759403792794 (- 55)"
    by (simp add: float64_of_decimal_def s5)
  have s7: "round_float64 4503599627370496 9007199254740992 = Finite 4503599627370496 (- 53)"
    by (rule round_float64_eq [where f = "- 1"])
       (simp_all add: floor_log2_def round_half_even_def Let_def)
  have s8: "float64_add (Finite 0 0) (Finite 4503599627370496 (- 53)) = Finite 4503599627370496 (- 53)"
    by (simp add: round_dyadic_def s7)
  have s9: "round_float64 14411518807585587 18014398509481984 = Finite 7205759403792794 (- 53)"
    by (rule round_float64_eq [where f = "- 1"])
       (simp_all add: floor_log2_def round_half_even_def Let_def)
  have s10: "float64_add (Finite 4503599627370496 (- 53)) (Finite 5404319552844595 (- 54)) = Finite 7205759403792794 (- 53)"
    by (simp add: round_dyadic_def s9)
  have s11: "round_float64 36028797018963970 36028797018963968 = Finite 4503599627370496 (- 52)"
    by (rule round_float64_eq [where f = "0"])
       (simp_all add: floor_log2_def round_half_even_def Let_def)
  have s12: "float64_add (Finite 7205759403792794 (- 53)) (Finite 7205759403792794 (- 55)) = Finite 4503599627370496 (- 52)"
    by (simp add: round_dyadic_def s11)
  show ?thesis
    by (simp add: py_sum_def Let_def float64_sub_def s2 s4 s6 s8 s10 s12 del: float64_add.simps One_nat_def)
qed

lemma py_sum_boundary_neumaier:
  "py_sum Neumaier_summation [float64_of_decimal 5 1, float64_of_decimal 3 1, float64_of_decimal 2 1] = Finite 4503599627370496 (- 52)"
proof -
  have s1: "round_float64 5 10 = Finite 4503599627370496 (- 53)"
    by (rule round_float64_eq [where f = "- 1"])
       (simp_all add: floor_log2_def round_half_even_def Let_def)
  have s2: "float64_of_decimal 5 1 = Finite 4503599627370496 (- 53)"
    by (simp add: float64_of_decimal_def s1)
  have s3: "round_float64 3 10 = Finite 5404319552844595 (- 54)"
    by (rule round_float64_eq [where f = "- 2"])
       (simp_all add: floor_log2_def round_half_even_def Let_def)
  have s4: "float64_of_decimal 3 1 = Finite 5404319552844595 (- 54)"
    by (simp add: float64_of_decimal_def s3)
  have s5: "round_float64 2 10 = Finite 7205759403792794 (- 55)"
    by (rule round_float64_eq [where f = "- 3"])
       (simp_all add: floor_log2_def round_half_even_def Let_def)
  have s6: "float64_of_decimal 2 1 = Finite 7205759403792794 (- 55)"
    by (simp add: float64_of_decimal_def s5)
  have s7: "round_float64 4503599627370496 9007199254740992 = Finite 4503599627370496 (- 53)"
    by (rule round_float64_eq [where f = "- 1"])
       (simp_all add: floor_log2_def round_half_even_def Let_def)
  have s8: "float64_add (Finite 0 0) (Finite 4503599627370496 (- 53)) = Finite 4503599627370496 (- 53)"
    by (simp add: round_dyadic_def s7)
  have s9: "round_float64 14411518807585587 18014398509481984 = Finite 7205759403792794 (- 53)"
    by (rule round_float64_eq [where f = "- 1"])
       (simp_all add: floor_log2_def round_half_even_def Let_def)
  have s10: "float64_add (Finite 4503599627370496 (- 53)) (Finite 5404319552844595 (- 54)) = Finite 7205759403792794 (- 53)"
    by (simp add: round_dyadic_def s9)
  have s11: "round_float64 (- 2702159776422298) 9007199254740992 = Finite (- 5404319552844596) (- 54)"
    by (rule round_float64_eq [where f = "- 2"])
       (simp_all add: floor_log2_def round_half_even_def Let_def)
  have s12: "float64_add (Finite 4503599627370496 (- 53)) (Finite (- 7205759403792794) (- 53)) = Finite (- 5404319552844596) (- 54)"
    by (simp add: round_dyadic_def s11)
  have s13: "round_float64 (- 1) 18014398509481984 = Finite (- 4503599627370496) (- 106)"
    by (rule round_float64_eq [where f = "- 54"])
       (simp_all add: floor_log2_def round_half_even_def Let_def)
  have s14: "float64_add (Finite (- 5404319552844596) (- 54)) (Finite 5404319552844595 (- 54)) = Finite (- 4503599627370496) (- 106)"
    by (simp add: round_dyadic_def s13)
  have s15: "round_float64 (- 4503599627370496) 81129638414606681695789005144064 = Finite (- 4503599627370496) (- 106)"
    by (rule round_float64_eq [where f = "- 54"])
       (simp_all add: floor_log2_def round_half_even_def Let_def)
  have s16: "float64_add (Finite 0 0) (Finite (- 4503599627370496) (- 106)) = Finite (- 4503599627370496) (- 106)"
    by (simp add: round_dyadic_def s15)
  have s17: "round_float64 36028797018963970 36028797018963968 = Finite 4503599627370496 (- 52)"
    by (rule round_float64_eq [where f = "0"])
       (simp_all add: floor_log2_def round_half_even_def Let_def)
  have s18: "float64_add (Finite 7205759403792794 (- 53)) (Finite 7205759403792794 (- 55)) = Finite 4503599627370496 (- 52)"
    by (simp add: round_dyadic_def s17)
  have s19: "round_float64 (- 1801439850948198) 9007199254740992 = Finite (- 7205759403792792) (- 55)"
    by (rule round_float64_eq [where f = "- 3"])
       (simp_all add: floor_log2_def round_half_even_def Let_def)
  have s20: "float64_add (Finite 7205759403792794 (- 53)) (Finite (- 4503599627370496) (- 52)) = Finite (- 7205759403792792) (- 55)"
    by (simp add: round_dyadic_def s19)
  have s21: "round_float64 2 36028797018963968 = Finite 4503599627370496 (- 106)"
    by (rule round_float64_eq [where f = "- 54"])
       (simp_all add: floor_log2_def round_half_even_def Let_def)
  have s22: "float64_add (Finite (- 7205759403792792) (- 55)) (Finite 7205759403792794 (- 55)) = Finite 4503599627370496 (- 106)"
    by (simp add: round_dyadic_def s21)
  have s23: "round_float64 0 81129638414606681695789005144064 = Finite 0 0"
    by (simp add: round_float64_def)
  have s24: "float64_add (Finite (- 4503599627370496) (- 106)) (Finite 4503599627370496 (- 106)) = Finite 0 0"
    by (simp add: round_dyadic_def s23)
  show ?thesis
    by (simp add: py_sum_def Let_def float64_sub_def s2 s4 s6 s8 s10 s12 s14 s16 s18 s20 s22 s24 del: float64_add.simps One_nat_def)
qed

lemma py_sum_absorbed_plain:
  "py_sum Plain_summation [float64_of_decimal 1 0, float64_of_decimal 1 17] = Finite 4503599627370496 (- 52)"
proof -
  have s1: "round_float64 1 1 = Finite 4503599627370496 (- 52)"
    by (rule round_float64_eq [where f = "0"])
       (simp_all add: floor_log2_def round_half_even_def Let_def)
  have s2: "float64_of_decimal 1 0 = Finite 4503599627370496 (- 52)"
    by (simp add: float64_of_decimal_def s1)
  have s3: "round_float64 1 100000000000000000 = Finite 6490371073168535 (- 109)"
    by (rule round_float64_eq [where f = "- 57"])
       (simp_all add: floor_log2_def round_half_even_def Let_def)
  have s4: "float64_of_decimal 1 17 = Finite 6490371073168535 (- 109)"
    by (simp add: float64_of_decimal_def s3)
  have s5: "round_float64 4503599627370496 4503599627370496 = Finite 4503599627370496 (- 52)"
    by (rule round_float64_eq [where f = "0"])
       (simp_all add: floor_log2_def round_half_even_def Let_def)
  have s6: "float64_add (Finite 0 0) (Finite 4503599627370496 (- 52)) = Finite 4503599627370496 (- 52)"
    by (simp add: round_dyadic_def s5)
  have s7: "round_float64 649037107316853460056683114321047 649037107316853453566312041152512 = Finite 4503599627370496 (- 52)"
    by (rule round_float64_eq [where f = "0"])
       (simp_all add: floor_log2_def round_half_even_def Let_def)
  have s8: "float64_add (Finite 4503599627370496 (- 52)) (Finite 6490371073168535 (- 109)) = Finite 4503599627370496 (- 52)"
    by (simp add: round_dyadic_def s7)
  show ?thesis
    by (simp add: py_sum_def Let_def float64_sub_def s2 s4 s6 s8 del: float64_add.simps One_nat_def)
qed

lemma py_sum_absorbed_neumaier:
  "py_sum Neumaier_summation [float64_of_decimal 1 0, float64_of_decimal 1 17] = Finite 4503599627370496 (- 52)"
proof -
  have s1: "round_float64 1 1 = Finite 4503599627370496 (- 52)"
    by (rule round_float64_eq [where f = "0"])
       (simp_all add: floor_log2_def round_half_even_def Let_def)
  have s2: "float64_of_decimal 1 0 = Finite 4503599627370496 (- 52)"
    by (simp add: float64_of_decimal_def s1)
  have s3: "round_float64 1 100000000000000000 = Finite 6490371073168535 (- 109)"
    by (rule round_float64_eq [where f = "- 57"])
       (simp_all add: floor_log2_def round_half_even_def Let_def)
  have s4: "float64_of_decimal 1 17 = Finite 6490371073168535 (- 109)"
    by (simp add: float64_of_decimal_def s3)
  have s5: "round_float64 4503599627370496 4503599627370496 = Finite 4503599627370496 (- 52)"
    by (rule round_float64_eq [where f = "0"])
       (simp_all add: floor_log2_def round_half_even_def Let_def)
  have s6: "float64_add (Finite 0 0) (Finite 4503599627370496 (- 52)) = Finite 4503599627370496 (- 52)"
    by (simp add: round_dyadic_def s5)
  have s7: "round_float64 649037107316853460056683114321047 649037107316853453566312041152512 = Finite 4503599627370496 (- 52)"
    by (rule round_float64_eq [where f = "0"])
       (simp_all add: floor_log2_def round_half_even_def Let_def)
  have s8: "float64_add (Finite 4503599627370496 (- 52)) (Finite 6490371073168535 (- 109)) = Finite 4503599627370496 (- 52)"
    by (simp add: round_dyadic_def s7)
  have s9: "round_float64 0 4503599627370496 = Finite 0 0"
    by (simp add: round_float64_def)
  have s10: "float64_add (Finite 4503599627370496 (- 52)) (Finite (- 4503599627370496) (- 52)) = Finite 0 0"
    by (simp add: round_dyadic_def s9)
  have s11: "round_float64 6490371073168535 649037107316853453566312041152512 = Finite 6490371073168535 (- 109)"
    by (rule round_float64_eq [where f = "- 57"])
       (simp_all add: floor_log2_def round_half_even_def Let_def)
  have s12: "float64_add (Finite 0 0) (Finite 6490371073168535 (- 109)) = Finite 6490371073168535 (- 109)"
    by (simp add: round_dyadic_def s11)
  show ?thesis
    by (simp add: py_sum_def Let_def float64_sub_def s2 s4 s6 s8 s10 s12 del: float64_add.simps One_nat_def)
qed

lemma py_sum_hundredths_plain:
  "py_sum Plain_summation [float64_of_decimal 33 2, float64_of_decimal 56 2, float64_of_decimal 11 2] = Finite 4503599627370497 (- 52)"
proof -
  have s1: "round_float64 33 100 = Finite 5944751508129055 (- 54)"
    by (rule round_float64_eq [where f = "- 2"])
       (simp_all add: floor_log2_def round_half_even_def Let_def)
  have s2: "float64_of_decimal 33 2 = Finite 5944751508129055 (- 54)"
    by (simp add: float64_of_decimal_def s1)
  have s3: "round_float64 56 100 = Finite 5044031582654956 (- 53)"
    by (rule round_float64_eq [where f = "- 1"])
       (simp_all add: floor_log2_def round_half_even_def Let_def)
  have s4: "float64_of_decimal 56 2 = Finite 5044031582654956 (- 53)"
    by (simp add: float64_of_decimal_def s3)
  have s5: "round_float64 11 100 = Finite 7926335344172073 (- 56)"
    by (rule round_float64_eq [where f = "- 4"])
       (simp_all add: floor_log2_def round_half_even_def Let_def)
  have s6: "float64_of_decimal 11 2 = Finite 7926335344172073 (- 56)"
    by (simp add: float64_of_decimal_def s5)
  have s7: "round_float64 5944751508129055 18014398509481984 = Finite 5944751508129055 (- 54)"
    by (rule round_float64_eq [where f = "- 2"])
       (simp_all add: floor_log2_def round_half_even_def Let_def)
  have s8: "float64_add (Finite 0 0) (Finite 5944751508129055 (- 54)) = Finite 5944751508129055 (- 54)"
    by (simp add: round_dyadic_def s7)
  have s9: "round_float64 16032814673438967 18014398509481984 = Finite 8016407336719484 (- 53)"
    by (rule round_float64_eq [where f = "- 1"])
       (simp_all add: floor_log2_def round_half_even_def Let_def)
  have s10: "float64_add (Finite 5944751508129055 (- 54)) (Finite 5044031582654956 (- 53)) = Finite 8016407336719484 (- 53)"
    by (simp add: round_dyadic_def s9)
  have s11: "round_float64 72057594037927945 72057594037927936 = Finite 4503599627370497 (- 52)"
    by (rule round_float64_eq [where f = "0"])
       (simp_all add: floor_log2_def round_half_even_def Let_def)
  have s12: "float64_add (Finite 8016407336719484 (- 53)) (Finite 7926335344172073 (- 56)) = Finite 4503599627370497 (- 52)"
    by (simp add: round_dyadic_def s11)
  show ?thesis
    by (simp add: py_sum_def Let_def float64_sub_def s2 s4 s6 s8 s10 s12 del: float64_add.simps One_nat_def)
qed

lemma py_sum_hundredths_neumaier:
  "py_sum Neumaier_summation [float64_of_decimal 33 2, float64_of_decimal 56 2, float64_of_decimal 11 2] = Finite 4503599627370496 (- 52)"
proof -
  have s1: "round_float64 33 100 = Finite 5944751508129055 (- 54)"
    by (rule round_float64_eq [where f = "- 2"])
       (simp_all add: floor_log2_def round_half_even_def Let_def)
  have s2: "float64_of_decimal 33 2 = Finite 5944751508129055 (- 54)"
    by (simp add: float64_of_decimal_def s1)
  have s3: "round_float64 56 100 = Finite 5044031582654956 (- 53)"
    by (rule round_float64_eq [where f = "- 1"])
       (simp_all add: floor_log2_def round_half_even_def Let_def)
  have s4: "float64_of_decimal 56 2 = Finite 5044031582654956 (- 53)"
    by (simp add: float64_of_decimal_def s3)
  have s5: "round_float64 11 100 = Finite 7926335344172073 (- 56)"
    by (rule round_float64_eq [where f = "- 4"])
       (simp_all add: floor_log2_def round_half_even_def Let_def)
  have s6: "float64_of_decimal 11 2 = Finite 7926335344172073 (- 56)"
    by (simp add: float64_of_decimal_def s5)
  have s7: "round_float64 5944751508129055 18014398509481984 = Finite 5944751508129055 (- 54)"
    by (rule round_float64_eq [where f = "- 2"])
       (simp_all add: floor_log2_def round_half_even_def Let_def)
  have s8: "float64_add (Finite 0 0) (Finite 5944751508129055 (- 54)) = Finite 5944751508129055 (- 54)"
    by (simp add: round_dyadic_def s7)
  have s9: "round_float64 16032814673438967 18014398509481984 = Finite 8016407336719484 (- 53)"
    by (rule round_float64_eq [where f = "- 1"])
       (simp_all add: floor_log2_def round_half_even_def Let_def)
  have s10: "float64_add (Finite 5944751508129055 (- 54)) (Finite 5044031582654956 (- 53)) = Finite 8016407336719484 (- 53)"
    by (simp add: round_dyadic_def s9)
  have s11: "round_float64 (- 2972375754064528) 9007199254740992 = Finite (- 5944751508129056) (- 54)"
    by (rule round_float64_eq [where f = "- 2"])
       (simp_all add: floor_log2_def round_half_even_def Let_def)
  have s12: "float64_add (Finite 5044031582654956 (- 53)) (Finite (- 8016407336719484) (- 53)) = Finite (- 5944751508129056) (- 54)"
    by (simp add: round_dyadic_def s11)
  have s13: "round_float64 (- 1) 18014398509481984 = Finite (- 4503599627370496) (- 106)"
    by (rule round_float64_eq [where f = "- 54"])
       (simp_all add: floor_log2_def round_half_even_def Let_def)
  have s14: "float64_add (Finite (- 5944751508129056) (- 54)) (Finite 5944751508129055 (- 54)) = Finite (- 4503599627370496) (- 106)"
    by (simp add: round_dyadic_def s13)
  have s15: "round_float64 (- 4503599627370496) 81129638414606681695789005144064 = Finite (- 4503599627370496) (- 106)"
    by (rule round_float64_eq [where f = "- 54"])
       (simp_all add: floor_log2_def round_half_even_def Let_def)
  have s16: "float64_add (Finite 0 0) (Finite (- 4503599627370496) (- 106)) = Finite (- 4503599627370496) (- 106)"
    by (simp add: round_dyadic_def s15)
  have s17: "round_float64 72057594037927945 72057594037927936 = Finite 4503599627370497 (- 52)"
    by (rule round_float64_eq [where f = "0"])
       (simp_all add: floor_log2_def round_half_even_def Let_def)
  have s18: "float64_add (Finite 8016407336719484 (- 53)) (Finite 7926335344172073 (- 56)) = Finite 4503599627370497 (- 52)"
    by (simp add: round_dyadic_def s17)
  have s19: "round_float64 (- 990791918021510) 9007199254740992 = Finite (- 7926335344172080) (- 56)"
    by (rule round_float64_eq [where f = "- 4"])
       (simp_all add: floor_log2_def round_half_even_def Let_def)
  have s20: "float64_add (Finite 8016407336719484 (- 53)) (Finite (- 4503599627370497) (- 52)) = Finite (- 7926335344172080) (- 56)"
    by (simp add: round_dyadic_def s19)
  have s21: "round_float64 (- 7) 72057594037927936 = Finite (- 7881299347898368) (- 106)"
    by (rule round_float64_eq [where f = "- 54"])
       (simp_all add: floor_log2_def round_half_even_def Let_def)
  have s22: "float64_add (Finite (- 7926335344172080) (- 56)) (Finite 7926335344172073 (- 56)) = Finite (- 7881299347898368) (- 106)"
    by (simp add: round_dyadic_def s21)
  have s23: "round_float64 (- 12384898975268864) 81129638414606681695789005144064 = Finite (- 6192449487634432) (- 105)"
    by (rule round_float64_eq [where f = "- 53"])
       (simp_all add: floor_log2_def round_half_even_def Let_def)
  have s24: "float64_add (Finite (- 4503599627370496) (- 106)) (Finite (- 7881299347898368) (- 106)) = Finite (- 6192449487634432) (- 105)"
    by (simp add: round_dyadic_def s23)
  have s25: "round_float64 40564819207303343662644269678592 40564819207303340847894502572032 = Finite 4503599627370496 (- 52)"
    by (rule round_float64_eq [where f = "0"])
       (simp_all add: floor_log2_def round_half_even_def Let_def)
  have s26: "float64_add (Finite 4503599627370497 (- 52)) (Finite (- 6192449487634432) (- 105)) = Finite 4503599627370496 (- 52)"
    by (simp add: round_dyadic_def s25)
  show ?thesis
    by (simp add: py_sum_def Let_def float64_sub_def s2 s4 s6 s8 s10 s12 s14 s16 s18 s20 s22 s24 s26 del: float64_add.simps One_nat_def)
qed

lemma py_sum_rejected:
  "py_sum alg [float64_of_decimal 5 1, float64_of_decimal 3 1, float64_of_decimal 3 1]
     = Finite 4953959590107546 (- 52)"
  by (cases alg) (simp_all only: py_sum_rejected_plain py_sum_rejected_neumaier)

lemma py_sum_boundary:
  "py_sum alg [float64_of_decimal 5 1, float64_of_decimal 3 1, float64_of_decimal 2 1]
     = Finite 4503599627370496 (- 52)"
  by (cases alg) (simp_all only: py_sum_boundary_plain py_sum_boundary_neumaier)

lemma py_sum_absorbed:
  "py_sum alg [float64_of_decimal 1 0, float64_of_decimal 1 17] = Finite 4503599627370496 (- 52)"
  by (cases alg) (simp_all only: py_sum_absorbed_plain py_sum_absorbed_neumaier)

text \<open>
  Claim C4.  Constructing the functional-groups object fails exactly when the sum of the
  energy coefficients that Python computes, a \<^verbatim>\<open>float64\<close> accumulated in the order of
  the list, is greater than 1; the only failure is the \<^verbatim>\<open>ValueError\<close> of the
  validator.  Groups with the coefficients \<open>[0.5, 0.3, 0.3]\<close> are rejected; groups with
  the coefficients \<open>[0.5, 0.3, 0.2]\<close>, whose computed sum is exactly 1, are accepted.
  This holds for both summation algorithms of CPython.
\<close>

theorem FunctionalGroups_rejected_iff:
  "((\<exists>e. new_FunctionalGroups alg fgs = Inl e)
      = int_less_float64 1 (py_sum alg (map energy_coefficient fgs))) \<and>
   (new_FunctionalGroups alg fgs = Inl ValueError
      \<or> new_FunctionalGroups alg fgs = Inr \<lparr> functional_groups = fgs \<rparr>) \<and>
   (map energy_coefficient fgs
      = [float64_of_decimal 5 1, float64_of_decimal 3 1, float64_of_decimal 3 1] \<longrightarrow>
      new_FunctionalGroups alg fgs = Inl ValueError) \<and>
   (map energy_coefficient fgs
      = [float64_of_decimal 5 1, float64_of_decimal 3 1, float64_of_decimal 2 1] \<longrightarrow>
      new_FunctionalGroups alg fgs = Inr \<lparr> functional_groups = fgs \<rparr>)"
  by (simp add: new_FunctionalGroups_def no_more_than_global_coef_def py_sum_rejected
        py_sum_boundary del: One_nat_def)

theorem FunctionalGroups_rejected_iff_witness:
  "new_FunctionalGroups Plain_summation
     [\<lparr> fgroup_name = ''a'', fgroup_day_layer = 1, fgroup_night_layer = 1,
        energy_coefficient = float64_of_decimal 5 1 \<rparr>,
      \<lparr> fgroup_name = ''b'', fgroup_day_layer = 1, fgroup_night_layer = 2,
        energy_coefficient = float64_of_decimal 3 1 \<rparr>,
      \<lparr> fgroup_name = ''c'', fgroup_day_layer = 2, fgroup_night_layer = 1,
        energy_coefficient = float64_of_decimal 3 1 \<rparr>]
     = Inl ValueError \<and>
   new_FunctionalGroups Neumaier_summation
     [\<lparr> fgroup_name = ''a'', fgroup_day_layer = 1, fgroup_night_layer = 1,
        energy_coefficient = float64_of_decimal 5 1 \<rparr>,
      \<lparr> fgroup_name = ''b'', fgroup_day_layer = 1, fgroup_night_layer = 2,
        energy_coefficient = float64_of_decimal 3 1 \<rparr>,
      \<lparr> fgroup_name = ''c'', fgroup_day_layer = 2, fgroup_night_layer = 1,
        energy_coefficient = float64_of_decimal 2 1 \<rparr>]
     = Inr \<lparr> functional_groups =
     [\<lparr> fgroup_name = ''a'', fgroup_day_layer = 1, fgroup_night_layer = 1,
        energy_coefficient = float64_of_decimal 5 1 \<rparr>,
      \<lparr> fgroup_name = ''b'', fgroup_day_layer = 1, fgroup_night_layer = 2,
        energy_coefficient = float64_of_decimal 3 1 \<rparr>,
      \<lparr> fgroup_name = ''c'', fgroup_day_layer = 2, fgroup_night_layer = 1,
        energy_coefficient = float64_of_decimal 2 1 \<rparr>] \<rparr>"
proof -
  let ?a = "\<lparr> fgroup_name = ''a'', fgroup_day_layer = 1, fgroup_night_layer = 1,
        energy_coefficient = float64_of_decimal 5 1 \<rparr>"
  let ?b = "\<lparr> fgroup_name = ''b'', fgroup_day_layer = 1, fgroup_night_layer = 2,
        energy_coefficient = float64_of_decimal 3 1 \<rparr>"
  let ?c = "\<lparr> fgroup_name = ''c'', fgroup_day_layer = 2, fgroup_night_layer = 1,
        energy_coefficient = float64_of_decimal 3 1 \<rparr>"
  let ?d = "\<lparr> fgroup_name = ''c'', fgroup_day_layer = 2, fgroup_night_layer = 1,
        energy_coefficient = float64_of_decimal 2 1 \<rparr>"
  have r: "map energy_coefficient [?a, ?b, ?c]
      = [float64_of_decimal 5 1, float64_of_decimal 3 1, float64_of_decimal 3 1]"
    by simp
  have a: "map energy_coefficient [?a, ?b, ?d]
      = [float64_of_decimal 5 1, float64_of_decimal 3 1, float64_of_decimal 2 1]"
    by simp
  have "new_FunctionalGroups Plain_summation [?a, ?b, ?c] = Inl ValueError"
    using FunctionalGroups_rejected_iff [of Plain_summation "[?a, ?b, ?c]"] r by blast
  moreover have "new_FunctionalGroups Neumaier_summation [?a, ?b, ?d]
      = Inr \<lparr> functional_groups = [?a, ?b, ?d] \<rparr>"
    using FunctionalGroups_rejected_iff [of Neumaier_summation "[?a, ?b, ?d]"] a by blast
  ultimately show ?thesis by blast
qed

text \<open>
  The computed sum is not the sum of the coefficients.  The coefficients \<open>1.0\<close> and
  \<open>1e-17\<close> have a sum greater than 1, but the addition rounds it to 1 and the groups
  are accepted, by either algorithm.
\<close>

lemma one_and_tiny:
  "float64_of_decimal 1 0 = Finite 4503599627370496 (- 52) \<and>
   float64_of_decimal 1 17 = Finite 6490371073168535 (- 109)"
proof -
  have s1: "round_float64 1 1 = Finite 4503599627370496 (- 52)"
    by (rule round_float64_eq [where f = "0"])
       (simp_all add: floor_log2_def round_half_even_def Let_def)
  have s2: "round_float64 1 100000000000000000 = Finite 6490371073168535 (- 109)"
    by (rule round_float64_eq [where f = "- 57"])
       (simp_all add: floor_log2_def round_half_even_def Let_def)
  show ?thesis
    by (simp add: float64_of_decimal_def s1 s2)
qed

theorem FunctionalGroups_accepts_sum_above_one:
  "new_FunctionalGroups Plain_summation
     [\<lparr> fgroup_name = ''a'', fgroup_day_layer = 1, fgroup_night_layer = 1,
        energy_coefficient = float64_of_decimal 1 0 \<rparr>,
      \<lparr> fgroup_name = ''b'', fgroup_day_layer = 1, fgroup_night_layer = 2,
        energy_coefficient = float64_of_decimal 1 17 \<rparr>]
     = Inr \<lparr> functional_groups =
     [\<lparr> fgroup_name = ''a'', fgroup_day_layer = 1, fgroup_night_layer = 1,
        energy_coefficient = float64_of_decimal 1 0 \<rparr>,
      \<lparr> fgroup_name = ''b'', fgroup_day_layer = 1, fgroup_night_layer = 2,
        energy_coefficient = float64_of_decimal 1 17 \<rparr>] \<rparr> \<and>
   new_FunctionalGroups Neumaier_summation
     [\<lparr> fgroup_name = ''a'', fgroup_day_layer = 1, fgroup_night_layer = 1,
        energy_coefficient = float64_of_decimal 1 0 \<rparr>,
      \<lparr> fgroup_name = ''b'', fgroup_day_layer = 1, fgroup_night_layer = 2,
        energy_coefficient = float64_of_decimal 1 17 \<rparr>]
     = Inr \<lparr> functional_groups =
     [\<lparr> fgroup_name = ''a'', fgroup_day_layer = 1, fgroup_night_layer = 1,
        energy_coefficient = float64_of_decimal 1 0 \<rparr>,
      \<lparr> fgroup_name = ''b'', fgroup_day_layer = 1, fgroup_night_layer = 2,
        energy_coefficient = float64_of_decimal 1 17 \<rparr>] \<rparr> \<and>
   float64_real (float64_of_decimal 1 0) = Some 1 \<and>
   float64_real (float64_of_decimal 1 17) = Some (6490371073168535 / 2 ^ 109) \<and>
   (1 :: real) < 1 + 6490371073168535 / 2 ^ 109"
proof -
  have v: "float64_real (float64_of_decimal 1 0) = Some 1 \<and>
      float64_real (float64_of_decimal 1 17) = Some (6490371073168535 / 2 ^ 109)"
    by (simp add: one_and_tiny)
  show ?thesis
    using v by (simp add: new_FunctionalGroups_def no_more_than_global_coef_def py_sum_absorbed Let_def)
qed

subsection \<open>Forcing paths\<close>

text \<open>
  Claim C7.  Constructing a forcing-path parameter fails when nothing exists at the path,
  and fails when the dataset at the path does not hold the declared variable name; when
  the path holds a dataset that has the name, construction succeeds and returns the two
  fields as given.  Construction succeeds in no other case.
\<close>

theorem PathParametersUnit_construction:
  "(fs path = None \<longrightarrow> new_PathParametersUnit fs path nm = Inl ValueError) \<and>
   (fs path = Some (Dataset vars) \<and> nm \<notin> set vars \<longrightarrow>
      new_PathParametersUnit fs path nm = Inl ValueError) \<and>
   (fs path = Some (Dataset vars) \<and> nm \<in> set vars \<longrightarrow>
      new_PathParametersUnit fs path nm = Inr \<lparr> forcing_path = path, name = nm \<rparr>) \<and>
   ((\<exists>p. new_PathParametersUnit fs path nm = Inr p)
      = (\<exists>vs. fs path = Some (Dataset vs) \<and> nm \<in> set vs))"
  by (auto simp: new_PathParametersUnit_def path_exists_def name_isin_forcing_def
        open_dataset_def Let_def split: option.splits forcing_file.splits if_splits)

theorem PathParametersUnit_construction_witness:
  "new_PathParametersUnit
     (\<lambda>p. if p = ''forcing.nc'' then Some (Dataset [''T'', ''npp'']) else None)
     ''missing.nc'' ''T'' = Inl ValueError \<and>
   new_PathParametersUnit
     (\<lambda>p. if p = ''forcing.nc'' then Some (Dataset [''T'', ''npp'']) else None)
     ''forcing.nc'' ''sst'' = Inl ValueError \<and>
   new_PathParametersUnit
     (\<lambda>p. if p = ''forcing.nc'' then Some (Dataset [''T'', ''npp'']) else None)
     ''forcing.nc'' ''T'' = Inr \<lparr> forcing_path = ''forcing.nc'', name = ''T'' \<rparr>"
proof -
  let ?fs = "\<lambda>p. if p = ''forcing.nc'' then Some (Dataset [''T'', ''npp'']) else None"
  have h1: "?fs ''missing.nc'' = None" by simp
  have h2: "?fs ''forcing.nc'' = Some (Dataset [''T'', ''npp'']) \<and> ''sst'' \<notin> set [''T'', ''npp'']"
    by simp
  have h3: "?fs ''forcing.nc'' = Some (Dataset [''T'', ''npp'']) \<and> ''T'' \<in> set [''T'', ''npp'']"
    by simp
  have "new_PathParametersUnit ?fs ''missing.nc'' ''T'' = Inl ValueError"
    using PathParametersUnit_construction [of ?fs "''missing.nc''" "''T''"] h1 by blast
  moreover have "new_PathParametersUnit ?fs ''forcing.nc'' ''sst'' = Inl ValueError"
    using PathParametersUnit_construction [of ?fs "''forcing.nc''" "''sst''" "[''T'', ''npp'']"] h2
    by blast
  moreover have "new_PathParametersUnit ?fs ''forcing.nc'' ''T''
      = Inr \<lparr> forcing_path = ''forcing.nc'', name = ''T'' \<rparr>"
    using PathParametersUnit_construction [of ?fs "''forcing.nc''" "''T''" "[''T'', ''npp'']"] h3
    by blast
  ultimately show ?thesis by blast
qed

subsection \<open>Construction of the model\<close>

text \<open>
  What the body of \<^verbatim>\<open>__init__\<close> does once it runs: a \<^verbatim>\<open>TypeError\<close> for
  \<^verbatim>\<open>None\<close> and for any object of another class, the wrapped parameters or the given
  configuration otherwise, with no state until \<^verbatim>\<open>generate_configuration\<close> sets it.
\<close>

lemma NoTransportModel_init_cases:
  "NoTransportModel_init mk PyNone = Inl TypeError \<and>
   NoTransportModel_init mk Other_instance = Inl TypeError \<and>
   NoTransportModel_init mk (Parameters_instance p)
     = Inr \<lparr> configuration = mk p, state = None \<rparr> \<and>
   NoTransportModel_init mk (Configuration_instance c)
     = Inr \<lparr> configuration = c, state = None \<rparr>"
  by (simp add: NoTransportModel_init_def)

lemma generate_configuration_state:
  "state (generate_configuration mp \<lparr> configuration = c, state = None \<rparr>) = Some (mp c)"
  by (simp add: generate_configuration_def)

lemma NoTransportModel_abstractmethods_eq:
  "NoTransportModel_abstractmethods = [''initialize_client'', ''save_state'']"
  by (simp add: NoTransportModel_abstractmethods_def NoTransportModel_namespace_def
        BaseModel_abstractmethods_def)

text \<open>
  Claim C9.  The claim expects the constructor to wrap an instance of the parameters
  class into a configuration and to return a model whose state is empty.  In the sources
  the body of \<^verbatim>\<open>__init__\<close> is never reached: \<^verbatim>\<open>BaseModel\<close> declares
  \<^verbatim>\<open>initialize_client\<close> and \<^verbatim>\<open>save_state\<close> abstract, \<^verbatim>\<open>NoTransportModel\<close> binds
  \<^verbatim>\<open>initialize\<close> and \<^verbatim>\<open>save_configuration\<close> instead, and so every call of the class,
  also with an instance of the parameters class or of the configuration class, raises the
  \<^verbatim>\<open>TypeError\<close> of a class with abstract methods.
\<close>

theorem NoTransportModel_not_instantiable:
  "NoTransportModel_abstractmethods = [''initialize_client'', ''save_state''] \<and>
   NoTransportModel_call mk (Parameters_instance p)
     = Inl (AbstractClassError [''initialize_client'', ''save_state'']) \<and>
   NoTransportModel_call mk (Configuration_instance c)
     = Inl (AbstractClassError [''initialize_client'', ''save_state''])"
  by (simp add: NoTransportModel_call_def NoTransportModel_abstractmethods_eq)

subsection \<open>The pre-production phase\<close>











text \<open>In a run without error every kernel of the dictionary is called, in order.\<close>

lemma run_kernels_calls_all:
  "run_kernels impl ks st = Inr s' \<Longrightarrow>
   map (\<lambda>(n, f, s). (n, f)) (kernel_calls impl ks st) = ks"
proof (induction ks arbitrary: st)
  case Nil
  then show ?case by simp
next
  case (Cons k ks)
  obtain n f where k: "k = (n, f)" by (cases k)
  from Cons.prems k obtain v where v: "call_kernel (impl f) st = Inr v"
    and r: "run_kernels impl ks (st (Pre n \<mapsto> v)) = Inr s'"
    by (cases "call_kernel (impl f) st") simp_all
  have "map (\<lambda>(n, f, s). (n, f)) (kernel_calls impl ks (st (Pre n \<mapsto> v))) = ks"
    using r by (rule Cons.IH)
  then show ?case
    unfolding k by (simp only: kernel_calls.simps v sum.case list.map prod.case)
qed

subsection \<open>Selection of the exported timestamps\<close>

lemma mask_index_isin:
  "mask_index [0 ..< length data] (isin data sel) = filter (\<lambda>i. data ! i \<in> set sel) [0 ..< length data]"
proof -
  have "zip [0 ..< length data] (isin data sel) = map (\<lambda>i. (i, data ! i \<in> set sel)) [0 ..< length data]"
    by (rule nth_equalityI) (simp_all add: isin_def)
  then show ?thesis
    by (simp add: mask_index_def filter_map comp_def)
qed

lemma isel_positions_set:
  "list_all (\<lambda>i. - int (length data) \<le> i \<and> i < int (length data)) idx \<Longrightarrow>
   isel_positions data idx = Inr (map (\<lambda>i. data ! position (length data) i) idx)"
  by (induction idx) simp_all

lemma isel_positions_error:
  "\<not> list_all (\<lambda>i. - int (length data) \<le> i \<and> i < int (length data)) idx \<Longrightarrow>
   isel_positions data idx = Inl IndexError"
proof (induction idx)
  case Nil
  then show ?case by simp
next
  case (Cons i idx)
  then show ?case
    by (cases "list_all (\<lambda>i. - int (length data) \<le> i \<and> i < int (length data)) idx")
       (simp_all add: isel_positions_set)
qed

lemma sel_nearest_set:
  "list_all (\<lambda>s. \<exists>d. nearest data s = Inr d) ss \<Longrightarrow>
   sel_nearest nearest data ss = Inr (map (\<lambda>s. projr (nearest data s)) ss)"
  by (induction ss) auto

lemma sel_nearest_error:
  "\<not> list_all (\<lambda>s. \<exists>d. nearest data s = Inr d) ss \<Longrightarrow>
   \<exists>e. sel_nearest nearest data ss = Inl e"
proof (induction ss)
  case Nil
  then show ?case by simp
next
  case (Cons s ss)
  show ?case
  proof (cases "nearest data s")
    case (Inl e)
    then show ?thesis by simp
  next
    case (Inr d)
    with Cons.prems have "\<not> list_all (\<lambda>s. \<exists>d. nearest data s = Inr d) ss" by simp
    then obtain e where "sel_nearest nearest data ss = Inl e" using Cons.IH by blast
    with Inr show ?thesis by simp
  qed
qed

lemma all_int_map [simp]: "list_all isinstance_int (map Int_timestamp idx)"
  by (induction idx) simp_all

lemma all_str_map [simp]: "list_all isinstance_str (map Str_timestamp ss)"
  by (induction ss) simp_all

lemma as_indexer_ints: "as_indexer (map Int_timestamp idx) = Positions idx"
proof (cases idx)
  case Nil
  then show ?thesis by (simp add: as_indexer_def)
next
  case (Cons i rest)
  have "map int_of (map Int_timestamp idx) = idx"
    by (induction idx) simp_all
  then show ?thesis using Cons by (simp add: as_indexer_def)
qed

lemma str_of_map: "map (str_of \<circ> Str_timestamp) ss = ss"
  by (induction ss) simp_all

lemma not_all_int_str: "ss \<noteq> [] \<Longrightarrow> \<not> list_all isinstance_int (map Str_timestamp ss)"
  by (cases ss) simp_all

lemma position_less:
  "- int n \<le> i \<Longrightarrow> i < int n \<Longrightarrow> position n i < n"
  by (auto simp: position_def)

lemma filter_upt_full:
  "(filter P [0 ..< n] = [0 ..< n]) = (\<forall>j < n. P j)"
  by (auto simp: filter_id_conv)

lemma converter_int:
  assumes "distinct data"
    and "list_all (\<lambda>i. - int (length data) \<le> i \<and> i < int (length data)) idx"
  shows "preproduction_converter nearest data (Timestamps_list (map Int_timestamp idx))
         = Inr (Some (filter (\<lambda>j. j \<in> position (length data) ` set idx) [0 ..< length data]))"
proof -
  let ?n = "length data"
  have sel: "isel_positions data idx = Inr (map (\<lambda>i. data ! position ?n i) idx)"
    using assms(2) by (rule isel_positions_set)
  have eq: "(data ! j \<in> (\<lambda>i. data ! position ?n i) ` set idx) = (j \<in> position ?n ` set idx)"
    if "j < ?n" for j
  proof
    assume "data ! j \<in> (\<lambda>i. data ! position ?n i) ` set idx"
    then obtain i where i: "i \<in> set idx" and e: "data ! j = data ! position ?n i"
      by auto
    from i assms(2) have "position ?n i < ?n"
      by (auto simp: list_all_iff intro: position_less)
    with e that assms(1) have "j = position ?n i"
      by (simp add: nth_eq_iff_index_eq)
    with i show "j \<in> position ?n ` set idx" by blast
  next
    assume "j \<in> position ?n ` set idx"
    then show "data ! j \<in> (\<lambda>i. data ! position ?n i) ` set idx" by auto
  qed
  have "filter (\<lambda>j. data ! j \<in> (\<lambda>i. data ! position ?n i) ` set idx) [0 ..< ?n]
      = filter (\<lambda>j. j \<in> position ?n ` set idx) [0 ..< ?n]"
    by (rule filter_cong) (simp_all add: eq)
  then show ?thesis
    by (simp add: preproduction_converter_def as_indexer_ints sel mask_index_isin)
qed

lemma converter_int_error:
  assumes "\<not> list_all (\<lambda>i. - int (length data) \<le> i \<and> i < int (length data)) idx"
  shows "preproduction_converter nearest data (Timestamps_list (map Int_timestamp idx))
         = Inl IndexError"
  using isel_positions_error [OF assms]
  by (simp add: preproduction_converter_def as_indexer_ints)

lemma converter_str:
  assumes "list_all (\<lambda>s. \<exists>d. nearest data s = Inr d) ss"
  shows "preproduction_converter nearest data (Timestamps_list (map Str_timestamp ss))
         = Inr (Some (filter (\<lambda>j. \<exists>s \<in> set ss. nearest data s = Inr (data ! j))
                        [0 ..< length data]))"
proof (cases "ss = []")
  case True
  then show ?thesis
    by (simp add: preproduction_converter_def as_indexer_def mask_index_isin)
next
  case False
  have sel: "sel_nearest nearest data ss = Inr (map (\<lambda>s. projr (nearest data s)) ss)"
    using assms by (rule sel_nearest_set)
  have eq: "(d \<in> (\<lambda>s. projr (nearest data s)) ` set ss)
      = (\<exists>s \<in> set ss. nearest data s = Inr d)" for d
    using assms by (force simp: list_all_iff)
  show ?thesis
    using False
    by (simp add: preproduction_converter_def not_all_int_str str_of_map sel mask_index_isin eq)
qed

lemma converter_str_error:
  assumes "\<not> list_all (\<lambda>s. \<exists>d. nearest data s = Inr d) ss"
  shows "\<exists>e. preproduction_converter nearest data (Timestamps_list (map Str_timestamp ss)) = Inl e"
proof -
  from assms have ne: "ss \<noteq> []" by auto
  obtain e where "sel_nearest nearest data ss = Inl e"
    using sel_nearest_error [of nearest data ss] assms by blast
  then show ?thesis
    using ne by (simp add: preproduction_converter_def not_all_int_str str_of_map)
qed

text \<open>
  Claim C8.  The helper returns the positions of exactly the selected timestamps, in
  increasing order: nothing when no selection is configured; every position for
  \<^verbatim>\<open>"all"\<close>; for a list of integers within the axis, on a time axis whose values are
  pairwise different, exactly the listed positions (a negative integer counting from the
  end); for a list of date strings that the lookup finds, exactly the positions of the
  timestamps that the lookup returns.  For a list the result is the full range exactly
  when the list itself selects every position.  A list with an integer outside the axis
  raises \<^verbatim>\<open>IndexError\<close>, and a list with a string that the lookup does not find
  raises the exception of the lookup.
\<close>

theorem preproduction_converter_selects:
  "preproduction_converter nearest data Timestamps_None = Inr None \<and>
   preproduction_converter nearest data Timestamps_all = Inr (Some [0 ..< length data]) \<and>
   (list_all (\<lambda>i. - int (length data) \<le> i \<and> i < int (length data)) idx \<and> distinct data \<longrightarrow>
      preproduction_converter nearest data (Timestamps_list (map Int_timestamp idx))
        = Inr (Some (filter (\<lambda>j. j \<in> position (length data) ` set idx)
                       [0 ..< length data])) \<and>
      ((preproduction_converter nearest data (Timestamps_list (map Int_timestamp idx))
          = Inr (Some [0 ..< length data]))
       = (\<forall>j < length data. j \<in> position (length data) ` set idx))) \<and>
   (\<not> list_all (\<lambda>i. - int (length data) \<le> i \<and> i < int (length data)) idx \<longrightarrow>
      preproduction_converter nearest data (Timestamps_list (map Int_timestamp idx))
        = Inl IndexError) \<and>
   (list_all (\<lambda>s. \<exists>d. nearest data s = Inr d) ss \<longrightarrow>
      preproduction_converter nearest data (Timestamps_list (map Str_timestamp ss))
        = Inr (Some (filter (\<lambda>j. \<exists>s \<in> set ss. nearest data s = Inr (data ! j))
                       [0 ..< length data])) \<and>
      ((preproduction_converter nearest data (Timestamps_list (map Str_timestamp ss))
          = Inr (Some [0 ..< length data]))
       = (\<forall>j < length data. \<exists>s \<in> set ss. nearest data s = Inr (data ! j)))) \<and>
   (\<not> list_all (\<lambda>s. \<exists>d. nearest data s = Inr d) ss \<longrightarrow>
      (\<exists>e. preproduction_converter nearest data (Timestamps_list (map Str_timestamp ss)) = Inl e))"
proof -
  have n: "preproduction_converter nearest data Timestamps_None = Inr None"
    by (simp add: preproduction_converter_def)
  have a: "preproduction_converter nearest data Timestamps_all = Inr (Some [0 ..< length data])"
    by (simp add: preproduction_converter_def)
  have i: "list_all (\<lambda>i. - int (length data) \<le> i \<and> i < int (length data)) idx \<and> distinct data \<longrightarrow>
      preproduction_converter nearest data (Timestamps_list (map Int_timestamp idx))
        = Inr (Some (filter (\<lambda>j. j \<in> position (length data) ` set idx)
                       [0 ..< length data])) \<and>
      ((preproduction_converter nearest data (Timestamps_list (map Int_timestamp idx))
          = Inr (Some [0 ..< length data]))
       = (\<forall>j < length data. j \<in> position (length data) ` set idx))"
  proof
    assume h: "list_all (\<lambda>i. - int (length data) \<le> i \<and> i < int (length data)) idx \<and> distinct data"
    have c: "preproduction_converter nearest data (Timestamps_list (map Int_timestamp idx))
        = Inr (Some (filter (\<lambda>j. j \<in> position (length data) ` set idx)
                       [0 ..< length data]))"
      using h converter_int [of data idx nearest] by blast
    show "preproduction_converter nearest data (Timestamps_list (map Int_timestamp idx))
        = Inr (Some (filter (\<lambda>j. j \<in> position (length data) ` set idx)
                       [0 ..< length data])) \<and>
      ((preproduction_converter nearest data (Timestamps_list (map Int_timestamp idx))
          = Inr (Some [0 ..< length data]))
       = (\<forall>j < length data. j \<in> position (length data) ` set idx))"
      unfolding c
      using filter_upt_full [of "\<lambda>j. j \<in> position (length data) ` set idx" "length data"]
      by simp
  qed
  have ie: "\<not> list_all (\<lambda>i. - int (length data) \<le> i \<and> i < int (length data)) idx \<longrightarrow>
      preproduction_converter nearest data (Timestamps_list (map Int_timestamp idx))
        = Inl IndexError"
    using converter_int_error [of data idx nearest] by blast
  have s: "list_all (\<lambda>s. \<exists>d. nearest data s = Inr d) ss \<longrightarrow>
      preproduction_converter nearest data (Timestamps_list (map Str_timestamp ss))
        = Inr (Some (filter (\<lambda>j. \<exists>s \<in> set ss. nearest data s = Inr (data ! j))
                       [0 ..< length data])) \<and>
      ((preproduction_converter nearest data (Timestamps_list (map Str_timestamp ss))
          = Inr (Some [0 ..< length data]))
       = (\<forall>j < length data. \<exists>s \<in> set ss. nearest data s = Inr (data ! j)))"
  proof
    assume h: "list_all (\<lambda>s. \<exists>d. nearest data s = Inr d) ss"
    have c: "preproduction_converter nearest data (Timestamps_list (map Str_timestamp ss))
        = Inr (Some (filter (\<lambda>j. \<exists>s \<in> set ss. nearest data s = Inr (data ! j))
                       [0 ..< length data]))"
      using h by (rule converter_str)
    show "preproduction_converter nearest data (Timestamps_list (map Str_timestamp ss))
        = Inr (Some (filter (\<lambda>j. \<exists>s \<in> set ss. nearest data s = Inr (data ! j))
                       [0 ..< length data])) \<and>
      ((preproduction_converter nearest data (Timestamps_list (map Str_timestamp ss))
          = Inr (Some [0 ..< length data]))
       = (\<forall>j < length data. \<exists>s \<in> set ss. nearest data s = Inr (data ! j)))"
      unfolding c
      using filter_upt_full [of "\<lambda>j. \<exists>s \<in> set ss. nearest data s = Inr (data ! j)" "length data"]
      by simp
  qed
  have se: "\<not> list_all (\<lambda>s. \<exists>d. nearest data s = Inr d) ss \<longrightarrow>
      (\<exists>e. preproduction_converter nearest data (Timestamps_list (map Str_timestamp ss)) = Inl e)"
    using converter_str_error [of nearest data ss] by blast
  show ?thesis
    using n a i ie s se by (intro conjI)
qed

theorem preproduction_converter_selects_witness:
  "distinct [10, 20, 30 :: int] \<and>
   preproduction_converter one_date_lookup [10, 20, 30]
     (Timestamps_list [Int_timestamp 2, Int_timestamp (- 3)]) = Inr (Some [0, 2]) \<and>
   preproduction_converter one_date_lookup [10, 20, 30]
     (Timestamps_list [Str_timestamp ''2020-01-02'']) = Inr (Some [1])"
proof -
  have d: "distinct [10, 20, 30 :: int]" by simp
  have r: "list_all (\<lambda>i. - int (length [10, 20, 30 :: int]) \<le> i \<and> i < int (length [10, 20, 30 :: int]))
             [2, - 3]"
    by simp
  have f: "list_all (\<lambda>s. \<exists>d. one_date_lookup [10, 20, 30] s = Inr d) [''2020-01-02'']"
    by (simp add: one_date_lookup_def)
  have p: "position (length [10, 20, 30 :: int]) ` set [2, - 3] = {0, 2}"
    by (auto simp: position_def)
  have u: "[0 ..< length [10, 20, 30 :: int]] = [0, 1, 2]"
    by (simp add: upt_rec)
  have i: "preproduction_converter one_date_lookup [10, 20, 30]
      (Timestamps_list (map Int_timestamp [2, - 3]))
      = Inr (Some (filter (\<lambda>j. j \<in> position (length [10, 20, 30 :: int]) ` set [2, - 3])
                     [0 ..< length [10, 20, 30 :: int]]))"
    using preproduction_converter_selects [of one_date_lookup "[10, 20, 30]" "[2, - 3]" "[''2020-01-02'']"] r d
    by blast
  have s: "preproduction_converter one_date_lookup [10, 20, 30]
      (Timestamps_list (map Str_timestamp [''2020-01-02'']))
      = Inr (Some (filter (\<lambda>j. \<exists>s \<in> set [''2020-01-02''].
                        one_date_lookup [10, 20, 30] s = Inr ([10, 20, 30] ! j))
                     [0 ..< length [10, 20, 30 :: int]]))"
    using preproduction_converter_selects [of one_date_lookup "[10, 20, 30]" "[2, - 3]" "[''2020-01-02'']"] f
    by blast
  have i': "preproduction_converter one_date_lookup [10, 20, 30]
      (Timestamps_list [Int_timestamp 2, Int_timestamp (- 3)]) = Inr (Some [0, 2])"
    using i unfolding p u by simp
  have s': "preproduction_converter one_date_lookup [10, 20, 30]
      (Timestamps_list [Str_timestamp ''2020-01-02'']) = Inr (Some [1])"
    using s unfolding u by (simp add: one_date_lookup_def)
  show ?thesis
    using d i' s' by blast
qed

text \<open>
  The helper does not return exactly the selected positions for every selection.  On the
  axis \<open>[10, 10]\<close>, whose two timestamps are equal, the list \<open>[0]\<close> selects both
  positions.  On an axis of two timestamps the list \<open>[2]\<close> selects nothing: the helper
  raises \<^verbatim>\<open>IndexError\<close>.  A date string that the lookup does not find selects
  nothing either: the helper raises the exception of the lookup.
\<close>

theorem preproduction_converter_not_exact:
  "preproduction_converter one_date_lookup [10, 10] (Timestamps_list [Int_timestamp 0])
     = Inr (Some [0, 1]) \<and>
   preproduction_converter one_date_lookup [10, 20] (Timestamps_list [Int_timestamp 2])
     = Inl IndexError \<and>
   preproduction_converter one_date_lookup [10, 20, 30] (Timestamps_list [Str_timestamp ''yesterday''])
     = Inl TypeError"
  by (simp add: preproduction_converter_def as_indexer_def mask_index_def isin_def position_def
        one_date_lookup_def upt_rec)

text \<open>
  A list that mixes integers and strings is a \<^verbatim>\<open>TypeError\<close> and the empty list selects
  nothing.  A list of booleans selects by mask when it is as long as the axis.
\<close>

lemma preproduction_converter_other_lists:
  "preproduction_converter nearest data (Timestamps_list [Int_timestamp 0, Str_timestamp s])
     = Inl TypeError \<and>
   preproduction_converter nearest data (Timestamps_list [Other_timestamp]) = Inl TypeError \<and>
   preproduction_converter nearest data (Timestamps_list []) = Inr (Some [])"
  by (simp add: preproduction_converter_def as_indexer_def mask_index_isin)

lemma preproduction_converter_booleans:
  "preproduction_converter nearest [10, 20, 30 :: int]
     (Timestamps_list [Bool_timestamp True, Bool_timestamp False, Bool_timestamp True])
     = Inr (Some [0, 2]) \<and>
   preproduction_converter nearest [10, 20, 30 :: int]
     (Timestamps_list [Bool_timestamp True, Int_timestamp 2]) = Inr (Some [1, 2]) \<and>
   preproduction_converter nearest [10, 20, 30 :: int]
     (Timestamps_list [Bool_timestamp True, Bool_timestamp False]) = Inl IndexError"
  by (simp add: preproduction_converter_def as_indexer_def mask_index_def isin_def position_def
        upt_rec)

subsection \<open>Average temperature by functional group\<close>

lemma for_each_map:
  "(\<And>x. x \<in> set xs \<Longrightarrow> f x = Inr (h x)) \<Longrightarrow> for_each f xs = Inr (map h xs)"
  by (induction xs) simp_all

lemma mean_temperature_of_fgroup_ok:
  assumes "CoordinatesLabels_Z \<in> set (dims temp)"
    and "CoordinatesLabels_functional_group \<in> set (dims msk)"
    and "CoordinatesLabels_functional_group \<in> set (dims dlayer)"
    and "CoordinatesLabels_functional_group \<in> set (dims nlayer)"
    and "label_position (cell dlayer ((\<lambda>d. 0) (CoordinatesLabels_functional_group := g))) layer = Some p"
    and "label_position (cell nlayer ((\<lambda>d. 0) (CoordinatesLabels_functional_group := g))) layer = Some q"
  shows "mean_temperature_of_fgroup layer temp dlen msk dlayer nlayer g =
     Inr \<lparr> dims = broadcast_dims
                    (broadcast_dims
                       (broadcast_dims (dims dlen) (remove1 CoordinatesLabels_Z (dims temp)))
                       (broadcast_dims (dims dlen) (remove1 CoordinatesLabels_Z (dims temp))))
                    (remove1 CoordinatesLabels_functional_group (dims msk)),
           units = None,
           cell = (\<lambda>i. if cell msk (i (CoordinatesLabels_functional_group := g))
                       then fadd (fmul (cell dlen i) (cell temp (i (CoordinatesLabels_Z := p))))
                              (fmul (fsub (Some 1) (cell dlen i))
                                 (cell temp (i (CoordinatesLabels_Z := q))))
                       else None) \<rparr>"
  using assms
  by (simp add: mean_temperature_of_fgroup_def sel_Z_def sel_functional_group_def item_def
        binary_op_def scalar_op_def where_cond_def Let_def cong: if_cong)

lemma xr_concat_map:
  assumes "0 < n"
  shows "xr_concat new_dim (map h [0 ..< n]) =
     Inr \<lparr> dims = new_dim # dims (h 0), units = units (h 0),
           cell = (\<lambda>i. if i new_dim < n then cell (h (i new_dim)) i else None) \<rparr>"
proof -
  from assms have u: "[0 ..< n] = 0 # [1 ..< n]"
    by (simp add: upt_conv_Cons)
  have c: "(\<lambda>i. if i new_dim < length (map h [0 ..< n]) then cell (map h [0 ..< n] ! i new_dim) i else None)
      = (\<lambda>i. if i new_dim < n then cell (h (i new_dim)) i else None)"
    by (rule ext) simp
  have "xr_concat new_dim (map h [0 ..< n]) =
     Inr \<lparr> dims = new_dim # dims (h 0), units = units (h 0),
           cell = (\<lambda>i. if i new_dim < length (map h [0 ..< n])
                       then cell (map h [0 ..< n] ! i new_dim) i else None) \<rparr>"
    unfolding xr_concat_def by (subst (3) u) simp
  then show ?thesis
    unfolding c .
qed


lemma check_units_standard:
  "units field = Some u \<Longrightarrow> check_units convert field u = Inr (field \<lparr> units := None \<rparr>)"
  by (simp add: check_units_def)

lemma helper_result:
  fixes st :: state
  defines "n \<equiv> sizes st CoordinatesLabels_functional_group"
  assumes tv: "variables st (Conf ConfigurationLabels_temperature) = Some (Float_array t0)"
    and dv: "variables st (Pre PreproductionLabels_day_length) = Some (Float_array d0)"
    and mv: "variables st (Pre PreproductionLabels_mask_by_fgroup) = Some (Bool_array msk)"
    and dl: "variables st (Conf ConfigurationLabels_day_layer) = Some (Int_array dlayer)"
    and nl: "variables st (Conf ConfigurationLabels_night_layer) = Some (Int_array nlayer)"
    and tu: "check_units convert t0 StandardUnitsLabels_temperature_units = Inr temp"
    and du: "check_units convert d0 StandardUnitsLabels_time_units = Inr dlen"
    and dz: "CoordinatesLabels_Z \<in> set (dims temp)"
    and dm: "CoordinatesLabels_functional_group \<in> set (dims msk)"
    and dd: "CoordinatesLabels_functional_group \<in> set (dims dlayer)"
    and dn: "CoordinatesLabels_functional_group \<in> set (dims nlayer)"
    and lab: "\<And>g. g < n \<Longrightarrow>
        label_position (cell dlayer ((\<lambda>d. 0) (CoordinatesLabels_functional_group := g))) (coords_Z st) \<noteq> None \<and>
        label_position (cell nlayer ((\<lambda>d. 0) (CoordinatesLabels_functional_group := g))) (coords_Z st) \<noteq> None"
    and pos: "0 < n"
  shows "\<exists>out. average_temperature_by_fgroup_helper convert st = Inr out \<and>
           dims out = CoordinatesLabels_functional_group # broadcast_dims
                    (broadcast_dims
                       (broadcast_dims (dims dlen) (remove1 CoordinatesLabels_Z (dims temp)))
                       (broadcast_dims (dims dlen) (remove1 CoordinatesLabels_Z (dims temp))))
                    (remove1 CoordinatesLabels_functional_group (dims msk)) \<and>
           (\<forall>i p q. i CoordinatesLabels_functional_group < n \<and>
               label_position (cell dlayer ((\<lambda>d. 0) (CoordinatesLabels_functional_group := i CoordinatesLabels_functional_group))) (coords_Z st) = Some p \<and>
               label_position (cell nlayer ((\<lambda>d. 0) (CoordinatesLabels_functional_group := i CoordinatesLabels_functional_group))) (coords_Z st) = Some q \<longrightarrow>
               cell out i =
                 (if cell msk i
                  then fadd (fmul (cell dlen i) (cell temp (i (CoordinatesLabels_Z := p))))
                         (fmul (fsub (Some 1) (cell dlen i))
                            (cell temp (i (CoordinatesLabels_Z := q))))
                  else None))"
proof -
  let ?P = "\<lambda>g. the (label_position (cell dlayer ((\<lambda>d. 0) (CoordinatesLabels_functional_group := g))) (coords_Z st))"
  let ?Q = "\<lambda>g. the (label_position (cell nlayer ((\<lambda>d. 0) (CoordinatesLabels_functional_group := g))) (coords_Z st))"
  let ?D = "broadcast_dims
                    (broadcast_dims
                       (broadcast_dims (dims dlen) (remove1 CoordinatesLabels_Z (dims temp)))
                       (broadcast_dims (dims dlen) (remove1 CoordinatesLabels_Z (dims temp))))
                    (remove1 CoordinatesLabels_functional_group (dims msk))"
  let ?h = "\<lambda>g. \<lparr> dims = ?D, units = None,
           cell = (\<lambda>i. if cell msk (i (CoordinatesLabels_functional_group := g))
                       then fadd (fmul (cell dlen i) (cell temp (i (CoordinatesLabels_Z := ?P g))))
                              (fmul (fsub (Some 1) (cell dlen i))
                                 (cell temp (i (CoordinatesLabels_Z := ?Q g))))
                       else None) \<rparr>"
  have each: "mean_temperature_of_fgroup (coords_Z st) temp dlen msk dlayer nlayer g = Inr (?h g)"
    if "g \<in> set [0 ..< n]" for g
  proof -
    from that have "g < n" by simp
    then have p: "label_position (cell dlayer ((\<lambda>d. 0) (CoordinatesLabels_functional_group := g))) (coords_Z st) = Some (?P g)"
      and q: "label_position (cell nlayer ((\<lambda>d. 0) (CoordinatesLabels_functional_group := g))) (coords_Z st) = Some (?Q g)"
      using lab [of g] by auto
    show ?thesis
      using mean_temperature_of_fgroup_ok [OF dz dm dd dn p q, of dlen] .
  qed
  have loop: "for_each (mean_temperature_of_fgroup (coords_Z st) temp dlen msk dlayer nlayer)
      [0 ..< n] = Inr (map ?h [0 ..< n])"
    using each by (rule for_each_map)
  let ?out = "\<lparr> dims = CoordinatesLabels_functional_group # ?D, units = None,
           cell = (\<lambda>i. if i CoordinatesLabels_functional_group < n then cell (?h (i CoordinatesLabels_functional_group)) i else None) \<rparr>"
  have cc: "xr_concat CoordinatesLabels_functional_group (map ?h [0 ..< n]) = Inr ?out"
    using xr_concat_map [OF pos, of CoordinatesLabels_functional_group ?h] by simp
  have run: "average_temperature_by_fgroup_helper convert st = Inr ?out"
    using tv dv mv dl nl tu du loop cc
    by (simp add: average_temperature_by_fgroup_helper_def get_float_def get_bool_def
          get_int_def n_def)
  have cells: "cell ?out i =
                 (if cell msk i
                  then fadd (fmul (cell dlen i) (cell temp (i (CoordinatesLabels_Z := p))))
                         (fmul (fsub (Some 1) (cell dlen i))
                            (cell temp (i (CoordinatesLabels_Z := q))))
                  else None)"
    if "i CoordinatesLabels_functional_group < n"
      and "label_position (cell dlayer ((\<lambda>d. 0) (CoordinatesLabels_functional_group := i CoordinatesLabels_functional_group))) (coords_Z st) = Some p"
      and "label_position (cell nlayer ((\<lambda>d. 0) (CoordinatesLabels_functional_group := i CoordinatesLabels_functional_group))) (coords_Z st) = Some q"
    for i p q
    using that by simp
  show ?thesis
    using run cells by (intro exI [of _ ?out]) simp
qed

lemma less_4_cases: "(g::nat) < 4 \<Longrightarrow> g = 0 \<or> g = 1 \<or> g = 2 \<or> g = 3"
  by arith

lemma reference_labels:
  assumes "g < 4"
  shows "label_position ([1, 1, 2, 2] ! g) (1 # 2 # more_layers) = Some ([0, 0, 1, 1] ! g) \<and>
         label_position ([1, 2, 2, 1] ! g) (1 # 2 # more_layers) = Some ([0, 1, 1, 0] ! g)"
  using less_4_cases [OF assms] by auto

lemma reference_values:
  assumes "g < 4"
  shows "fadd (fmul (Some 0.5) (Some (real ([0, 0, 1, 1] ! g))))
           (fmul (fsub (Some 1) (Some 0.5)) (Some (real ([0, 1, 1, 0] ! g))))
         = Some ([0, 0.5, 1, 0.5] ! g)"
  using less_4_cases [OF assms] by (auto simp: fadd_def fmul_def fsub_def)




text \<open>
  Claim C6.  On the state of the reference test the helper returns an array with the
  dimensions \<open>[functional_group, time, Y, X]\<close> whose values for the four groups are
  \<open>0\<close>, \<open>0.5\<close>, \<open>1\<close> and \<open>0.5\<close> at every position where the mask of the group is
  true, and NaN where it is false.
\<close>

theorem reference_mean_temperatures:
  "\<exists>out. average_temperature_by_fgroup_helper convert (reference_state msk more_layers) = Inr out \<and>
      dims out = [CoordinatesLabels_functional_group, CoordinatesLabels_time,
                  CoordinatesLabels_Y, CoordinatesLabels_X] \<and>
      (\<forall>i. i CoordinatesLabels_functional_group < 4 \<longrightarrow>
          cell out i =
            (if msk i then Some ([0, 0.5, 1, 0.5] ! i CoordinatesLabels_functional_group)
             else None))"
proof -
  let ?st = "reference_state msk more_layers"
  let ?t0 = "\<lparr> dims = [CoordinatesLabels_time, CoordinatesLabels_Y, CoordinatesLabels_X,
                        CoordinatesLabels_Z],
                units = Some ''degC'',
                cell = (\<lambda>i. Some (real (i CoordinatesLabels_Z))) \<rparr>"
  let ?d0 = "\<lparr> dims = [CoordinatesLabels_time, CoordinatesLabels_Y, CoordinatesLabels_X],
                units = Some ''day'',
                cell = (\<lambda>i :: index. Some (0.5 :: real)) \<rparr>"
  let ?m = "\<lparr> dims = [CoordinatesLabels_functional_group, CoordinatesLabels_Y,
                       CoordinatesLabels_X],
               units = None, cell = msk \<rparr>"
  let ?dl = "\<lparr> dims = [CoordinatesLabels_functional_group], units = None,
                cell = (\<lambda>i :: index. [1, 1, 2, 2 :: int] ! i CoordinatesLabels_functional_group) \<rparr>"
  let ?nl = "\<lparr> dims = [CoordinatesLabels_functional_group], units = None,
                cell = (\<lambda>i :: index. [1, 2, 2, 1 :: int] ! i CoordinatesLabels_functional_group) \<rparr>"
  have tv: "variables ?st (Conf ConfigurationLabels_temperature) = Some (Float_array ?t0)"
    and dv: "variables ?st (Pre PreproductionLabels_day_length) = Some (Float_array ?d0)"
    and mv: "variables ?st (Pre PreproductionLabels_mask_by_fgroup) = Some (Bool_array ?m)"
    and dl: "variables ?st (Conf ConfigurationLabels_day_layer) = Some (Int_array ?dl)"
    and nl: "variables ?st (Conf ConfigurationLabels_night_layer) = Some (Int_array ?nl)"
    by (simp_all add: reference_state_def)
  have tu: "check_units convert ?t0 StandardUnitsLabels_temperature_units
      = Inr (?t0 \<lparr> units := None \<rparr>)"
    by (simp add: check_units_def StandardUnitsLabels_temperature_units_def)
  have du: "check_units convert ?d0 StandardUnitsLabels_time_units = Inr (?d0 \<lparr> units := None \<rparr>)"
    by (simp add: check_units_def StandardUnitsLabels_time_units_def)
  have n: "sizes ?st CoordinatesLabels_functional_group = 4" and z: "coords_Z ?st = 1 # 2 # more_layers"
    by (simp_all add: reference_state_def)
  have lab: "label_position (cell ?dl ((\<lambda>d. 0) (CoordinatesLabels_functional_group := g)))
          (coords_Z ?st) \<noteq> None \<and>
        label_position (cell ?nl ((\<lambda>d. 0) (CoordinatesLabels_functional_group := g)))
          (coords_Z ?st) \<noteq> None"
    if "g < sizes ?st CoordinatesLabels_functional_group" for g
    using that reference_labels [of g more_layers] by (simp add: n z)
  have pos: "0 < sizes ?st CoordinatesLabels_functional_group"
    by (simp add: n)
  from helper_result [OF tv dv mv dl nl tu du _ _ _ _ lab pos]
  obtain out where run: "average_temperature_by_fgroup_helper convert ?st = Inr out"
    and od: "dims out = [CoordinatesLabels_functional_group, CoordinatesLabels_time,
                  CoordinatesLabels_Y, CoordinatesLabels_X]"
    and oc: "\<And>i p q. i CoordinatesLabels_functional_group < 4 \<Longrightarrow>
               label_position
                 ([1, 1, 2, 2] ! i CoordinatesLabels_functional_group) (1 # 2 # more_layers) = Some p \<Longrightarrow>
               label_position
                 ([1, 2, 2, 1] ! i CoordinatesLabels_functional_group) (1 # 2 # more_layers) = Some q \<Longrightarrow>
               cell out i =
                 (if msk i
                  then fadd (fmul (Some 0.5) (Some (real p)))
                         (fmul (fsub (Some 1) (Some 0.5)) (Some (real q)))
                  else None)"
    by (auto simp: n z broadcast_dims_def)
  have "cell out i =
            (if msk i then Some ([0, 0.5, 1, 0.5] ! i CoordinatesLabels_functional_group)
             else None)"
    if "i CoordinatesLabels_functional_group < 4" for i
    using oc [of i "[0, 0, 1, 1] ! i CoordinatesLabels_functional_group"
                   "[0, 1, 1, 0] ! i CoordinatesLabels_functional_group"]
      reference_labels [OF that, of more_layers] reference_values [OF that] that
    by simp
  with run od show ?thesis
    by (intro exI [of _ out]) blast
qed

theorem reference_mean_temperatures_witness:
  "(1::nat) < 4 \<and>
   (\<exists>out. average_temperature_by_fgroup_helper (\<lambda>u v. None) (reference_state (\<lambda>i. True) [3])
            = Inr out \<and>
      cell out ((\<lambda>d. 0) (CoordinatesLabels_functional_group := 1)) = Some 0.5)"
proof -
  from reference_mean_temperatures [of "\<lambda>u v. None" "\<lambda>i. True" "[3]"]
  obtain out where run: "average_temperature_by_fgroup_helper (\<lambda>u v. None)
        (reference_state (\<lambda>i. True) [3]) = Inr out"
    and oc: "\<And>i. i CoordinatesLabels_functional_group < 4 \<Longrightarrow>
          cell out i =
            (if True then Some ([0, 0.5, 1, 0.5] ! i CoordinatesLabels_functional_group)
             else None)"
    by blast
  have "cell out ((\<lambda>d. 0) (CoordinatesLabels_functional_group := 1)) = Some 0.5"
    using oc [of "(\<lambda>d. 0) (CoordinatesLabels_functional_group := 1)"] by simp
  with run show ?thesis by simp
qed


text \<open>The helper fails when the state lacks one of the five fields that it reads.\<close>

lemma helper_needs_its_fields:
  assumes "l \<in> set average_temperature_reads" and "variables st l = None"
  shows "\<exists>e. average_temperature_by_fgroup_helper convert st = Inl e"
proof -
  have "isl (average_temperature_by_fgroup_helper convert st)"
    using assms
    by (auto simp: average_temperature_reads_def average_temperature_by_fgroup_helper_def
          get_float_def get_bool_def get_int_def split: sum.splits)
  then show ?thesis
    by (cases "average_temperature_by_fgroup_helper convert st") simp_all
qed

subsection \<open>Eager and deferred execution of a kernel\<close>

lemma axis_cases:
  "d = CoordinatesLabels_functional_group \<or> d = CoordinatesLabels_time \<or>
   d = CoordinatesLabels_Y \<or> d = CoordinatesLabels_X \<or> d = CoordinatesLabels_Z"
  by (cases d) simp_all

lemma all_axes_UNIV: "d \<in> set all_axes"
  using axis_cases [of d] by (auto simp: all_axes_def)

lemma same_block_eq: "same_block b b' = (b = b')"
  by (auto simp: same_block_def list_all_iff all_axes_UNIV)

lemma inside_iff: "inside sz i = (\<forall>d. i d < sz d)"
  by (auto simp: inside_def list_all_iff all_axes_UNIV)

lemma set_blocks_along_Cons:
  "set (blocks_along (x # xs) ch sz) =
   {b' (x := k) | b' k. b' \<in> set (blocks_along xs ch sz) \<and> k < n_blocks (sz x) (ch x)}"
  by (auto; blast)

lemma blocks_along_iff:
  "distinct xs \<Longrightarrow>
   (b \<in> set (blocks_along xs ch sz)) =
   ((\<forall>d \<in> set xs. b d < n_blocks (sz d) (ch d)) \<and> (\<forall>d. d \<notin> set xs \<longrightarrow> b d = 0))"
proof (induction xs arbitrary: b)
  case Nil
  then show ?case by auto
next
  case (Cons x xs)
  then have d: "distinct xs" and nx: "x \<notin> set xs" by simp_all
  show ?case
  proof
    assume "b \<in> set (blocks_along (x # xs) ch sz)"
    then obtain b' k where b': "b' \<in> set (blocks_along xs ch sz)"
      and k: "k < n_blocks (sz x) (ch x)" and b: "b = b' (x := k)"
      unfolding set_blocks_along_Cons by blast
    from b' Cons.IH [OF d, of b']
    have 1: "\<forall>d \<in> set xs. b' d < n_blocks (sz d) (ch d)" and 2: "\<forall>d. d \<notin> set xs \<longrightarrow> b' d = 0"
      by simp_all
    show "(\<forall>d \<in> set (x # xs). b d < n_blocks (sz d) (ch d)) \<and> (\<forall>d. d \<notin> set (x # xs) \<longrightarrow> b d = 0)"
      using 1 2 k b nx by auto
  next
    assume a: "(\<forall>d \<in> set (x # xs). b d < n_blocks (sz d) (ch d)) \<and> (\<forall>d. d \<notin> set (x # xs) \<longrightarrow> b d = 0)"
    let ?b' = "b (x := 0)"
    have 1: "?b' \<in> set (blocks_along xs ch sz)"
      using a nx by (simp add: Cons.IH [OF d, of ?b'])
    have 2: "b = ?b' (x := b x)" by simp
    have 3: "b x < n_blocks (sz x) (ch x)" using a by simp
    show "b \<in> set (blocks_along (x # xs) ch sz)"
      unfolding set_blocks_along_Cons using 1 2 3 by blast
  qed
qed

lemma all_blocks_iff:
  "(b \<in> set (all_blocks ch sz)) = (\<forall>d. b d < n_blocks (sz d) (ch d))"
proof -
  have "distinct all_axes" by (simp add: all_axes_def)
  then show ?thesis
    unfolding all_blocks_def using all_axes_UNIV by (auto simp: blocks_along_iff)
qed

lemma block_of_less:
  assumes "i < sz"
  shows "(if k = 0 then 0 else i div k) < n_blocks sz k"
proof (cases "k = 0")
  case True
  then show ?thesis by (simp add: n_blocks_def)
next
  case False
  from assms have e: "sz + k - 1 = (sz - 1) + k" by simp
  have "((sz - 1) + k) div k = (sz - 1) div k + 1"
    using False by (simp add: div_add_self2 del: One_nat_def)
  then have 1: "(sz + k - 1) div k = (sz - 1) div k + 1"
    unfolding e .
  from assms have "i \<le> sz - 1" by simp
  then have 2: "i div k \<le> (sz - 1) div k"
    by (rule div_le_mono)
  have "i div k < (sz + k - 1) div k"
    unfolding 1 using 2 by simp
  then show ?thesis
    using False by (simp only: n_blocks_def if_False)
qed

lemma block_of_in_all_blocks:
  "inside sz i \<Longrightarrow> block_of ch i \<in> set (all_blocks ch sz)"
  by (simp add: all_blocks_iff inside_iff block_of_def block_of_less)

lemma local_index_inside:
  assumes "inside sz i"
  shows "inside (block_sizes ch (block_of ch i) sz) (local_index ch i)"
proof -
  have "local_index ch i d < block_sizes ch (block_of ch i) sz d" for d
  proof (cases "ch d = 0")
    case True
    then show ?thesis
      using assms by (simp add: local_index_def block_sizes_def inside_iff)
  next
    case False
    from assms have lt: "i d < sz d" by (simp add: inside_iff)
    have "i d div ch d * ch d + i d mod ch d = i d" by simp
    with lt have "i d mod ch d < sz d - i d div ch d * ch d" by linarith
    then show ?thesis
      using False by (simp add: local_index_def block_sizes_def block_of_def)
  qed
  then show ?thesis by (simp add: inside_iff)
qed

lemma global_of_local: "global_index ch (block_of ch i) (local_index ch i) = i"
  by (rule ext) (simp add: global_index_def block_of_def local_index_def)

lemma find_block:
  "b0 \<in> set bs \<Longrightarrow>
   find (\<lambda>(b, a). same_block b b0) (map (\<lambda>b. (b, F b)) bs) = Some (b0, F b0)"
  by (induction bs) (auto simp: same_block_eq)

lemma block_local_block:
  assumes "block_local f st ch a" and "b \<in> set (all_blocks ch (sizes st))"
  shows "\<exists>p. f (block_state ch b st) = Inr p \<and> set (dims p) = set (dims a) \<and>
           (\<forall>i. inside (block_sizes ch b (sizes st)) i \<longrightarrow>
                cell p i = cell a (global_index ch b i))"
proof -
  from assms have "case f (block_state ch b st) of
                     Inl e \<Rightarrow> False
                   | Inr p \<Rightarrow> set (dims p) = set (dims a) \<and>
                       (\<forall>i. inside (block_sizes ch b (sizes st)) i \<longrightarrow>
                            cell p i = cell a (global_index ch b i))"
    by (simp add: block_local_def list_all_iff)
  then show ?thesis
    by (cases "f (block_state ch b st)") simp_all
qed

lemma materialize_deferred:
  assumes loc: "block_local f st ch a" and ds: "dims a = ds"
  shows "materialize (Deferred n attrs ds ch
            (map (\<lambda>b. (b, block_state ch b st)) (all_blocks ch (sizes st))) f)
         = Inr (Computed n attrs (attach attrs (assemble ds ch
              (map (\<lambda>b. (b, projr (f (block_state ch b st)))) (all_blocks ch (sizes st))))))"
proof -
  let ?bs = "all_blocks ch (sizes st)"
  let ?g = "\<lambda>(b, s). case run_validated f ds s of Inl e \<Rightarrow> Inl e | Inr a \<Rightarrow> Inr (b, a)"
  let ?h = "\<lambda>(b, s). (b, projr (f s))"
  have each: "?g x = Inr (?h x)" if "x \<in> set (map (\<lambda>b. (b, block_state ch b st)) ?bs)" for x
  proof -
    from that obtain b where b: "b \<in> set ?bs" and x: "x = (b, block_state ch b st)"
      by auto
    from block_local_block [OF loc b] obtain p where p: "f (block_state ch b st) = Inr p"
      and d: "set (dims p) = set (dims a)"
      by blast
    show ?thesis
      using p d ds by (simp add: x run_validated_def)
  qed
  have "for_each ?g (map (\<lambda>b. (b, block_state ch b st)) ?bs)
      = Inr (map ?h (map (\<lambda>b. (b, block_state ch b st)) ?bs))"
    using each by (rule for_each_map)
  then show ?thesis
    by (simp add: materialize_def comp_def)
qed

lemma assemble_cell:
  assumes loc: "block_local f st ch a" and ins: "inside (sizes st) i"
  shows "cell (assemble ds ch
              (map (\<lambda>b. (b, projr (f (block_state ch b st)))) (all_blocks ch (sizes st)))) i
         = cell a i"
proof -
  let ?b = "block_of ch i"
  have mem: "?b \<in> set (all_blocks ch (sizes st))"
    using ins by (rule block_of_in_all_blocks)
  from block_local_block [OF loc mem] obtain p where p: "f (block_state ch ?b st) = Inr p"
    and c: "\<And>j. inside (block_sizes ch ?b (sizes st)) j \<Longrightarrow>
                cell p j = cell a (global_index ch ?b j)"
    by blast
  have "cell p (local_index ch i) = cell a (global_index ch ?b (local_index ch i))"
    using local_index_inside [OF ins] by (rule c)
  then have "cell p (local_index ch i) = cell a i"
    by (simp add: global_of_local)
  then show ?thesis
    using p by (simp add: assemble_def find_block [OF mem])
qed

lemma apply_map_block_lazy_eager:
  assumes "f st = Inr a" and "dims a = ds" and "block_local f st ch a"
  shows "\<exists>e l m. apply_map_block f st (Template n ds attrs ch) = Inr (Computed n attrs e) \<and>
           apply_map_block f st (TemplateLazy n ds attrs ch model_name) = Inr l \<and>
           forcing_name l = n \<and> forcing_attrs l = attrs \<and> forcing_dims l = dims e \<and>
           materialize l = Inr (Computed n attrs m) \<and>
           dims m = dims e \<and> units m = units e \<and>
           (\<forall>i. inside (sizes st) i \<longrightarrow> cell m i = cell e i)"
proof -
  let ?tasks = "map (\<lambda>b. (b, block_state ch b st)) (all_blocks ch (sizes st))"
  let ?l = "Deferred n attrs ds ch ?tasks f"
  let ?parts = "map (\<lambda>b. (b, projr (f (block_state ch b st)))) (all_blocks ch (sizes st))"
  let ?m = "attach attrs (assemble ds ch ?parts)"
  have e: "apply_map_block f st (Template n ds attrs ch) = Inr (Computed n attrs (attach attrs a))"
    using assms(1,2) by (simp add: apply_map_block_def run_validated_def)
  have l: "apply_map_block f st (TemplateLazy n ds attrs ch model_name) = Inr ?l"
    by (simp add: apply_map_block_def)
  have m: "materialize ?l = Inr (Computed n attrs ?m)"
    using assms(3,2) by (rule materialize_deferred)
  have d: "dims ?m = dims (attach attrs a)" and u: "units ?m = units (attach attrs a)"
    using assms(2) by (simp_all add: attach_def assemble_def)
  have c: "cell ?m i = cell (attach attrs a) i" if "inside (sizes st) i" for i
    using assemble_cell [OF assms(3) that, of ds] by (simp add: attach_def)
  have fd: "forcing_dims ?l = dims (attach attrs a)"
    using assms(2) by (simp add: attach_def)
  show ?thesis
    using e l m d u c fd
    by (intro exI [of _ "attach attrs a"] exI [of _ ?l] exI [of _ ?m]) simp
qed







text \<open>
  The helper of the average temperature is block-local for every chunk specification that
  splits neither the layers nor the functional groups, when the day and night layers
  depend on the functional group only.  Hence the wrapper of the sources returns the same
  values eagerly and lazily for such a specification.
\<close>

lemma check_units_block:
  assumes "check_units convert t u = Inr t'"
  shows "check_units convert (block_array ch b t) u = Inr (block_array ch b t')"
  using assms
  by (auto simp: check_units_def block_array_def comp_def
        split: option.splits if_splits)

lemma global_index_upd_Z:
  "ch CoordinatesLabels_Z = 0 \<Longrightarrow>
   global_index ch b (i (CoordinatesLabels_Z := p)) = (global_index ch b i) (CoordinatesLabels_Z := p)"
  by (rule ext) (simp add: global_index_def)

lemma helper_block_local:
  assumes tv: "variables st (Conf ConfigurationLabels_temperature) = Some (Float_array t0)"
    and dv: "variables st (Pre PreproductionLabels_day_length) = Some (Float_array d0)"
    and mv: "variables st (Pre PreproductionLabels_mask_by_fgroup) = Some (Bool_array msk)"
    and dl: "variables st (Conf ConfigurationLabels_day_layer) = Some (Int_array dlayer)"
    and nl: "variables st (Conf ConfigurationLabels_night_layer) = Some (Int_array nlayer)"
    and tu: "check_units convert t0 StandardUnitsLabels_temperature_units = Inr temp"
    and du: "check_units convert d0 StandardUnitsLabels_time_units = Inr dlen"
    and dz: "CoordinatesLabels_Z \<in> set (dims temp)"
    and dm: "CoordinatesLabels_functional_group \<in> set (dims msk)"
    and dd: "CoordinatesLabels_functional_group \<in> set (dims dlayer)"
    and dn: "CoordinatesLabels_functional_group \<in> set (dims nlayer)"
    and lab: "\<And>g. g < sizes st CoordinatesLabels_functional_group \<Longrightarrow>
        label_position (cell dlayer ((\<lambda>d. 0) (CoordinatesLabels_functional_group := g)))
          (coords_Z st) \<noteq> None \<and>
        label_position (cell nlayer ((\<lambda>d. 0) (CoordinatesLabels_functional_group := g)))
          (coords_Z st) \<noteq> None"
    and pos: "0 < sizes st CoordinatesLabels_functional_group"
    and cz: "ch CoordinatesLabels_Z = 0"
    and cg: "ch CoordinatesLabels_functional_group = 0"
    and wd: "\<And>i j. i CoordinatesLabels_functional_group = j CoordinatesLabels_functional_group
               \<Longrightarrow> cell dlayer i = cell dlayer j"
    and wn: "\<And>i j. i CoordinatesLabels_functional_group = j CoordinatesLabels_functional_group
               \<Longrightarrow> cell nlayer i = cell nlayer j"
    and run: "average_temperature_by_fgroup_helper convert st = Inr a"
  shows "block_local (average_temperature_by_fgroup_helper convert) st ch a"
proof -
  let ?fg = "CoordinatesLabels_functional_group"
  let ?n = "sizes st ?fg"
  from helper_result [OF tv dv mv dl nl tu du dz dm dd dn lab pos] run
  have ad: "dims a = ?fg # broadcast_dims
                    (broadcast_dims
                       (broadcast_dims (dims dlen) (remove1 CoordinatesLabels_Z (dims temp)))
                       (broadcast_dims (dims dlen) (remove1 CoordinatesLabels_Z (dims temp))))
                    (remove1 ?fg (dims msk))"
    and ac: "\<And>i p q. i ?fg < ?n \<Longrightarrow>
               label_position (cell dlayer ((\<lambda>d. 0) (?fg := i ?fg))) (coords_Z st) = Some p \<Longrightarrow>
               label_position (cell nlayer ((\<lambda>d. 0) (?fg := i ?fg))) (coords_Z st) = Some q \<Longrightarrow>
               cell a i =
                 (if cell msk i
                  then fadd (fmul (cell dlen i) (cell temp (i (CoordinatesLabels_Z := p))))
                         (fmul (fsub (Some 1) (cell dlen i))
                            (cell temp (i (CoordinatesLabels_Z := q))))
                  else None)"
    by auto
  have blk: "\<exists>p. average_temperature_by_fgroup_helper convert (block_state ch b st) = Inr p \<and>
        set (dims p) = set (dims a) \<and>
        (\<forall>i. inside (block_sizes ch b (sizes st)) i \<longrightarrow> cell p i = cell a (global_index ch b i))"
    for b
  proof -
    let ?st = "block_state ch b st"
    have z': "coords_Z ?st = coords_Z st" and n': "sizes ?st ?fg = ?n"
      using cz cg by (simp_all add: block_state_def block_sizes_def)
    have tv': "variables ?st (Conf ConfigurationLabels_temperature)
        = Some (Float_array (block_array ch b t0))"
      and dv': "variables ?st (Pre PreproductionLabels_day_length)
        = Some (Float_array (block_array ch b d0))"
      and mv': "variables ?st (Pre PreproductionLabels_mask_by_fgroup)
        = Some (Bool_array (block_array ch b msk))"
      and dl': "variables ?st (Conf ConfigurationLabels_day_layer)
        = Some (Int_array (block_array ch b dlayer))"
      and nl': "variables ?st (Conf ConfigurationLabels_night_layer)
        = Some (Int_array (block_array ch b nlayer))"
      using tv dv mv dl nl by (simp_all add: block_state_def)
    have tu': "check_units convert (block_array ch b t0) StandardUnitsLabels_temperature_units
        = Inr (block_array ch b temp)"
      using tu by (rule check_units_block)
    have du': "check_units convert (block_array ch b d0) StandardUnitsLabels_time_units
        = Inr (block_array ch b dlen)"
      using du by (rule check_units_block)
    have dz': "CoordinatesLabels_Z \<in> set (dims (block_array ch b temp))"
      and dm': "?fg \<in> set (dims (block_array ch b msk))"
      and dd': "?fg \<in> set (dims (block_array ch b dlayer))"
      and dn': "?fg \<in> set (dims (block_array ch b nlayer))"
      using dz dm dd dn by (simp_all add: block_array_def)
    have ld: "cell (block_array ch b dlayer) ((\<lambda>d. 0) (?fg := g))
        = cell dlayer ((\<lambda>d. 0) (?fg := g))" for g
    proof -
      have "global_index ch b ((\<lambda>d. 0) (?fg := g)) ?fg = ((\<lambda>d. 0) (?fg := g)) ?fg"
        using cg by (simp add: global_index_def)
      then have "cell dlayer (global_index ch b ((\<lambda>d. 0) (?fg := g)))
          = cell dlayer ((\<lambda>d. 0) (?fg := g))"
        by (rule wd)
      then show ?thesis
        by (simp add: block_array_def)
    qed
    have ln: "cell (block_array ch b nlayer) ((\<lambda>d. 0) (?fg := g))
        = cell nlayer ((\<lambda>d. 0) (?fg := g))" for g
    proof -
      have "global_index ch b ((\<lambda>d. 0) (?fg := g)) ?fg = ((\<lambda>d. 0) (?fg := g)) ?fg"
        using cg by (simp add: global_index_def)
      then have "cell nlayer (global_index ch b ((\<lambda>d. 0) (?fg := g)))
          = cell nlayer ((\<lambda>d. 0) (?fg := g))"
        by (rule wn)
      then show ?thesis
        by (simp add: block_array_def)
    qed
    have lab': "label_position (cell (block_array ch b dlayer) ((\<lambda>d. 0) (?fg := g)))
          (coords_Z ?st) \<noteq> None \<and>
        label_position (cell (block_array ch b nlayer) ((\<lambda>d. 0) (?fg := g)))
          (coords_Z ?st) \<noteq> None"
      if "g < sizes ?st ?fg" for g
      using that lab [of g] by (simp add: ld ln z' n')
    have pos': "0 < sizes ?st ?fg"
      using pos by (simp add: n')
    from helper_result [OF tv' dv' mv' dl' nl' tu' du' dz' dm' dd' dn' lab' pos']
    obtain p where pr: "average_temperature_by_fgroup_helper convert ?st = Inr p"
      and pd0: "dims p = ?fg # broadcast_dims
                    (broadcast_dims
                       (broadcast_dims (dims (block_array ch b dlen))
                          (remove1 CoordinatesLabels_Z (dims (block_array ch b temp))))
                       (broadcast_dims (dims (block_array ch b dlen))
                          (remove1 CoordinatesLabels_Z (dims (block_array ch b temp)))))
                    (remove1 ?fg (dims (block_array ch b msk)))"
      and pc0: "\<forall>i x y. i ?fg < sizes ?st ?fg \<and>
               label_position (cell (block_array ch b dlayer) ((\<lambda>d. 0) (?fg := i ?fg)))
                 (coords_Z ?st) = Some x \<and>
               label_position (cell (block_array ch b nlayer) ((\<lambda>d. 0) (?fg := i ?fg)))
                 (coords_Z ?st) = Some y \<longrightarrow>
               cell p i =
                 (if cell (block_array ch b msk) i
                  then fadd (fmul (cell (block_array ch b dlen) i)
                               (cell (block_array ch b temp) (i (CoordinatesLabels_Z := x))))
                         (fmul (fsub (Some 1) (cell (block_array ch b dlen) i))
                            (cell (block_array ch b temp) (i (CoordinatesLabels_Z := y))))
                  else None)"
      by blast
    have bd: "dims (block_array ch b dlen) = dims dlen"
      "dims (block_array ch b temp) = dims temp" "dims (block_array ch b msk) = dims msk"
      by (simp_all add: block_array_def)
    have pd: "dims p = dims a"
      unfolding pd0 ad bd ..
    have pc: "cell p i =
                 (if cell (block_array ch b msk) i
                  then fadd (fmul (cell (block_array ch b dlen) i)
                               (cell (block_array ch b temp) (i (CoordinatesLabels_Z := x))))
                         (fmul (fsub (Some 1) (cell (block_array ch b dlen) i))
                            (cell (block_array ch b temp) (i (CoordinatesLabels_Z := y))))
                  else None)"
      if "i ?fg < ?n"
        and "label_position (cell dlayer ((\<lambda>d. 0) (?fg := i ?fg))) (coords_Z st) = Some x"
        and "label_position (cell nlayer ((\<lambda>d. 0) (?fg := i ?fg))) (coords_Z st) = Some y"
      for i x y
    proof -
      have "i ?fg < sizes ?st ?fg \<and>
               label_position (cell (block_array ch b dlayer) ((\<lambda>d. 0) (?fg := i ?fg)))
                 (coords_Z ?st) = Some x \<and>
               label_position (cell (block_array ch b nlayer) ((\<lambda>d. 0) (?fg := i ?fg)))
                 (coords_Z ?st) = Some y"
        unfolding ld ln z' n' using that by blast
      with pc0 show ?thesis by blast
    qed
    have "cell p i = cell a (global_index ch b i)"
      if ins: "inside (block_sizes ch b (sizes st)) i" for i
    proof -
      let ?G = "global_index ch b i"
      have g: "?G ?fg = i ?fg"
        using cg by (simp add: global_index_def)
      from ins have lt: "i ?fg < ?n"
        using cg by (simp add: inside_iff block_sizes_def) (metis cg)
      from lab [OF lt] obtain x y
        where x: "label_position (cell dlayer ((\<lambda>d. 0) (?fg := i ?fg))) (coords_Z st) = Some x"
          and y: "label_position (cell nlayer ((\<lambda>d. 0) (?fg := i ?fg))) (coords_Z st) = Some y"
        by auto
      have 1: "cell p i =
                 (if cell msk ?G
                  then fadd (fmul (cell dlen ?G) (cell temp (?G (CoordinatesLabels_Z := x))))
                         (fmul (fsub (Some 1) (cell dlen ?G))
                            (cell temp (?G (CoordinatesLabels_Z := y))))
                  else None)"
        using pc [of i x y] lt x y cz
        by (simp add: block_array_def global_index_upd_Z)
      have 2: "cell a ?G =
                 (if cell msk ?G
                  then fadd (fmul (cell dlen ?G) (cell temp (?G (CoordinatesLabels_Z := x))))
                         (fmul (fsub (Some 1) (cell dlen ?G))
                            (cell temp (?G (CoordinatesLabels_Z := y))))
                  else None)"
        using ac [of ?G x y] lt x y by (simp add: g)
      from 1 2 show ?thesis by simp
    qed
    with pr pd show ?thesis by auto
  qed
  show ?thesis
    unfolding block_local_def list_all_iff
  proof
    fix b
    assume "b \<in> set (all_blocks ch (sizes st))"
    from blk [of b] obtain p
      where "average_temperature_by_fgroup_helper convert (block_state ch b st) = Inr p"
        and "set (dims p) = set (dims a)"
        and "\<forall>i. inside (block_sizes ch b (sizes st)) i \<longrightarrow> cell p i = cell a (global_index ch b i)"
      by blast
    then show "case average_temperature_by_fgroup_helper convert (block_state ch b st) of
                 Inl e \<Rightarrow> False
               | Inr p \<Rightarrow> set (dims p) = set (dims a) \<and>
                   (\<forall>i. inside (block_sizes ch b (sizes st)) i \<longrightarrow>
                        cell p i = cell a (global_index ch b i))"
      by simp
  qed
qed

lemma average_temperature_lazy_equals_eager:
  assumes "variables st (Conf ConfigurationLabels_temperature) = Some (Float_array t0)"
    and "variables st (Pre PreproductionLabels_day_length) = Some (Float_array d0)"
    and "variables st (Pre PreproductionLabels_mask_by_fgroup) = Some (Bool_array msk)"
    and "variables st (Conf ConfigurationLabels_day_layer) = Some (Int_array dlayer)"
    and "variables st (Conf ConfigurationLabels_night_layer) = Some (Int_array nlayer)"
    and "check_units convert t0 StandardUnitsLabels_temperature_units = Inr temp"
    and "check_units convert d0 StandardUnitsLabels_time_units = Inr dlen"
    and "dims temp = [CoordinatesLabels_time, CoordinatesLabels_Y, CoordinatesLabels_X,
                      CoordinatesLabels_Z]"
    and "dims dlen = [CoordinatesLabels_time, CoordinatesLabels_Y, CoordinatesLabels_X]"
    and "dims msk = [CoordinatesLabels_functional_group, CoordinatesLabels_Y, CoordinatesLabels_X]"
    and "dims dlayer = [CoordinatesLabels_functional_group]"
    and "dims nlayer = [CoordinatesLabels_functional_group]"
    and "\<And>g. g < sizes st CoordinatesLabels_functional_group \<Longrightarrow>
        label_position (cell dlayer ((\<lambda>d. 0) (CoordinatesLabels_functional_group := g)))
          (coords_Z st) \<noteq> None \<and>
        label_position (cell nlayer ((\<lambda>d. 0) (CoordinatesLabels_functional_group := g)))
          (coords_Z st) \<noteq> None"
    and "0 < sizes st CoordinatesLabels_functional_group"
    and "ch CoordinatesLabels_Z = 0"
    and "ch CoordinatesLabels_functional_group = 0"
    and "\<And>i j. i CoordinatesLabels_functional_group = j CoordinatesLabels_functional_group
               \<Longrightarrow> cell dlayer i = cell dlayer j"
    and "\<And>i j. i CoordinatesLabels_functional_group = j CoordinatesLabels_functional_group
               \<Longrightarrow> cell nlayer i = cell nlayer j"
  shows "\<exists>e m. average_temperature desc convert st ch None
             = Inr (Computed PreproductionLabels_avg_temperature_by_fgroup desc e) \<and>
           force (average_temperature desc convert st ch (Some model_name))
             = Inr (Computed PreproductionLabels_avg_temperature_by_fgroup desc m) \<and>
           dims m = dims e \<and> units m = units e \<and>
           (\<forall>i. inside (sizes st) i \<longrightarrow> cell m i = cell e i)"
proof -
  have dz: "CoordinatesLabels_Z \<in> set (dims temp)"
    and dm: "CoordinatesLabels_functional_group \<in> set (dims msk)"
    and dd: "CoordinatesLabels_functional_group \<in> set (dims dlayer)"
    and dn: "CoordinatesLabels_functional_group \<in> set (dims nlayer)"
    using assms(8,10,11,12) by simp_all
  from helper_result [OF assms(1-7) dz dm dd dn assms(13) assms(14)]
  obtain a where run: "average_temperature_by_fgroup_helper convert st = Inr a"
    and ad: "dims a = [CoordinatesLabels_functional_group, CoordinatesLabels_time,
                       CoordinatesLabels_Y, CoordinatesLabels_X]"
    by (auto simp: assms(8,9,10) broadcast_dims_def)
  have loc: "block_local (average_temperature_by_fgroup_helper convert) st ch a"
    using assms(1-7) dz dm dd dn assms(13-18) run by (rule helper_block_local)
  from apply_map_block_lazy_eager [OF run ad loc,
      of PreproductionLabels_avg_temperature_by_fgroup desc model_name]
  show ?thesis
    by (auto simp: average_temperature_def force_def)
qed

end
